theory Spec2Isabelle
  imports Main "HOL-Library.Word"
begin


section \<open>Errors and results\<close>

text \<open>
  A value thrown by the TypeScript code. \<open>Error m\<close> is an \<^verbatim>\<open>Error\<close> instance whose
  message is \<open>m\<close>: every \<^verbatim>\<open>throw new Error(...)\<close> of the repository is one. \<open>LibError d\<close>
  is an \<^verbatim>\<open>Error\<close> instance raised inside a library or by the runtime (a codec, the RPC
  transport, a \<^verbatim>\<open>TypeError\<close>, a \<^verbatim>\<open>SyntaxError\<close>); its message is the library's own
  sentence and never one of the protocol's reason strings.
  \<open>SolanaError c\<close> is a \<^verbatim>\<open>SolanaError\<close> with code \<open>c\<close>, \<open>DOMException n\<close> a
  \<^verbatim>\<open>DOMException\<close> with name \<open>n\<close>, and \<open>NonError v\<close> a thrown value that is not an
  \<^verbatim>\<open>Error\<close> instance.
\<close>

datatype js_error =
    Error string
  | LibError string
  | SolanaError nat
  | DOMException string
  | NonError string

text \<open>Sequencing of fallible steps: the first throw ends the computation.\<close>

definition and_then :: "js_error + 'a \<Rightarrow> ('a \<Rightarrow> js_error + 'b) \<Rightarrow> js_error + 'b" where
  "and_then m f = (case m of Inl e \<Rightarrow> Inl e | Inr v \<Rightarrow> f v)"

text \<open>\<^verbatim>\<open>ErrorReasons\<close> of types/verify/x402Specs.ts, in the order of the source.\<close>

definition ErrorReasons :: "string list" where
  "ErrorReasons =
    [''insufficient_funds'',
     ''invalid_exact_evm_payload_authorization_valid_after'',
     ''invalid_exact_evm_payload_authorization_valid_before'',
     ''invalid_exact_evm_payload_authorization_value'',
     ''invalid_exact_evm_payload_signature'',
     ''invalid_exact_evm_payload_recipient_mismatch'',
     ''invalid_exact_svm_payload_transaction'',
     ''invalid_exact_svm_payload_transaction_amount_mismatch'',
     ''invalid_exact_svm_payload_transaction_create_ata_instruction'',
     ''invalid_exact_svm_payload_transaction_create_ata_instruction_incorrect_payee'',
     ''invalid_exact_svm_payload_transaction_create_ata_instruction_incorrect_asset'',
     ''invalid_exact_svm_payload_transaction_instructions'',
     ''invalid_exact_svm_payload_transaction_instructions_length'',
     ''invalid_exact_svm_payload_transaction_instructions_compute_limit_instruction'',
     ''invalid_exact_svm_payload_transaction_instructions_compute_price_instruction'',
     ''invalid_exact_svm_payload_transaction_instructions_compute_price_instruction_too_high'',
     ''invalid_exact_svm_payload_transaction_instruction_not_spl_token_transfer_checked'',
     ''invalid_exact_svm_payload_transaction_instruction_not_token_2022_transfer_checked'',
     ''invalid_exact_svm_payload_transaction_not_a_transfer_instruction'',
     ''invalid_exact_svm_payload_transaction_receiver_ata_not_found'',
     ''invalid_exact_svm_payload_transaction_sender_ata_not_found'',
     ''invalid_exact_svm_payload_transaction_simulation_failed'',
     ''invalid_exact_svm_payload_transaction_transfer_to_incorrect_ata'',
     ''invalid_network'',
     ''invalid_payload'',
     ''invalid_payment_requirements'',
     ''invalid_scheme'',
     ''invalid_payment'',
     ''payment_expired'',
     ''unsupported_scheme'',
     ''invalid_x402_version'',
     ''invalid_transaction_state'',
     ''invalid_x402_version'',
     ''settle_exact_svm_block_height_exceeded'',
     ''settle_exact_svm_transaction_confirmation_timed_out'',
     ''unsupported_scheme'',
     ''unexpected_settle_error'',
     ''unexpected_verify_error'']"

section \<open>Payment requirements, payloads and instructions\<close>

type_synonym address = string

text \<open>
  \<^verbatim>\<open>extra\<close> of the requirements: the fee payer on Solana, the EIP-712 name and version
  of the token on the EVM networks.
\<close>

datatype requirements_extra = NoExtra | FeePayer address | Eip712 string string

text \<open>\<^verbatim>\<open>PaymentRequirements\<close>, without the opaque \<^verbatim>\<open>outputSchema\<close>.\<close>

record PaymentRequirements =
  scheme :: string
  network :: string
  maxAmountRequired :: string
  resource :: string
  description :: string
  mimeType :: string
  payTo :: address
  maxTimeoutSeconds :: nat
  asset :: address
  extra :: requirements_extra

text \<open>
  \<^verbatim>\<open>PaymentPayload\<close>: \<open>payloadTransaction\<close> is \<^verbatim>\<open>payload.payload.transaction\<close>, the
  base64 wire form of the client's transaction; \<open>payloadScheme\<close> and \<open>payloadNetwork\<close>
  are its \<^verbatim>\<open>scheme\<close> and \<^verbatim>\<open>network\<close>.
\<close>

record PaymentPayload =
  x402Version :: nat
  payloadScheme :: string
  payloadNetwork :: string
  payloadTransaction :: string

text \<open>
  A decompiled instruction (\<^verbatim>\<open>Instruction\<close> of @solana/kit): \<open>accounts\<close> and \<open>data\<close>
  are optional properties, \<open>None\<close> when the property is absent. An account meta is
  represented by its address.
\<close>

record Instruction =
  programAddress :: address
  accounts :: "address list option"
  data :: "8 word list option"

definition COMPUTE_BUDGET_PROGRAM_ADDRESS :: address where
  "COMPUTE_BUDGET_PROGRAM_ADDRESS = ''ComputeBudget111111111111111111111111111111''"

definition TOKEN_PROGRAM_ADDRESS :: address where
  "TOKEN_PROGRAM_ADDRESS = ''TokenkegQfeZyiNwAJbNbGKPFXCWuBvf9Ss623VQ5DA''"

definition TOKEN_2022_PROGRAM_ADDRESS :: address where
  "TOKEN_2022_PROGRAM_ADDRESS = ''TokenzQdBNbLqP5VEhdkAS6EPFLC1PHnBqCXEpPxuEb''"

definition SCHEME :: string where
  "SCHEME = ''exact''"

text \<open>\<^verbatim>\<open>SupportedSVMNetworks\<close> of types/shared/network.ts.\<close>

definition SupportedSVMNetworks :: "string list" where
  "SupportedSVMNetworks = [''solana-devnet'', ''solana'']"

subsection \<open>Instruction codecs of the Solana program libraries\<close>

text \<open>
  The parsers are library functions (@solana-program/compute-budget, token, token-2022).
  They decode a fixed little-endian layout and raise a library error when the data is
  shorter than the layout or the account list shorter than the instruction's accounts;
  trailing bytes are ignored. They do not look at the program address.
\<close>

definition le_bytes :: "8 word list \<Rightarrow> nat" where
  "le_bytes bs = foldr (\<lambda>b acc. unat b + 256 * acc) bs 0"

text \<open>\<^verbatim>\<open>SetComputeUnitLimit\<close>: discriminator u8, units u32.\<close>

definition parseSetComputeUnitLimitInstruction :: "Instruction \<Rightarrow> js_error + 32 word" where
  "parseSetComputeUnitLimitInstruction ix =
     (case data ix of
        None \<Rightarrow> Inl (LibError ''instruction has no data'')
      | Some bs \<Rightarrow>
          if length bs < 5 then Inl (LibError ''codec: not enough bytes'')
          else Inr (of_nat (le_bytes (take 4 (drop 1 bs)))))"

text \<open>\<^verbatim>\<open>SetComputeUnitPrice\<close>: discriminator u8, microLamports u64.\<close>

definition parseSetComputeUnitPriceInstruction :: "Instruction \<Rightarrow> js_error + 64 word" where
  "parseSetComputeUnitPriceInstruction ix =
     (case data ix of
        None \<Rightarrow> Inl (LibError ''instruction has no data'')
      | Some bs \<Rightarrow>
          if length bs < 9 then Inl (LibError ''codec: not enough bytes'')
          else Inr (of_nat (le_bytes (take 8 (drop 1 bs)))))"

text \<open>
  \<^verbatim>\<open>CreateAssociatedToken\<close>: accounts payer, ata, owner, mint, systemProgram,
  tokenProgram; data is the discriminator u8.
\<close>

record ParsedCreateAssociatedToken =
  owner :: address
  mint :: address

definition parseCreateAssociatedTokenInstruction ::
  "address list \<Rightarrow> 8 word list \<Rightarrow> js_error + ParsedCreateAssociatedToken" where
  "parseCreateAssociatedTokenInstruction accs bs =
     (if length accs < 6 then Inl (LibError ''Not enough accounts'')
      else if length bs < 1 then Inl (LibError ''codec: not enough bytes'')
      else Inr \<lparr>owner = accs ! 2, mint = accs ! 3\<rparr>)"

text \<open>
  \<^verbatim>\<open>TransferChecked\<close> (the same layout in both token programs): accounts source, mint,
  destination, authority; data is discriminator u8, amount u64, decimals u8.
\<close>

record ParsedTransferChecked =
  tokenProgram :: address
  source :: address
  transferMint :: address
  destination :: address
  authority :: address
  amount :: "64 word"
  decimals :: "8 word"

definition parseTransferCheckedInstruction ::
  "address \<Rightarrow> address list \<Rightarrow> 8 word list \<Rightarrow> js_error + ParsedTransferChecked" where
  "parseTransferCheckedInstruction prog accs bs =
     (if length accs < 4 then Inl (LibError ''Not enough accounts'')
      else if length bs < 10 then Inl (LibError ''codec: not enough bytes'')
      else Inr \<lparr>tokenProgram = prog, source = accs ! 0, transferMint = accs ! 1,
                 destination = accs ! 2, authority = accs ! 3,
                 amount = of_nat (le_bytes (take 8 (drop 1 bs))),
                 decimals = bs ! 9\<rparr>)"

text \<open>
  What \<^verbatim>\<open>identifyTokenInstruction\<close> and \<^verbatim>\<open>identifyToken2022Instruction\<close> return, as far
  as the verifier distinguishes it.
\<close>

datatype token_instruction = TransferChecked | OtherTokenInstruction

subsection \<open>The facilitator's collaborators\<close>

text \<open>
  \<^verbatim>\<open>MaybeEncodedAccount\<close> as returned by \<^verbatim>\<open>fetchEncodedAccounts\<close>.
\<close>

record MaybeAccount =
  accountAddress :: address
  exists :: bool

text \<open>\<^verbatim>\<open>CompiledTransactionMessage\<close>, as far as getTokenPayerFromTransaction reads it.\<close>

record CompiledInstruction =
  programAddressIndex :: nat
  accountIndices :: "nat list option"

record CompiledTransactionMessage =
  staticAccounts :: "address list"
  instructions :: "CompiledInstruction list"

text \<open>
  Everything the facilitator code calls outside the repository: the transaction codecs of
  @solana/kit, the instruction identifiers of the token libraries, the derivation of the
  associated token address, and the RPC node, for one facilitator key and one cluster.
  \<open>'tx\<close> is a decoded \<^verbatim>\<open>Transaction\<close>, \<open>'stx\<close> a fully signed one. Each field gives
  the outcome of the call: \<open>Inl\<close> when it throws or the promise rejects.
  \<^item> \<open>decodeTransaction\<close>: the base64 encoder followed by the transaction decoder;
    \<open>None\<close> when either throws.
  \<^item> \<open>decodeCompiledMessage\<close>: \<^verbatim>\<open>getCompiledTransactionMessageDecoder().decode(tx.messageBytes)\<close>.
  \<^item> \<open>signAndSimulate\<close>: \<^verbatim>\<open>signAndSimulateTransaction\<close>; the result is
    \<^verbatim>\<open>simulateResult.value?.err\<close>.
  \<^item> \<open>createSolanaRpc\<close>, \<open>createSolanaRpcSubscriptions\<close>: the construction of the
    HTTP client and of the websocket client for a URL.
  \<^item> \<open>decodeSignedMessage\<close>:
    \<^verbatim>\<open>getCompiledTransactionMessageDecoder().decode(signedTransaction.messageBytes)\<close>.
  \<^item> \<open>fetchLifetime\<close>: \<^verbatim>\<open>decompileTransactionMessageFetchingLookupTables\<close>, as far as its
    result is read: the lifetime constraint of the message.
  \<^item> \<open>confirmationRace\<close>: how the race of the signature-confirmation promise against the
    block-height-exceedence promise would end if it were never aborted, and after how many
    milliseconds, counted from the moment confirmSignedTransaction sets its timer;
    \<open>None\<close> when neither promise ever settles.
  \<^item> \<open>abortRejection\<close>: what \<^verbatim>\<open>waitForRecentTransactionConfirmation\<close> rejects with when
    its abort signal fires.
  \<^item> \<open>getBlockHeight\<close>, \<open>getSignatureStatuses\<close>: the two requests of the polling loop.
    The argument is the time of the request and the second component of the result the
    time of the answer, both in milliseconds since the loop began; the status is
    \<^verbatim>\<open>statusResponse.value[0]\<close>, \<open>None\<close> for \<^verbatim>\<open>null\<close>.
\<close>

text \<open>The lifetime constraint of a decompiled message.\<close>

datatype lifetime = BlockhashLifetime nat | DurableNonceLifetime

text \<open>An entry of \<^verbatim>\<open>getSignatureStatuses\<close>: whether \<^verbatim>\<open>err\<close> is set, and \<^verbatim>\<open>confirmationStatus\<close>.\<close>

record SignatureStatus =
  statusErr :: bool
  confirmationStatus :: "string option"

record ('tx, 'stx) facilitator_env =
  decodeTransaction :: "string \<Rightarrow> 'tx option"
  decodeCompiledMessage :: "'tx \<Rightarrow> js_error + CompiledTransactionMessage"
  decompileTransactionMessage :: "CompiledTransactionMessage \<Rightarrow> js_error + Instruction list"
  identifyTokenInstruction :: "Instruction \<Rightarrow> js_error + token_instruction"
  identifyToken2022Instruction :: "Instruction \<Rightarrow> js_error + token_instruction"
  findAssociatedTokenPda :: "address \<Rightarrow> address \<Rightarrow> address \<Rightarrow> js_error + address"
  fetchEncodedAccounts :: "address list \<Rightarrow> js_error + MaybeAccount list"
  signAndSimulate :: "'tx \<Rightarrow> js_error + string option"
  signTransaction :: "'tx \<Rightarrow> js_error + 'stx"
  getSignatureFromTransaction :: "'stx \<Rightarrow> string"
  sendTransaction :: "'stx \<Rightarrow> js_error + string"
  createSolanaRpc :: "string \<Rightarrow> js_error + unit"
  createSolanaRpcSubscriptions :: "string \<Rightarrow> js_error + unit"
  decodeSignedMessage :: "'stx \<Rightarrow> js_error + CompiledTransactionMessage"
  fetchLifetime :: "CompiledTransactionMessage \<Rightarrow> js_error + lifetime"
  confirmationRace :: "'stx \<Rightarrow> ((js_error + unit) \<times> nat) option"
  abortRejection :: js_error
  getBlockHeight :: "nat \<Rightarrow> (js_error + nat) \<times> nat"
  getSignatureStatuses :: "'stx \<Rightarrow> nat \<Rightarrow> (js_error + SignatureStatus option) \<times> nat"

section \<open>The transaction introspector (schemes/exact/svm/facilitator/verify.ts)\<close>

definition verifySchemesAndNetworks :: "PaymentPayload \<Rightarrow> PaymentRequirements \<Rightarrow> js_error + unit" where
  "verifySchemesAndNetworks payload paymentRequirements =
     (if payloadScheme payload \<noteq> SCHEME \<or> scheme paymentRequirements \<noteq> SCHEME
      then Inl (Error ''unsupported_scheme'')
      else if payloadNetwork payload \<noteq> network paymentRequirements
              \<or> network paymentRequirements \<notin> set SupportedSVMNetworks
      then Inl (Error ''invalid_network'')
      else Inr ())"

text \<open>\<^verbatim>\<open>instruction.data?.[0]\<close>: \<open>None\<close> is \<^verbatim>\<open>undefined\<close>.\<close>

definition first_data_byte :: "Instruction \<Rightarrow> 8 word option" where
  "first_data_byte ix =
     (case data ix of None \<Rightarrow> None | Some [] \<Rightarrow> None | Some (b # _) \<Rightarrow> Some b)"

text \<open>The whole body is in a \<^verbatim>\<open>try\<close> whose \<^verbatim>\<open>catch\<close> rethrows the one reason.\<close>

definition verifyComputeLimitInstruction :: "Instruction \<Rightarrow> js_error + unit" where
  "verifyComputeLimitInstruction ix =
     (case (if programAddress ix \<noteq> COMPUTE_BUDGET_PROGRAM_ADDRESS \<or> first_data_byte ix \<noteq> Some 2
            then Inl (Error ''invalid_exact_svm_payload_transaction_instructions_compute_limit_instruction'')
            else and_then (parseSetComputeUnitLimitInstruction ix) (\<lambda>_. Inr ()))
      of Inl _ \<Rightarrow> Inl (Error ''invalid_exact_svm_payload_transaction_instructions_compute_limit_instruction'')
       | Inr u \<Rightarrow> Inr u)"

text \<open>No \<^verbatim>\<open>try\<close> here: what the parser throws leaves the function as it is.\<close>

definition verifyComputePriceInstruction :: "Instruction \<Rightarrow> js_error + unit" where
  "verifyComputePriceInstruction ix =
     (if programAddress ix \<noteq> COMPUTE_BUDGET_PROGRAM_ADDRESS \<or> first_data_byte ix \<noteq> Some 3
      then Inl (Error ''invalid_exact_svm_payload_transaction_instructions_compute_price_instruction'')
      else and_then (parseSetComputeUnitPriceInstruction ix) (\<lambda>microLamports.
        if unat microLamports > 5 * 1000000
        then Inl (Error ''invalid_exact_svm_payload_transaction_instructions_compute_price_instruction_too_high'')
        else Inr ()))"

text \<open>
  The \<^verbatim>\<open>try\<close> block of verifyCreateATAInstruction: the two assertions that the
  properties are present, then the parser.
\<close>

definition refineCreateATAInstruction :: "Instruction \<Rightarrow> js_error + ParsedCreateAssociatedToken" where
  "refineCreateATAInstruction ix =
     (case accounts ix of
        None \<Rightarrow> Inl (LibError ''instruction has no accounts'')
      | Some accs \<Rightarrow>
          (case data ix of
             None \<Rightarrow> Inl (LibError ''instruction has no data'')
           | Some bs \<Rightarrow> parseCreateAssociatedTokenInstruction accs bs))"

definition verifyCreateATAInstruction :: "Instruction \<Rightarrow> PaymentRequirements \<Rightarrow> js_error + unit" where
  "verifyCreateATAInstruction ix paymentRequirements =
     (case refineCreateATAInstruction ix of
        Inl _ \<Rightarrow> Inl (Error ''invalid_exact_svm_payload_transaction_create_ata_instruction'')
      | Inr createATAInstruction \<Rightarrow>
          if owner createATAInstruction \<noteq> payTo paymentRequirements
          then Inl (Error ''invalid_exact_svm_payload_transaction_create_ata_instruction_incorrect_payee'')
          else if mint createATAInstruction \<noteq> asset paymentRequirements
          then Inl (Error ''invalid_exact_svm_payload_transaction_create_ata_instruction_incorrect_asset'')
          else Inr ())"

definition getValidatedTransferCheckedInstruction ::
  "('tx, 'stx) facilitator_env \<Rightarrow> Instruction \<Rightarrow> js_error + ParsedTransferChecked" where
  "getValidatedTransferCheckedInstruction env ix =
     (case (data ix, accounts ix) of
        (Some bs, Some accs) \<Rightarrow>
          if programAddress ix = TOKEN_PROGRAM_ADDRESS then
            and_then (identifyTokenInstruction env ix) (\<lambda>identifiedInstruction.
              if identifiedInstruction \<noteq> TransferChecked
              then Inl (Error ''invalid_exact_svm_payload_transaction_instruction_not_spl_token_transfer_checked'')
              else parseTransferCheckedInstruction (programAddress ix) accs bs)
          else if programAddress ix = TOKEN_2022_PROGRAM_ADDRESS then
            and_then (identifyToken2022Instruction env ix) (\<lambda>identifiedInstruction.
              if identifiedInstruction \<noteq> TransferChecked
              then Inl (Error ''invalid_exact_svm_payload_transaction_instruction_not_token_2022_transfer_checked'')
              else parseTransferCheckedInstruction (programAddress ix) accs bs)
          else Inl (Error ''invalid_exact_svm_payload_transaction_not_a_transfer_instruction'')
      | _ \<Rightarrow> Inl (Error ''invalid_exact_svm_payload_transaction_instructions''))"


subsection \<open>The transfer instruction\<close>

text \<open>
  \<^verbatim>\<open>BigInt(string)\<close>: surrounding white space is dropped, the empty string is \<open>0\<close>, then
  either a decimal literal with an optional sign or an unsigned literal with prefix
  \<^verbatim>\<open>0x\<close>, \<^verbatim>\<open>0o\<close> or \<^verbatim>\<open>0b\<close>; anything else is a \<^verbatim>\<open>SyntaxError\<close> (\<open>None\<close>).
  Characters are bytes here, so the white space beyond Latin-1 is not represented.
\<close>

definition is_StrWhiteSpaceChar :: "char \<Rightarrow> bool" where
  "is_StrWhiteSpaceChar c = ((of_char c :: nat) \<in> {9, 10, 11, 12, 13, 32, 160})"

definition trim :: "string \<Rightarrow> string" where
  "trim s = rev (dropWhile is_StrWhiteSpaceChar (rev (dropWhile is_StrWhiteSpaceChar s)))"

definition digit_of :: "char \<Rightarrow> nat option" where
  "digit_of c =
     (let n = (of_char c :: nat) in
      if 48 \<le> n \<and> n \<le> 57 then Some (n - 48)
      else if 97 \<le> n \<and> n \<le> 102 then Some (n - 87)
      else if 65 \<le> n \<and> n \<le> 70 then Some (n - 55)
      else None)"

fun parse_digits :: "nat \<Rightarrow> string \<Rightarrow> nat \<Rightarrow> nat option" where
  "parse_digits b [] acc = Some acc"
| "parse_digits b (c # cs) acc =
     (case digit_of c of
        None \<Rightarrow> None
      | Some d \<Rightarrow> if d < b then parse_digits b cs (acc * b + d) else None)"

definition parse_integer :: "nat \<Rightarrow> string \<Rightarrow> nat option" where
  "parse_integer b s = (if s = [] then None else parse_digits b s 0)"

definition BigInt_string :: "string \<Rightarrow> int option" where
  "BigInt_string s =
     (let t = trim s in
      if t = [] then Some 0
      else if take 2 t = ''0x'' \<or> take 2 t = ''0X'' then map_option int (parse_integer 16 (drop 2 t))
      else if take 2 t = ''0o'' \<or> take 2 t = ''0O'' then map_option int (parse_integer 8 (drop 2 t))
      else if take 2 t = ''0b'' \<or> take 2 t = ''0B'' then map_option int (parse_integer 2 (drop 2 t))
      else if hd t = CHR ''-'' then map_option (\<lambda>n. - int n) (parse_integer 10 (tl t))
      else if hd t = CHR ''+'' then map_option int (parse_integer 10 (tl t))
      else map_option int (parse_integer 10 t))"

text \<open>The loop over the accounts that do not exist.\<close>

fun check_missing_accounts :: "MaybeAccount list \<Rightarrow> address \<Rightarrow> address \<Rightarrow> bool \<Rightarrow> js_error + unit" where
  "check_missing_accounts [] sourceAddress payToATA txHasCreateDestATAInstruction = Inr ()"
| "check_missing_accounts (missingAccount # rest) sourceAddress payToATA txHasCreateDestATAInstruction =
     (if accountAddress missingAccount = sourceAddress
      then Inl (Error ''invalid_exact_svm_payload_transaction_sender_ata_not_found'')
      else if accountAddress missingAccount = payToATA \<and> \<not> txHasCreateDestATAInstruction
      then Inl (Error ''invalid_exact_svm_payload_transaction_receiver_ata_not_found'')
      else check_missing_accounts rest sourceAddress payToATA txHasCreateDestATAInstruction)"

definition verifyTransferCheckedInstruction ::
  "('tx, 'stx) facilitator_env \<Rightarrow> ParsedTransferChecked \<Rightarrow> PaymentRequirements \<Rightarrow> bool
     \<Rightarrow> js_error + unit" where
  "verifyTransferCheckedInstruction env parsedInstruction paymentRequirements txHasCreateDestATAInstruction =
     (let tokenProgramAddress =
            (if tokenProgram parsedInstruction = TOKEN_PROGRAM_ADDRESS
             then TOKEN_PROGRAM_ADDRESS else TOKEN_2022_PROGRAM_ADDRESS)
      in and_then (findAssociatedTokenPda env (asset paymentRequirements) (payTo paymentRequirements)
                     tokenProgramAddress) (\<lambda>payToATA.
           if destination parsedInstruction \<noteq> payToATA
           then Inl (Error ''invalid_exact_svm_payload_transaction_transfer_to_incorrect_ata'')
           else and_then (fetchEncodedAccounts env [source parsedInstruction, payToATA]) (\<lambda>maybeAccounts.
             and_then (check_missing_accounts (filter (\<lambda>a. \<not> exists a) maybeAccounts)
                         (source parsedInstruction) payToATA txHasCreateDestATAInstruction) (\<lambda>_.
               case BigInt_string (maxAmountRequired paymentRequirements) of
                 None \<Rightarrow> Inl (LibError ''SyntaxError: cannot convert to a BigInt'')
               | Some paymentRequirementsAmount \<Rightarrow>
                   if uint (amount parsedInstruction) \<noteq> paymentRequirementsAmount
                   then Inl (Error ''invalid_exact_svm_payload_transaction_amount_mismatch'')
                   else Inr ()))))"

definition verifyTransferInstruction ::
  "('tx, 'stx) facilitator_env \<Rightarrow> Instruction \<Rightarrow> PaymentRequirements \<Rightarrow> bool \<Rightarrow> js_error + unit" where
  "verifyTransferInstruction env ix paymentRequirements txHasCreateDestATAInstruction =
     and_then (getValidatedTransferCheckedInstruction env ix) (\<lambda>tokenInstruction.
       verifyTransferCheckedInstruction env tokenInstruction paymentRequirements
         txHasCreateDestATAInstruction)"

subsection \<open>The instruction template\<close>

definition verifyTransactionInstructions ::
  "('tx, 'stx) facilitator_env \<Rightarrow> Instruction list \<Rightarrow> PaymentRequirements \<Rightarrow> js_error + unit" where
  "verifyTransactionInstructions env ixs paymentRequirements =
     (if length ixs \<noteq> 3 \<and> length ixs \<noteq> 4
      then Inl (Error ''invalid_exact_svm_payload_transaction_instructions_length'')
      else and_then (verifyComputeLimitInstruction (ixs ! 0)) (\<lambda>_.
           and_then (verifyComputePriceInstruction (ixs ! 1)) (\<lambda>_.
             if length ixs = 3
             then verifyTransferInstruction env (ixs ! 2) paymentRequirements False
             else and_then (verifyCreateATAInstruction (ixs ! 2) paymentRequirements) (\<lambda>_.
                    verifyTransferInstruction env (ixs ! 3) paymentRequirements True))))"

text \<open>
  The configuration of a call, as far as the engine reads it: the value of
  \<^verbatim>\<open>config?.svmConfig?.rpcUrl\<close>, \<open>None\<close> for \<^verbatim>\<open>undefined\<close>.
\<close>

type_synonym X402Config = "string option"

text \<open>shared/svm/rpc.ts. A URL is used when it is given and not the empty string.\<close>

definition DEVNET_RPC_URL :: string where
  "DEVNET_RPC_URL = ''https://api.devnet.solana.com''"

definition MAINNET_RPC_URL :: string where
  "MAINNET_RPC_URL = ''https://api.mainnet-beta.solana.com''"

definition DEVNET_WS_URL :: string where
  "DEVNET_WS_URL = ''wss://api.devnet.solana.com''"

definition MAINNET_WS_URL :: string where
  "MAINNET_WS_URL = ''wss://api.mainnet-beta.solana.com''"

definition given_url :: "string option \<Rightarrow> string option" where
  "given_url url = (case url of None \<Rightarrow> None | Some u \<Rightarrow> if u = [] then None else Some u)"

text \<open>
  \<^verbatim>\<open>httpToWs\<close>: \<^verbatim>\<open>url.replace("http", "ws")\<close> replaces the first occurrence, which is
  the prefix that \<^verbatim>\<open>startsWith\<close> has found. The test is case-sensitive.
\<close>

definition httpToWs :: "string \<Rightarrow> string" where
  "httpToWs url = (if take 4 url = ''http'' then ''ws'' @ drop 4 url else url)"

definition getRpcClient ::
  "('tx, 'stx) facilitator_env \<Rightarrow> string \<Rightarrow> string option \<Rightarrow> js_error + unit" where
  "getRpcClient env net url =
     (if net = ''solana-devnet''
      then createSolanaRpc env (case given_url url of Some u \<Rightarrow> u | None \<Rightarrow> DEVNET_RPC_URL)
      else if net = ''solana''
      then createSolanaRpc env (case given_url url of Some u \<Rightarrow> u | None \<Rightarrow> MAINNET_RPC_URL)
      else Inl (Error ''Invalid network''))"

definition getRpcSubscriptions ::
  "('tx, 'stx) facilitator_env \<Rightarrow> string \<Rightarrow> string option \<Rightarrow> js_error + unit" where
  "getRpcSubscriptions env net url =
     (if net = ''solana-devnet''
      then createSolanaRpcSubscriptions env
             (case given_url url of Some u \<Rightarrow> httpToWs u | None \<Rightarrow> DEVNET_WS_URL)
      else if net = ''solana''
      then createSolanaRpcSubscriptions env
             (case given_url url of Some u \<Rightarrow> httpToWs u | None \<Rightarrow> MAINNET_WS_URL)
      else Inl (Error ''Invalid network''))"

text \<open>shared/svm/transaction.ts\<close>

definition decodeTransactionFromPayload :: "('tx, 'stx) facilitator_env \<Rightarrow> string \<Rightarrow> js_error + 'tx" where
  "decodeTransactionFromPayload env svmPayload =
     (case decodeTransaction env svmPayload of
        None \<Rightarrow> Inl (Error ''invalid_exact_svm_payload_transaction'')
      | Some tx \<Rightarrow> Inr tx)"

text \<open>
  The loop of getTokenPayerFromTransaction. Reading \<^verbatim>\<open>staticAccounts[i]\<close> out of range
  gives \<^verbatim>\<open>undefined\<close>, and \<^verbatim>\<open>.toString()\<close> on it is a \<^verbatim>\<open>TypeError\<close>.
\<close>

fun token_payer_loop :: "address list \<Rightarrow> CompiledInstruction list \<Rightarrow> js_error + string" where
  "token_payer_loop accs [] = Inr []"
| "token_payer_loop accs (ix # ixs) =
     (if programAddressIndex ix \<ge> length accs then Inl (LibError ''TypeError'')
      else if accs ! programAddressIndex ix = TOKEN_PROGRAM_ADDRESS
              \<or> accs ! programAddressIndex ix = TOKEN_2022_PROGRAM_ADDRESS
      then (let indices = (case accountIndices ix of None \<Rightarrow> [] | Some l \<Rightarrow> l) in
            if length indices \<ge> 4
            then (if indices ! 3 \<ge> length accs then Inl (LibError ''TypeError'')
                  else if accs ! (indices ! 3) \<noteq> [] then Inr (accs ! (indices ! 3))
                  else token_payer_loop accs ixs)
            else token_payer_loop accs ixs)
      else token_payer_loop accs ixs)"

definition getTokenPayerFromTransaction :: "('tx, 'stx) facilitator_env \<Rightarrow> 'tx \<Rightarrow> js_error + string" where
  "getTokenPayerFromTransaction env tx =
     and_then (decodeCompiledMessage env tx) (\<lambda>compiled.
       token_payer_loop (staticAccounts compiled) (instructions compiled))"

definition transactionIntrospection ::
  "('tx, 'stx) facilitator_env \<Rightarrow> string \<Rightarrow> PaymentRequirements \<Rightarrow> X402Config
     \<Rightarrow> js_error + unit" where
  "transactionIntrospection env svmPayload paymentRequirements config =
     and_then (getRpcClient env (network paymentRequirements) config) (\<lambda>_.
     and_then (decodeTransactionFromPayload env svmPayload) (\<lambda>decodedTransaction.
     and_then (decodeCompiledMessage env decodedTransaction) (\<lambda>compiledTransactionMessage.
     and_then (decompileTransactionMessage env compiledTransactionMessage) (\<lambda>ixs.
       verifyTransactionInstructions env ixs paymentRequirements))))"


section \<open>The verify and settle engine\<close>

record VerifyResponse =
  isValid :: bool
  invalidReason :: "string option"
  payer :: "string option"

record SettleResponse =
  success :: bool
  errorReason :: "string option"
  settlePayer :: "string option"
  transaction :: string
  settleNetwork :: string

text \<open>What confirmSignedTransaction and sendAndConfirmSignedTransaction resolve to.\<close>

record Confirmation =
  confirmSuccess :: bool
  confirmErrorReason :: "string option"
  signature :: string

text \<open>
  \<^verbatim>\<open>error instanceof Error && ErrorReasons.includes(error.message)\<close>: the reason when it
  holds.
\<close>

definition known_reason :: "js_error \<Rightarrow> string option" where
  "known_reason e =
     (case e of
        Error m \<Rightarrow> if m \<in> set ErrorReasons then Some m else None
      | _ \<Rightarrow> None)"

text \<open>The immediately invoked function that computes \<^verbatim>\<open>payer\<close> in the catch block.\<close>

definition payer_or_undefined :: "('tx, 'stx) facilitator_env \<Rightarrow> PaymentPayload \<Rightarrow> string option" where
  "payer_or_undefined env payload =
     (case and_then (decodeTransactionFromPayload env (payloadTransaction payload))
             (getTokenPayerFromTransaction env) of
        Inl _ \<Rightarrow> None
      | Inr p \<Rightarrow> Some p)"

text \<open>The \<^verbatim>\<open>try\<close> block of verify.\<close>

definition verify_body ::
  "('tx, 'stx) facilitator_env \<Rightarrow> PaymentPayload \<Rightarrow> PaymentRequirements \<Rightarrow> X402Config
     \<Rightarrow> js_error + VerifyResponse" where
  "verify_body env payload paymentRequirements config =
     and_then (verifySchemesAndNetworks payload paymentRequirements) (\<lambda>_.
     and_then (decodeTransactionFromPayload env (payloadTransaction payload)) (\<lambda>decodedTransaction.
     and_then (getRpcClient env (network paymentRequirements) config) (\<lambda>_.
     and_then (transactionIntrospection env (payloadTransaction payload) paymentRequirements config) (\<lambda>_.
     and_then (signAndSimulate env decodedTransaction) (\<lambda>err.
       if err \<noteq> None
       then Inl (Error ''invalid_exact_svm_payload_transaction_simulation_failed'')
       else and_then (getTokenPayerFromTransaction env decodedTransaction) (\<lambda>p.
              Inr \<lparr>isValid = True, invalidReason = None, payer = Some p\<rparr>))))))"

text \<open>verify: the \<^verbatim>\<open>try\<close> block and its \<^verbatim>\<open>catch\<close>.\<close>

definition verify ::
  "('tx, 'stx) facilitator_env \<Rightarrow> PaymentPayload \<Rightarrow> PaymentRequirements \<Rightarrow> X402Config
     \<Rightarrow> js_error + VerifyResponse" where
  "verify env payload paymentRequirements config =
     (case verify_body env payload paymentRequirements config of
        Inr response \<Rightarrow> Inr response
      | Inl e \<Rightarrow>
          (case known_reason e of
             Some reason \<Rightarrow>
               Inr \<lparr>isValid = False, invalidReason = Some reason,
                    payer = payer_or_undefined env payload\<rparr>
           | None \<Rightarrow>
               Inr \<lparr>isValid = False, invalidReason = Some ''unexpected_verify_error'',
                    payer = payer_or_undefined env payload\<rparr>))"

subsection \<open>Sending and confirming (settle.ts)\<close>

text \<open>
  The codes of the two \<^verbatim>\<open>SolanaError\<close>s that occur; all that is used of them is that
  they differ.
\<close>

definition SOLANA_ERROR__BLOCK_HEIGHT_EXCEEDED :: nat where
  "SOLANA_ERROR__BLOCK_HEIGHT_EXCEEDED = 1"

definition SOLANA_ERROR__TRANSACTION__EXPECTED_BLOCKHASH_LIFETIME :: nat where
  "SOLANA_ERROR__TRANSACTION__EXPECTED_BLOCKHASH_LIFETIME = 5663011"

definition sendSignedTransaction :: "('tx, 'stx) facilitator_env \<Rightarrow> 'stx \<Rightarrow> js_error + string" where
  "sendSignedTransaction env signedTransaction = sendTransaction env signedTransaction"

text \<open>
  \<^verbatim>\<open>assertIsTransactionMessageWithBlockhashLifetime\<close>; the result is
  \<^verbatim>\<open>lifetimeConstraint.lastValidBlockHeight\<close>.
\<close>

definition assertIsTransactionMessageWithBlockhashLifetime :: "lifetime \<Rightarrow> js_error + nat" where
  "assertIsTransactionMessageWithBlockhashLifetime constraint =
     (case constraint of
        BlockhashLifetime lastValidBlockHeight \<Rightarrow> Inr lastValidBlockHeight
      | DurableNonceLifetime \<Rightarrow>
          Inl (SolanaError SOLANA_ERROR__TRANSACTION__EXPECTED_BLOCKHASH_LIFETIME))"

text \<open>
  \<^verbatim>\<open>waitForRecentTransactionConfirmation\<close> under an abort signal that fires \<open>abortAfter\<close>
  milliseconds after the timer was set: the race ends as the cluster decides when that
  happens before the signal fires, and with the rejection of the abort otherwise.
\<close>

definition waitForRecentTransactionConfirmation ::
  "('tx, 'stx) facilitator_env \<Rightarrow> 'stx \<Rightarrow> nat \<Rightarrow> js_error + unit" where
  "waitForRecentTransactionConfirmation env signedTransaction abortAfter =
     (case confirmationRace env signedTransaction of
        None \<Rightarrow> Inl (abortRejection env)
      | Some ending \<Rightarrow>
          if snd ending < abortAfter then fst ending else Inl (abortRejection env))"

text \<open>
  The \<^verbatim>\<open>try\<close> block of confirmSignedTransaction, with the timer of
  \<^verbatim>\<open>setTimeout(() => abortController.abort(...), 60000)\<close> that is set before it.
\<close>

definition confirm_body :: "('tx, 'stx) facilitator_env \<Rightarrow> 'stx \<Rightarrow> js_error + unit" where
  "confirm_body env signedTransaction =
     and_then (decodeSignedMessage env signedTransaction) (\<lambda>compiledTransactionMessage.
     and_then (fetchLifetime env compiledTransactionMessage) (\<lambda>constraint.
     and_then (assertIsTransactionMessageWithBlockhashLifetime constraint) (\<lambda>_.
       waitForRecentTransactionConfirmation env signedTransaction 60000)))"

text \<open>
  confirmSignedTransaction: the \<^verbatim>\<open>try\<close> block and its \<^verbatim>\<open>catch\<close>.
  \<^verbatim>\<open>isSolanaError(error, SOLANA_ERROR__BLOCK_HEIGHT_EXCEEDED)\<close> holds of the
  \<^verbatim>\<open>SolanaError\<close> with that code, and the second test of the \<^verbatim>\<open>DOMException\<close> named
  \<^verbatim>\<open>AbortError\<close>.
\<close>

definition confirmSignedTransaction :: "('tx, 'stx) facilitator_env \<Rightarrow> 'stx \<Rightarrow> js_error + Confirmation" where
  "confirmSignedTransaction env signedTransaction =
     (let sig = getSignatureFromTransaction env signedTransaction in
      case confirm_body env signedTransaction of
        Inr _ \<Rightarrow> Inr \<lparr>confirmSuccess = True, confirmErrorReason = None, signature = sig\<rparr>
      | Inl e \<Rightarrow>
          if e = SolanaError SOLANA_ERROR__BLOCK_HEIGHT_EXCEEDED
          then Inr \<lparr>confirmSuccess = False,
                    confirmErrorReason = Some ''settle_exact_svm_block_height_exceeded'',
                    signature = sig\<rparr>
          else if e = DOMException ''AbortError''
          then Inr \<lparr>confirmSuccess = False,
                    confirmErrorReason = Some ''settle_exact_svm_transaction_confirmation_timed_out'',
                    signature = sig\<rparr>
          else Inl e)"

text \<open>sendAndConfirmSignedTransaction of schemes/exact/svm/facilitator/settle.ts.\<close>

definition sendAndConfirmSignedTransaction ::
  "('tx, 'stx) facilitator_env \<Rightarrow> 'stx \<Rightarrow> js_error + Confirmation" where
  "sendAndConfirmSignedTransaction env signedTransaction =
     and_then (sendSignedTransaction env signedTransaction) (\<lambda>_.
       confirmSignedTransaction env signedTransaction)"

subsection \<open>The second settle.ts, with the polling fallback\<close>

text \<open>
  The repository has a second version of the file, in which
  sendAndConfirmSignedTransaction falls back to confirmSignedTransactionWithPolling
  when confirmSignedTransaction throws; settle, sendSignedTransaction and
  confirmSignedTransaction are the same in both.

  The loop of confirmSignedTransactionWithPolling. \<open>now\<close> is \<^verbatim>\<open>Date.now() - startTime\<close>
  at the head of the loop. An error of either request is caught inside the loop, which
  goes on at once; after a round without a decision the loop waits for \<^verbatim>\<open>pollInterval\<close>.
  The result is \<open>None\<close> when the loop never ends.
\<close>

definition pollInterval :: nat where
  "pollInterval = 1000"

partial_function (option) polling_loop ::
  "('tx, 'stx) facilitator_env \<Rightarrow> 'stx \<Rightarrow> nat \<Rightarrow> nat \<Rightarrow> Confirmation option" where
  "polling_loop env signedTransaction lastValidBlockHeight now =
     (if \<not> now < 60000
      then Some \<lparr>confirmSuccess = False,
                  confirmErrorReason = Some ''settle_exact_svm_transaction_confirmation_timed_out'',
                  signature = getSignatureFromTransaction env signedTransaction\<rparr>
      else
        (case fst (getBlockHeight env now) of
           Inl _ \<Rightarrow>
             polling_loop env signedTransaction lastValidBlockHeight (snd (getBlockHeight env now))
         | Inr currentBlockHeight \<Rightarrow>
             if currentBlockHeight > lastValidBlockHeight
             then Some \<lparr>confirmSuccess = False,
                         confirmErrorReason = Some ''settle_exact_svm_block_height_exceeded'',
                         signature = getSignatureFromTransaction env signedTransaction\<rparr>
             else
               (case fst (getSignatureStatuses env signedTransaction (snd (getBlockHeight env now))) of
                  Inl _ \<Rightarrow>
                    polling_loop env signedTransaction lastValidBlockHeight
                      (snd (getSignatureStatuses env signedTransaction (snd (getBlockHeight env now))))
                | Inr None \<Rightarrow>
                    polling_loop env signedTransaction lastValidBlockHeight
                      (snd (getSignatureStatuses env signedTransaction (snd (getBlockHeight env now)))
                       + pollInterval)
                | Inr (Some status) \<Rightarrow>
                    if statusErr status
                    then Some \<lparr>confirmSuccess = False,
                                confirmErrorReason = Some ''settle_exact_svm_transaction_failed'',
                                signature = getSignatureFromTransaction env signedTransaction\<rparr>
                    else if confirmationStatus status = Some ''confirmed''
                            \<or> confirmationStatus status = Some ''finalized''
                    then Some \<lparr>confirmSuccess = True, confirmErrorReason = None,
                                signature = getSignatureFromTransaction env signedTransaction\<rparr>
                    else polling_loop env signedTransaction lastValidBlockHeight
                           (snd (getSignatureStatuses env signedTransaction (snd (getBlockHeight env now)))
                            + pollInterval))))"

text \<open>
  confirmSignedTransactionWithPolling: what precedes the loop is not inside a \<^verbatim>\<open>try\<close>.
\<close>

definition confirmSignedTransactionWithPolling ::
  "('tx, 'stx) facilitator_env \<Rightarrow> 'stx \<Rightarrow> (js_error + Confirmation) option" where
  "confirmSignedTransactionWithPolling env signedTransaction =
     (case and_then (decodeSignedMessage env signedTransaction) (\<lambda>compiledTransactionMessage.
           and_then (fetchLifetime env compiledTransactionMessage)
             assertIsTransactionMessageWithBlockhashLifetime) of
        Inl e \<Rightarrow> Some (Inl e)
      | Inr lastValidBlockHeight \<Rightarrow>
          map_option Inr (polling_loop env signedTransaction lastValidBlockHeight 0))"

text \<open>sendAndConfirmSignedTransaction of the second version.\<close>

definition sendAndConfirmSignedTransaction_with_fallback ::
  "('tx, 'stx) facilitator_env \<Rightarrow> 'stx \<Rightarrow> (js_error + Confirmation) option" where
  "sendAndConfirmSignedTransaction_with_fallback env signedTransaction =
     (case sendSignedTransaction env signedTransaction of
        Inl e \<Rightarrow> Some (Inl e)
      | Inr _ \<Rightarrow>
          (case confirmSignedTransaction env signedTransaction of
             Inr confirmation \<Rightarrow> Some (Inr confirmation)
           | Inl _ \<Rightarrow> confirmSignedTransactionWithPolling env signedTransaction))"

subsection \<open>settle\<close>

text \<open>
  The \<^verbatim>\<open>try\<close> block of settle and its \<^verbatim>\<open>catch\<close>, for an outcome of
  sendAndConfirmSignedTransaction.
\<close>

definition settle_catch ::
  "('tx, 'stx) facilitator_env \<Rightarrow> PaymentPayload \<Rightarrow> string \<Rightarrow> 'stx \<Rightarrow> js_error + Confirmation
     \<Rightarrow> SettleResponse" where
  "settle_catch env payload p signedTransaction outcome =
     (case outcome of
        Inr c \<Rightarrow>
          \<lparr>success = confirmSuccess c, errorReason = confirmErrorReason c,
           settlePayer = Some p, transaction = signature c,
           settleNetwork = payloadNetwork payload\<rparr>
      | Inl _ \<Rightarrow>
          \<lparr>success = False, errorReason = Some ''unexpected_settle_error'',
           settlePayer = Some p,
           transaction = getSignatureFromTransaction env signedTransaction,
           settleNetwork = payloadNetwork payload\<rparr>)"

definition settle_try ::
  "('tx, 'stx) facilitator_env \<Rightarrow> PaymentPayload \<Rightarrow> string \<Rightarrow> 'stx \<Rightarrow> SettleResponse" where
  "settle_try env payload p signedTransaction =
     settle_catch env payload p signedTransaction
       (sendAndConfirmSignedTransaction env signedTransaction)"

text \<open>
  settle, up to its \<^verbatim>\<open>try\<close> block: the response when the verification is invalid, and
  otherwise the payer and the signed transaction with which the \<^verbatim>\<open>try\<close> block is
  entered. None of these statements is inside a \<^verbatim>\<open>try\<close>.
\<close>

definition settle_prepare ::
  "('tx, 'stx) facilitator_env \<Rightarrow> PaymentPayload \<Rightarrow> PaymentRequirements \<Rightarrow> X402Config
     \<Rightarrow> js_error + (SettleResponse + string \<times> 'stx)" where
  "settle_prepare env payload paymentRequirements config =
     and_then (verify env payload paymentRequirements config) (\<lambda>verifyResponse.
       if \<not> isValid verifyResponse
       then Inr (Inl \<lparr>success = False, errorReason = invalidReason verifyResponse,
                      settlePayer = None, transaction = [],
                      settleNetwork = payloadNetwork payload\<rparr>)
       else
         and_then (decodeTransactionFromPayload env (payloadTransaction payload)) (\<lambda>decodedTransaction.
         and_then (signTransaction env decodedTransaction) (\<lambda>signedTransaction.
         and_then (getTokenPayerFromTransaction env decodedTransaction) (\<lambda>p.
         and_then (getRpcClient env (network paymentRequirements) config) (\<lambda>_.
         and_then (getRpcSubscriptions env (network paymentRequirements) config) (\<lambda>_.
           Inr (Inr (p, signedTransaction))))))))"

text \<open>settle of schemes/exact/svm/facilitator/settle.ts.\<close>

definition settle ::
  "('tx, 'stx) facilitator_env \<Rightarrow> PaymentPayload \<Rightarrow> PaymentRequirements \<Rightarrow> X402Config
     \<Rightarrow> js_error + SettleResponse" where
  "settle env payload paymentRequirements config =
     and_then (settle_prepare env payload paymentRequirements config) (\<lambda>prepared.
       case prepared of
         Inl response \<Rightarrow> Inr response
       | Inr entered \<Rightarrow> Inr (settle_try env payload (fst entered) (snd entered)))"

text \<open>settle of the second version; \<open>None\<close> when its polling loop never ends.\<close>

definition settle_with_fallback ::
  "('tx, 'stx) facilitator_env \<Rightarrow> PaymentPayload \<Rightarrow> PaymentRequirements \<Rightarrow> X402Config
     \<Rightarrow> (js_error + SettleResponse) option" where
  "settle_with_fallback env payload paymentRequirements config =
     (case settle_prepare env payload paymentRequirements config of
        Inl e \<Rightarrow> Some (Inl e)
      | Inr (Inl response) \<Rightarrow> Some (Inr response)
      | Inr (Inr entered) \<Rightarrow>
          map_option (\<lambda>outcome. Inr (settle_catch env payload (fst entered) (snd entered) outcome))
            (sendAndConfirmSignedTransaction_with_fallback env (snd entered)))"


section \<open>Prices and atomic amounts (shared/middleware.ts)\<close>

subsection \<open>JavaScript numbers\<close>

text \<open>
  A finite non-negative Number, \<open>mantissa * 2 ^ exponent\<close>, with a mantissa of 53 bits
  when it is not zero. The range of the exponent is not modelled: there is no overflow to
  \<^verbatim>\<open>Infinity\<close> and there are no subnormal numbers, which only concerns values above
  \<open>1.7e308\<close> or below \<open>2.3e-308\<close>.
\<close>

record double =
  mantissa :: nat
  exponent :: int

fun bit_length :: "nat \<Rightarrow> nat" where
  "bit_length n = (if n = 0 then 0 else Suc (bit_length (n div 2)))"

declare bit_length.simps [simp del]

text \<open>The fraction \<open>num / den\<close> divided by \<open>2 ^ e\<close>.\<close>

definition scale2 :: "nat \<Rightarrow> nat \<Rightarrow> int \<Rightarrow> nat \<times> nat" where
  "scale2 num den e = (if 0 \<le> e then (num, den * 2 ^ nat e) else (num * 2 ^ nat (- e), den))"

text \<open>The integer nearest to \<open>n / d\<close>, the even one of two that are equally near.\<close>

definition round_half_even :: "nat \<times> nat \<Rightarrow> nat" where
  "round_half_even f =
     (let q = fst f div snd f; r = fst f mod snd f
      in if 2 * r > snd f \<or> (2 * r = snd f \<and> odd q) then q + 1 else q)"

text \<open>
  The Number nearest to \<open>num / den\<close> (round to nearest, ties to even): the rounding of
  every arithmetic operation and of the conversion of a decimal literal.
\<close>

definition to_double :: "nat \<Rightarrow> nat \<Rightarrow> double" where
  "to_double num den =
     (if num = 0 then \<lparr>mantissa = 0, exponent = 0\<rparr>
      else
        let e0 = int (bit_length num) - int (bit_length den) - 53;
            e = (if fst (scale2 num den e0) div snd (scale2 num den e0) \<ge> 2 ^ 53 then e0 + 1 else e0);
            m = round_half_even (scale2 num den e)
        in if m = 2 ^ 53 then \<lparr>mantissa = 2 ^ 52, exponent = e + 1\<rparr>
           else \<lparr>mantissa = m, exponent = e\<rparr>)"

definition double_fraction :: "double \<Rightarrow> nat \<times> nat" where
  "double_fraction d = scale2 (mantissa d) 1 (- exponent d)"

definition double_less :: "double \<Rightarrow> double \<Rightarrow> bool" where
  "double_less a b =
     (fst (double_fraction a) * snd (double_fraction b)
        < fst (double_fraction b) * snd (double_fraction a))"

text \<open>The operator \<^verbatim>\<open>*\<close> on Numbers.\<close>

definition double_times :: "double \<Rightarrow> double \<Rightarrow> double" where
  "double_times a b =
     to_double (fst (double_fraction a) * fst (double_fraction b))
               (snd (double_fraction a) * snd (double_fraction b))"

text \<open>\<^verbatim>\<open>10 ** decimals\<close>\<close>

definition ten_to_the :: "nat \<Rightarrow> double" where
  "ten_to_the d = to_double (10 ^ d) 1"

subsection \<open>Number.prototype.toString\<close>

definition digit_char :: "nat \<Rightarrow> char" where
  "digit_char d = ''0123456789'' ! d"

fun digits_acc :: "nat \<Rightarrow> string \<Rightarrow> string" where
  "digits_acc n acc =
     (if n < 10 then digit_char n # acc
      else digits_acc (n div 10) (digit_char (n mod 10) # acc))"

declare digits_acc.simps [simp del]

definition decimal_digits :: "nat \<Rightarrow> string" where
  "decimal_digits n = digits_acc n []"

text \<open>The integer \<open>n\<close> with \<open>10 ^ (n - 1) \<le> num / den < 10 ^ n\<close>, for a positive fraction.\<close>

definition decimal_exponent :: "nat \<times> nat \<Rightarrow> int" where
  "decimal_exponent f =
     (if fst f \<ge> snd f then int (length (decimal_digits (fst f div snd f)))
      else 1 - int (length (decimal_digits ((snd f + fst f - 1) div fst f - 1))))"

text \<open>The fraction \<open>s * 10 ^ e\<close>.\<close>

definition scale10 :: "nat \<Rightarrow> int \<Rightarrow> nat \<times> nat" where
  "scale10 s e = (if 0 \<le> e then (s * 10 ^ nat e, 1) else (s, 10 ^ nat (- e)))"

definition power_of_ten :: "int \<Rightarrow> nat \<times> nat" where
  "power_of_ten n = scale10 1 n"

text \<open>The fraction \<open>v / 10 ^ (n - k)\<close>.\<close>

definition shift_digits :: "double \<Rightarrow> int \<Rightarrow> nat \<Rightarrow> nat \<times> nat" where
  "shift_digits v n k =
     (if n \<le> int k
      then (fst (double_fraction v) * 10 ^ nat (int k - n), snd (double_fraction v))
      else (fst (double_fraction v), snd (double_fraction v) * 10 ^ nat (n - int k)))"

text \<open>\<open>s\<close> has \<open>k\<close> digits and \<open>s * 10 ^ (n - k)\<close> is the Number \<open>v\<close>.\<close>

definition reads_back :: "double \<Rightarrow> int \<Rightarrow> nat \<Rightarrow> nat \<Rightarrow> bool" where
  "reads_back v n k s =
     (10 ^ (k - 1) \<le> s \<and> s < 10 ^ k
      \<and> to_double (fst (scale10 s (n - int k))) (snd (scale10 s (n - int k))) = v)"

text \<open>
  The integer \<open>s\<close> of \<open>k\<close> digits for which \<open>s * 10 ^ (n - k)\<close> is the Number \<open>v\<close>, if
  there is one: the nearest to \<open>v\<close> of the candidates, the even one of two equally near.
\<close>

definition digits_candidate :: "double \<Rightarrow> int \<Rightarrow> nat \<Rightarrow> nat option" where
  "digits_candidate v n k =
     (let g = shift_digits v n k;
          lo = fst g div snd g;
          r = fst g mod snd g
      in if reads_back v n k lo \<and> reads_back v n k (lo + 1)
         then (if 2 * r < snd g then Some lo else if 2 * r > snd g then Some (lo + 1)
               else if even lo then Some lo else Some (lo + 1))
         else if reads_back v n k lo then Some lo
         else if reads_back v n k (lo + 1) then Some (lo + 1)
         else None)"

text \<open>The smallest number of digits that has a candidate, with the candidate.\<close>

fun shortest_digits :: "double \<Rightarrow> int \<Rightarrow> nat list \<Rightarrow> (nat \<times> nat) option" where
  "shortest_digits v n [] = None"
| "shortest_digits v n (k # ks) =
     (case digits_candidate v n k of
        Some s \<Rightarrow> Some (k, s)
      | None \<Rightarrow> shortest_digits v n ks)"

text \<open>The digits \<open>s\<close>, \<open>k\<close> of them, with the decimal point after the first \<open>n\<close>.\<close>

definition format_number :: "nat \<Rightarrow> nat \<Rightarrow> int \<Rightarrow> string" where
  "format_number k s n =
     (let ds = decimal_digits s in
      if int k \<le> n \<and> n \<le> 21 then ds @ replicate (nat (n - int k)) CHR ''0''
      else if 0 < n \<and> n \<le> 21 then take (nat n) ds @ ''.'' @ drop (nat n) ds
      else if - 6 < n \<and> n \<le> 0 then ''0.'' @ replicate (nat (- n)) CHR ''0'' @ ds
      else (if k = 1 then ds else [hd ds] @ ''.'' @ tl ds)
           @ ''e'' @ (if n - 1 < 0 then ''-'' else ''+'') @ decimal_digits (nat \<bar>n - 1\<bar>))"

text \<open>
  The shortest digits that read back as \<open>v\<close>. A Number just below a power of ten that
  is not a Number itself is written as that power.
\<close>

text \<open>Seventeen digits are enough for every Number.\<close>

definition digit_counts :: "nat list" where
  "digit_counts = [1, 2, 3, 4, 5, 6, 7, 8, 9, 10, 11, 12, 13, 14, 15, 16, 17]"

definition Number_toString :: "double \<Rightarrow> string" where
  "Number_toString v =
     (if mantissa v = 0 then ''0''
      else
        let n = decimal_exponent (double_fraction v) in
        if to_double (fst (power_of_ten n)) (snd (power_of_ten n)) = v then format_number 1 1 (n + 1)
        else (case shortest_digits v n digit_counts of
                None \<Rightarrow> []
              | Some ks \<Rightarrow> format_number (fst ks) (snd ks) n))"

subsection \<open>Money\<close>

text \<open>
  An unsigned decimal literal, digits with at most one point and at least one digit, as
  the fraction it denotes; \<open>None\<close> when the string is not one.
\<close>

definition is_digit :: "char \<Rightarrow> bool" where
  "is_digit c = (48 \<le> (of_char c :: nat) \<and> (of_char c :: nat) \<le> 57)"

definition digits_value :: "string \<Rightarrow> nat" where
  "digits_value s = foldl (\<lambda>acc c. 10 * acc + ((of_char c :: nat) - 48)) 0 s"

definition parse_decimal :: "string \<Rightarrow> (nat \<times> nat) option" where
  "parse_decimal s =
     (let whole = takeWhile is_digit s;
          rest = dropWhile is_digit s;
          frac = (if rest \<noteq> [] \<and> hd rest = CHR ''.'' then tl rest else [])
      in if (rest \<noteq> [] \<and> hd rest \<noteq> CHR ''.'') \<or> \<not> list_all is_digit frac \<or> whole @ frac = []
         then None
         else Some (digits_value (whole @ frac), 10 ^ length frac))"

text \<open>
  A price in dollars is a string or a Number; an explicit token amount is the third form
  of \<^verbatim>\<open>Price\<close>.
\<close>

record Asset =
  assetAddress :: address
  assetDecimals :: nat
  eip712 :: "(string \<times> string) option"

datatype Price =
    MoneyString string
  | MoneyNumber double
  | TokenAmount string Asset

text \<open>
  Modelled from the spec: the money parser \<^verbatim>\<open>moneySchema\<close> (types/shared/money.ts is not
  among the sources). The spec gives the forms \<^verbatim>\<open>"$0.01"\<close> and \<^verbatim>\<open>0.01\<close> and says that the
  parser rejects values below 0.0001 and values that are not numeric. In a string, the
  characters that cannot occur in a number (such as the dollar sign) are dropped before it
  is read; the empty string reads as zero. A negative number is below 0.0001, so only
  unsigned literals can be accepted.
\<close>

definition minimum_money :: double where
  "minimum_money = to_double 1 10000"

definition moneySchema :: "Price \<Rightarrow> double option" where
  "moneySchema price =
     (case price of
        MoneyString s \<Rightarrow>
          (let t = filter (\<lambda>c. is_digit c \<or> c = CHR ''.'' \<or> c = CHR ''-'') s in
           case (if t = [] then Some (0, 1) else parse_decimal t) of
             None \<Rightarrow> None
           | Some f \<Rightarrow>
               if double_less (to_double (fst f) (snd f)) minimum_money then None
               else Some (to_double (fst f) (snd f)))
      | MoneyNumber d \<Rightarrow> if double_less d minimum_money then None else Some d
      | TokenAmount _ _ \<Rightarrow> None)"

text \<open>
  The maps from networks to chain identifiers (types/shared/network.ts) and the USDC
  table (types/shared/evm/config.ts, which is not among the sources) are parameters of
  the conversion. \<open>networkId\<close> is both maps of getNetworkId, \<open>usdcConfig\<close> gives the
  address and the name of USDC on a chain.
\<close>

record chain_tables =
  networkId :: "string \<Rightarrow> nat option"
  usdcConfig :: "nat \<Rightarrow> (address \<times> string) option"

definition getNetworkId :: "chain_tables \<Rightarrow> string \<Rightarrow> js_error + nat" where
  "getNetworkId tables net =
     (case networkId tables net of
        Some chainId \<Rightarrow> Inr chainId
      | None \<Rightarrow> Inl (Error (''Unsupported network: '' @ net)))"

definition getDefaultAsset :: "chain_tables \<Rightarrow> string \<Rightarrow> js_error + Asset" where
  "getDefaultAsset tables net =
     and_then (getNetworkId tables net) (\<lambda>chainId.
       case usdcConfig tables chainId of
         None \<Rightarrow> Inl (Error (''Unable to get default asset on '' @ net))
       | Some usdc \<Rightarrow>
           Inr \<lparr>assetAddress = fst usdc, assetDecimals = 6, eip712 = Some (snd usdc, ''2'')\<rparr>)"

text \<open>
  processPriceToAtomicAmount. The outer sum is a throw (of getDefaultAsset); the inner one
  is the returned object, \<open>Inl\<close> for \<^verbatim>\<open>{ error }\<close>.
\<close>

record AtomicAmount =
  atomicAmount :: string
  atomicAsset :: Asset

definition processPriceToAtomicAmount ::
  "chain_tables \<Rightarrow> Price \<Rightarrow> string \<Rightarrow> js_error + (string + AtomicAmount)" where
  "processPriceToAtomicAmount tables price net =
     (case price of
        TokenAmount tokenAmount tokenAsset \<Rightarrow>
          Inr (Inr \<lparr>atomicAmount = tokenAmount, atomicAsset = tokenAsset\<rparr>)
      | _ \<Rightarrow>
          (case moneySchema price of
             None \<Rightarrow> Inr (Inl ''Invalid price'')
           | Some parsedUsdAmount \<Rightarrow>
               and_then (getDefaultAsset tables net) (\<lambda>a.
                 Inr (Inr \<lparr>atomicAmount =
                             Number_toString (double_times parsedUsdAmount
                                                (ten_to_the (assetDecimals a))),
                           atomicAsset = a\<rparr>))))"


section \<open>Route patterns and path matching (shared/middleware.ts)\<close>

text \<open>
  A JavaScript string is a sequence of UTF-16 code units. \<open>utf16\<close> writes an ASCII
  literal as one; \<open>cu\<close> is the code unit of an ASCII character.
\<close>

type_synonym jsstring = "nat list"

definition cu :: "char \<Rightarrow> nat" where
  "cu c = of_char c"

definition utf16 :: "string \<Rightarrow> jsstring" where
  "utf16 s = map cu s"

text \<open>
  \<^verbatim>\<open>toUpperCase\<close>. The ASCII letters are mapped, and so are the ten code units outside
  ASCII whose upper case consists of ASCII letters (the sharp s, the dotless i, the long s
  and the seven Latin ligatures). Every other code unit is left as it is: its upper case
  in JavaScript has a code unit outside ASCII as well, so that the result is ASCII in the
  model exactly when it is in JavaScript, and then it is the same string.
\<close>

definition upper_units :: "nat \<Rightarrow> nat list" where
  "upper_units c =
     (if 97 \<le> c \<and> c \<le> 122 then [c - 32]
      else if c = 0xDF then [83, 83]
      else if c = 0x131 then [73]
      else if c = 0x17F then [83]
      else if c = 0xFB00 then [70, 70]
      else if c = 0xFB01 then [70, 73]
      else if c = 0xFB02 then [70, 76]
      else if c = 0xFB03 then [70, 70, 73]
      else if c = 0xFB04 then [70, 70, 76]
      else if c = 0xFB05 \<or> c = 0xFB06 then [83, 84]
      else [c])"

definition toUpperCase :: "jsstring \<Rightarrow> jsstring" where
  "toUpperCase s = concat (map upper_units s)"

subsection \<open>The regular expressions of the route table\<close>

text \<open>
  computeRoutePatterns builds the source of a regular expression from the path of a route
  key by four replacements, in this order: a backslash before each of
  \<^verbatim>\<open>$ ( ) + . ? ^ { | }\<close>; \<^verbatim>\<open>.*?\<close> for each \<^verbatim>\<open>*\<close>; \<^verbatim>\<open>[^/]+\<close> for each \<^verbatim>\<open>[name]\<close>;
  a backslash before each \<^verbatim>\<open>/\<close>.
\<close>

definition regex_special :: "nat list" where
  "regex_special = map cu ''$()+.?^{|}''"

definition escape_special :: "jsstring \<Rightarrow> jsstring" where
  "escape_special s = concat (map (\<lambda>c. if c \<in> set regex_special then [cu CHR 0x5C, c] else [c]) s)"

definition replace_star :: "jsstring \<Rightarrow> jsstring" where
  "replace_star s = concat (map (\<lambda>c. if c = cu CHR ''*'' then utf16 ''.*?'' else [c]) s)"

text \<open>
  \<^verbatim>\<open>.replace(/\[([^\]]+)\]/g, "[^/]+")\<close>: an opening bracket, the longest run of code
  units other than the closing bracket, which must not be empty, and the closing bracket.
\<close>

function replace_params :: "jsstring \<Rightarrow> jsstring" where
  "replace_params [] = []"
| "replace_params (c # cs) =
     (if c = cu CHR ''[''
         \<and> takeWhile (\<lambda>d. d \<noteq> cu CHR '']'') cs \<noteq> []
         \<and> dropWhile (\<lambda>d. d \<noteq> cu CHR '']'') cs \<noteq> []
      then utf16 ''[^/]+'' @ replace_params (tl (dropWhile (\<lambda>d. d \<noteq> cu CHR '']'') cs))
      else c # replace_params cs)"
  by pat_completeness auto
termination
proof (relation "measure length")
  fix c :: nat and cs :: "nat list"
  have "length (tl (dropWhile (\<lambda>d. d \<noteq> cu CHR '']'') cs)) \<le> length cs"
    using length_dropWhile_le [of "\<lambda>d. d \<noteq> cu CHR '']''" cs] by simp
  then show "(tl (dropWhile (\<lambda>d. d \<noteq> cu CHR '']'') cs), c # cs) \<in> measure length"
    by simp
qed simp_all

definition escape_slash :: "jsstring \<Rightarrow> jsstring" where
  "escape_slash s = concat (map (\<lambda>c. if c = cu CHR ''/'' then [cu CHR 0x5C, c] else [c]) s)"

definition pattern_source :: "jsstring \<Rightarrow> jsstring" where
  "pattern_source path =
     utf16 ''^'' @ escape_slash (replace_params (replace_star (escape_special path))) @ utf16 ''$''"

text \<open>
  The regular expressions that these sources denote, between the anchors: a literal ASCII
  code unit (written as itself or after a backslash), \<^verbatim>\<open>.*?\<close> and \<^verbatim>\<open>[^\/]+\<close>. A source
  with anything else (a backslash or a stray bracket in the route key, or a code unit
  outside ASCII) is outside the model: \<open>parse_regex\<close> gives \<open>None\<close>, where JavaScript
  raises a \<^verbatim>\<open>SyntaxError\<close> or builds an expression with other constructs.
\<close>

datatype re_token = Lit nat | AnyLazy | Segment

definition regex_syntax :: "nat list" where
  "regex_syntax = map cu ''$()+.?^{|}*[]/'' @ [cu CHR 0x5C]"

fun parse_regex :: "jsstring \<Rightarrow> re_token list option" where
  "parse_regex [] = Some []"
| "parse_regex (c # cs) =
     (if c = cu CHR 0x5C then
        (case cs of
           [] \<Rightarrow> None
         | d # ds \<Rightarrow> if d \<in> set regex_syntax then map_option ((#) (Lit d)) (parse_regex ds) else None)
      else if c = cu CHR ''.'' then
        (case cs of
           a # b # ds \<Rightarrow>
             if a = cu CHR ''*'' \<and> b = cu CHR ''?'' then map_option ((#) AnyLazy) (parse_regex ds)
             else None
         | _ \<Rightarrow> None)
      else if c = cu CHR ''['' then
        (case cs of
           a # b # d # e # f # ds \<Rightarrow>
             if [a, b, d, e, f] = [cu CHR ''^'', cu CHR 0x5C, cu CHR ''/'', cu CHR '']'', cu CHR ''+'']
             then map_option ((#) Segment) (parse_regex ds)
             else None
         | _ \<Rightarrow> None)
      else if c \<in> set regex_syntax \<or> 128 \<le> c then None
      else map_option ((#) (Lit c)) (parse_regex cs))"

text \<open>\<^verbatim>\<open>new RegExp("^...$", "i")\<close>: the tokens between the two anchors.\<close>

definition compile_source :: "jsstring \<Rightarrow> re_token list option" where
  "compile_source src =
     (if length src < 2 \<or> hd src \<noteq> cu CHR ''^'' \<or> last src \<noteq> cu CHR ''$'' then None
      else parse_regex (butlast (tl src)))"

text \<open>
  Matching under the flag \<^verbatim>\<open>i\<close>, anchored at both ends. \<open>canonicalize\<close> is the
  canonical form under which two code units are compared: an ASCII letter is folded to
  upper case, and a code unit outside ASCII is never folded to an ASCII one, so that it
  differs from every literal, all literals being ASCII. The dot does not match a line
  terminator; the negated class matches every code unit but the slash.
\<close>

definition canonicalize :: "nat \<Rightarrow> nat" where
  "canonicalize c = (if 97 \<le> c \<and> c \<le> 122 then c - 32 else c)"

definition is_line_terminator :: "nat \<Rightarrow> bool" where
  "is_line_terminator c = (c = 10 \<or> c = 13 \<or> c = 0x2028 \<or> c = 0x2029)"

fun regex_matches :: "re_token list \<Rightarrow> jsstring \<Rightarrow> bool" where
  "regex_matches [] s = (s = [])"
| "regex_matches (Lit c # ts) [] = False"
| "regex_matches (Lit c # ts) (d # ds) = (canonicalize c = canonicalize d \<and> regex_matches ts ds)"
| "regex_matches (AnyLazy # ts) [] = regex_matches ts []"
| "regex_matches (AnyLazy # ts) (d # ds) =
     (regex_matches ts (d # ds) \<or> (\<not> is_line_terminator d \<and> regex_matches (AnyLazy # ts) ds))"
| "regex_matches (Segment # ts) [] = False"
| "regex_matches (Segment # ts) (d # ds) =
     (d \<noteq> cu CHR ''/'' \<and> (regex_matches ts ds \<or> regex_matches (Segment # ts) ds))"

subsection \<open>computeRoutePatterns\<close>

text \<open>
  A compiled route: \<open>patternSource\<close> is \<^verbatim>\<open>pattern.source\<close>, \<open>pattern\<close> the expression itself.
\<close>

record 'c RoutePattern =
  verb :: jsstring
  patternSource :: jsstring
  pattern :: "re_token list"
  config :: 'c

text \<open>The white space of \<^verbatim>\<open>\s\<close>.\<close>

definition is_regex_space :: "nat \<Rightarrow> bool" where
  "is_regex_space c =
     (c \<in> {9, 10, 11, 12, 13, 32, 0xA0, 0x1680, 0x2028, 0x2029, 0x202F, 0x205F, 0x3000, 0xFEFF}
      \<or> (0x2000 \<le> c \<and> c \<le> 0x200A))"

text \<open>
  \<^verbatim>\<open>pattern.split(/\s+/)\<close>: \<open>cur\<close> is the field being read, \<open>sep\<close> tells that the last
  code unit belonged to a separator.
\<close>

fun split_spaces :: "bool \<Rightarrow> jsstring \<Rightarrow> jsstring \<Rightarrow> jsstring list" where
  "split_spaces sep cur [] = [cur]"
| "split_spaces sep cur (c # cs) =
     (if is_regex_space c
      then (if sep then split_spaces True cur cs else cur # split_spaces True [] cs)
      else split_spaces False (cur @ [c]) cs)"

text \<open>
  \<^verbatim>\<open>RouteConfig\<close>, with the fields of its optional \<^verbatim>\<open>config\<close> object beside the price
  and the network; the schemas and the \<^verbatim>\<open>discoverable\<close> flag, which only go into
  \<^verbatim>\<open>outputSchema\<close>, are left out.
\<close>

record RouteConfig =
  price :: Price
  routeNetwork :: string
  routeDescription :: "string option"
  routeMimeType :: "string option"
  routeMaxTimeoutSeconds :: "nat option"
  routeResource :: "string option"
  customPaywallHtml :: "string option"

text \<open>
  A value of the route table: a price in dollars alone, which computeRoutePatterns turns
  into a configuration on \<^verbatim>\<open>base-sepolia\<close>, or a configuration.
\<close>

datatype RouteValue = PriceValue Price | ConfigValue RouteConfig

definition normalizeRoute :: "RouteValue \<Rightarrow> RouteConfig" where
  "normalizeRoute v =
     (case v of
        PriceValue p \<Rightarrow>
          \<lparr>price = p, routeNetwork = ''base-sepolia'', routeDescription = None,
           routeMimeType = None, routeMaxTimeoutSeconds = None, routeResource = None,
           customPaywallHtml = None\<rparr>
      | ConfigValue c \<Rightarrow> c)"

text \<open>
  One entry of the route table. \<open>None\<close> for \<open>path\<close> is \<^verbatim>\<open>undefined\<close>; an expression
  outside the modelled fragment and a verb with a code unit outside ASCII are reported as
  library errors.
\<close>

definition computeRoutePattern :: "jsstring \<times> RouteValue \<Rightarrow> js_error + RouteConfig RoutePattern" where
  "computeRoutePattern entry =
     (let key = fst entry;
          parts = (if cu CHR '' '' \<in> set key then split_spaces False [] key else [utf16 ''*'', key]);
          routeVerb = hd parts;
          path = (if length parts < 2 then None else Some (parts ! 1))
      in case path of
           None \<Rightarrow> Inl (Error ''Invalid route pattern'')
         | Some p \<Rightarrow>
             if p = [] then Inl (Error ''Invalid route pattern'')
             else if list_ex (\<lambda>c. 128 \<le> c) routeVerb
             then Inl (LibError ''verb outside the modelled fragment'')
             else (case compile_source (pattern_source p) of
                     None \<Rightarrow> Inl (LibError ''regular expression outside the modelled fragment'')
                   | Some re \<Rightarrow>
                       Inr \<lparr>verb = toUpperCase routeVerb, patternSource = pattern_source p,
                            pattern = re, config = normalizeRoute (snd entry)\<rparr>))"

text \<open>
  The table is an object; its entries are taken in property order, which for keys that
  are not array indices is the order in which they were written.
\<close>

fun computeRoutePatterns ::
  "(jsstring \<times> RouteValue) list \<Rightarrow> js_error + RouteConfig RoutePattern list" where
  "computeRoutePatterns [] = Inr []"
| "computeRoutePatterns (entry # entries) =
     and_then (computeRoutePattern entry) (\<lambda>r.
       and_then (computeRoutePatterns entries) (\<lambda>rs. Inr (r # rs)))"

subsection \<open>findMatchingRoute\<close>

text \<open>\<^verbatim>\<open>path.split(/[?#]/)[0]\<close>\<close>

definition strip_query :: "jsstring \<Rightarrow> jsstring" where
  "strip_query path = takeWhile (\<lambda>c. c \<noteq> cu CHR ''?'' \<and> c \<noteq> cu CHR ''#'') path"

text \<open>
  \<^verbatim>\<open>decodeURIComponent\<close>. \<open>None\<close> is the \<^verbatim>\<open>URIError\<close>: a percent sign that is not
  followed by two hexadecimal digits, or escaped octets that are not the UTF-8 encoding of
  a code point.
\<close>

definition hex_digit :: "nat \<Rightarrow> nat option" where
  "hex_digit c =
     (if 48 \<le> c \<and> c \<le> 57 then Some (c - 48)
      else if 97 \<le> c \<and> c \<le> 102 then Some (c - 87)
      else if 65 \<le> c \<and> c \<le> 70 then Some (c - 55)
      else None)"

text \<open>The number of octets announced by the first octet of a sequence; 0 when it is none.\<close>

definition utf8_length :: "nat \<Rightarrow> nat" where
  "utf8_length b =
     (if b < 0x80 then 1 else if b < 0xC0 then 0 else if b < 0xE0 then 2
      else if b < 0xF0 then 3 else if b < 0xF8 then 4 else 0)"

definition is_continuation :: "nat \<Rightarrow> nat \<Rightarrow> nat \<Rightarrow> bool" where
  "is_continuation lo hi b = (lo \<le> b \<and> b \<le> hi)"

text \<open>The code point of a well-formed UTF-8 sequence of two to four octets.\<close>

fun utf8_code_point :: "nat list \<Rightarrow> nat option" where
  "utf8_code_point [b0, b1] =
     (if 0xC2 \<le> b0 \<and> b0 \<le> 0xDF \<and> is_continuation 0x80 0xBF b1
      then Some ((b0 - 0xC0) * 64 + (b1 - 0x80)) else None)"
| "utf8_code_point [b0, b1, b2] =
     (if 0xE0 \<le> b0 \<and> b0 \<le> 0xEF
         \<and> is_continuation (if b0 = 0xE0 then 0xA0 else 0x80) (if b0 = 0xED then 0x9F else 0xBF) b1
         \<and> is_continuation 0x80 0xBF b2
      then Some ((b0 - 0xE0) * 4096 + (b1 - 0x80) * 64 + (b2 - 0x80)) else None)"
| "utf8_code_point [b0, b1, b2, b3] =
     (if 0xF0 \<le> b0 \<and> b0 \<le> 0xF4
         \<and> is_continuation (if b0 = 0xF0 then 0x90 else 0x80) (if b0 = 0xF4 then 0x8F else 0xBF) b1
         \<and> is_continuation 0x80 0xBF b2 \<and> is_continuation 0x80 0xBF b3
      then Some ((b0 - 0xF0) * 262144 + (b1 - 0x80) * 4096 + (b2 - 0x80) * 64 + (b3 - 0x80))
      else None)"
| "utf8_code_point _ = None"

definition utf16_encode :: "nat \<Rightarrow> jsstring" where
  "utf16_encode v =
     (if v < 0x10000 then [v]
      else [0xD800 + (v - 0x10000) div 0x400, 0xDC00 + (v - 0x10000) mod 0x400])"

text \<open>
  \<open>octets\<close> are the octets of the sequence being read and \<open>k\<close> the number of octets
  still to come; outside a sequence \<open>k\<close> is 0.
\<close>

fun decode_units :: "nat list \<Rightarrow> nat \<Rightarrow> jsstring \<Rightarrow> jsstring option" where
  "decode_units octets k [] = (if k = 0 then Some [] else None)"
| "decode_units octets k (c # cs) =
     (if c = cu CHR ''%'' then
        (case cs of
           h1 # h2 # rest \<Rightarrow>
             (case (hex_digit h1, hex_digit h2) of
                (Some a, Some b) \<Rightarrow>
                  (let octet = 16 * a + b in
                   if k = 0 then
                     (if octet < 0x80 then map_option ((#) octet) (decode_units [] 0 rest)
                      else if utf8_length octet = 0 then None
                      else decode_units [octet] (utf8_length octet - 1) rest)
                   else if k = 1 then
                     (case utf8_code_point (octets @ [octet]) of
                        None \<Rightarrow> None
                      | Some v \<Rightarrow> map_option ((@) (utf16_encode v)) (decode_units [] 0 rest))
                   else decode_units (octets @ [octet]) (k - 1) rest)
              | _ \<Rightarrow> None)
         | _ \<Rightarrow> None)
      else if k = 0 then map_option ((#) c) (decode_units [] 0 cs)
      else None)"

definition decodeURIComponent :: "jsstring \<Rightarrow> jsstring option" where
  "decodeURIComponent s = decode_units [] 0 s"

text \<open>\<^verbatim>\<open>.replace(/\\/g, "/")\<close> and \<^verbatim>\<open>.replace(/\/+/g, "/")\<close>\<close>

definition replace_backslashes :: "jsstring \<Rightarrow> jsstring" where
  "replace_backslashes s = map (\<lambda>c. if c = cu CHR 0x5C then cu CHR ''/'' else c) s"

fun collapse_slashes :: "jsstring \<Rightarrow> jsstring" where
  "collapse_slashes (c # d # cs) =
     (if c = cu CHR ''/'' \<and> d = cu CHR ''/'' then collapse_slashes (d # cs)
      else c # collapse_slashes (d # cs))"
| "collapse_slashes cs = cs"

text \<open>
  \<^verbatim>\<open>.replace(/(.+?)\/+$/, "$1")\<close>. The expression matches from the first position \<open>i\<close>
  from which code units other than line terminators lead to a run of slashes that ends
  the string, and the match is replaced by its part before that run. With \<open>t\<close> the start
  of the last run of slashes: when the code unit before the run is not a line terminator,
  the run is removed; otherwise the match can only start inside the run, and all but the
  first slash of the run are removed.
\<close>

definition trim_trailing_slashes :: "jsstring \<Rightarrow> jsstring" where
  "trim_trailing_slashes s =
     (let n = length s;
          t = length (dropWhile (\<lambda>c. c = cu CHR ''/'') (rev s))
      in if t = n then s
         else if 1 \<le> t \<and> \<not> is_line_terminator (s ! (t - 1)) then take t s
         else if t + 2 \<le> n then take (t + 1) s
         else s)"

definition normalize_path :: "jsstring \<Rightarrow> jsstring option" where
  "normalize_path path =
     map_option (\<lambda>decodedPath.
         trim_trailing_slashes (collapse_slashes (replace_backslashes decodedPath)))
       (decodeURIComponent (strip_query path))"

definition route_matches :: "jsstring \<Rightarrow> jsstring \<Rightarrow> 'c RoutePattern \<Rightarrow> bool" where
  "route_matches normalizedPath method r =
     (regex_matches (pattern r) normalizedPath
      \<and> (verb r = utf16 ''*'' \<or> toUpperCase method = verb r))"

text \<open>\<^verbatim>\<open>matchingRoutes.reduce((a, b) => b.pattern.source.length > a.pattern.source.length ? b : a)\<close>\<close>

definition most_specific :: "'c RoutePattern \<Rightarrow> 'c RoutePattern list \<Rightarrow> 'c RoutePattern" where
  "most_specific r rs = foldl (\<lambda>a b. if length (patternSource b) > length (patternSource a) then b else a) r rs"

definition findMatchingRoute ::
  "'c RoutePattern list \<Rightarrow> jsstring \<Rightarrow> jsstring \<Rightarrow> 'c RoutePattern option" where
  "findMatchingRoute routePatterns path method =
     (case normalize_path path of
        None \<Rightarrow> None
      | Some normalizedPath \<Rightarrow>
          (case filter (route_matches normalizedPath method) routePatterns of
             [] \<Rightarrow> None
           | r # rs \<Rightarrow> Some (most_specific r rs)))"


section \<open>The Express middleware (x402-express/index.ts)\<close>

subsection \<open>The response object\<close>

text \<open>
  The body of a 402 reply. \<open>bodyError\<close> is the value of \<^verbatim>\<open>error\<close>: a reason or message,
  a caught error object, or \<^verbatim>\<open>undefined\<close>.
\<close>

datatype error_value = ErrorText string | ErrorObject js_error | ErrorUndefined

record x402_body =
  bodyVersion :: nat
  bodyError :: error_value
  accepts :: "PaymentRequirements list"
  bodyPayer :: "string option"

datatype chunk = HandlerChunk string | HtmlChunk string | JsonChunk x402_body

text \<open>
  The arguments of one call of \<^verbatim>\<open>res.end\<close>: chunk, encoding and callback, each of which
  may be absent. A callback is represented by a number.
\<close>

datatype end_args = EndArgs "chunk option" "string option" "nat option"

text \<open>
  The state of the response. \<open>sentHead\<close> is the status and the headers as they went to
  the client, \<open>None\<close> while \<^verbatim>\<open>res.headersSent\<close> is false; \<open>sentBody\<close> are the chunks that
  went to the client; \<open>endedWith\<close> are the arguments with which the original
  \<^verbatim>\<open>end\<close> was called. \<open>endIntercepted\<close> tells that \<^verbatim>\<open>res.end\<close> is the middleware's
  replacement, and \<open>bufferedEnd\<close> is the variable \<^verbatim>\<open>endArgs\<close> of the middleware.
\<close>

record response =
  statusCode :: nat
  headers :: "(string \<times> string) list"
  sentHead :: "(nat \<times> (string \<times> string) list) option"
  sentBody :: "chunk list"
  endedWith :: "end_args option"
  endIntercepted :: bool
  bufferedEnd :: "end_args option"

definition headersSent :: "response \<Rightarrow> bool" where
  "headersSent r = (sentHead r \<noteq> None)"

definition send_head :: "response \<Rightarrow> response" where
  "send_head r = (if headersSent r then r else r\<lparr>sentHead := Some (statusCode r, headers r)\<rparr>)"

definition chunk_of :: "end_args \<Rightarrow> chunk list" where
  "chunk_of args = (case args of EndArgs None _ _ \<Rightarrow> [] | EndArgs (Some c) _ _ \<Rightarrow> [c])"

text \<open>The original \<^verbatim>\<open>res.end\<close>; a response that has ended ignores a second call.\<close>

definition originalEnd :: "end_args \<Rightarrow> response \<Rightarrow> response" where
  "originalEnd args r =
     (if endedWith r \<noteq> None then r
      else (send_head r)\<lparr>sentBody := sentBody r @ chunk_of args, endedWith := Some args\<rparr>)"

text \<open>\<^verbatim>\<open>res.end(...)\<close>, as the property stands: the replacement only records the arguments.\<close>

definition res_end :: "end_args \<Rightarrow> response \<Rightarrow> response" where
  "res_end args r = (if endIntercepted r then r\<lparr>bufferedEnd := Some args\<rparr> else originalEnd args r)"

definition res_write :: "chunk \<Rightarrow> response \<Rightarrow> response" where
  "res_write c r =
     (if endedWith r \<noteq> None then r else (send_head r)\<lparr>sentBody := sentBody r @ [c]\<rparr>)"

text \<open>\<^verbatim>\<open>res.setHeader\<close> throws once the headers are sent.\<close>

definition setHeader :: "string \<Rightarrow> string \<Rightarrow> response \<Rightarrow> js_error + response" where
  "setHeader name v r =
     (if headersSent r then Inl (LibError ''ERR_HTTP_HEADERS_SENT'')
      else Inr (r\<lparr>headers := (name, v) # filter (\<lambda>h. fst h \<noteq> name) (headers r)\<rparr>))"

definition getHeader :: "string \<Rightarrow> response \<Rightarrow> string option" where
  "getHeader name r = map_of (headers r) name"

text \<open>
  \<^verbatim>\<open>res.status(code).json(body)\<close> and \<^verbatim>\<open>res.status(code).send(html)\<close> of Express: the
  status is set, the content type is set unless there is one, and \<^verbatim>\<open>this.end(chunk,
  encoding)\<close> is called. The other headers that Express computes for the body (length,
  entity tag) are not modelled.
\<close>

definition reply :: "nat \<Rightarrow> string \<Rightarrow> chunk \<Rightarrow> response \<Rightarrow> js_error + response" where
  "reply code contentType c r =
     and_then (if getHeader ''Content-Type'' r = None
               then setHeader ''Content-Type'' contentType (r\<lparr>statusCode := code\<rparr>)
               else if headersSent r then Inl (LibError ''ERR_HTTP_HEADERS_SENT'')
               else Inr (r\<lparr>statusCode := code\<rparr>))
       (\<lambda>r'. Inr (res_end (EndArgs (Some c) (Some ''utf8'') None) r'))"

definition reply_json :: "nat \<Rightarrow> x402_body \<Rightarrow> response \<Rightarrow> js_error + response" where
  "reply_json code body r = reply code ''application/json'' (JsonChunk body) r"

subsection \<open>The downstream handler\<close>

text \<open>
  What the route handler does, and whatever Express does when it reports an error of the
  handler, is a sequence of calls on the response. \<^verbatim>\<open>next()\<close> of Express returns when
  the handler returns, and hands no promise of the handler to the middleware, so that
  \<^verbatim>\<open>await next()\<close> does not wait for an asynchronous handler. The calls of a handler
  therefore fall into those made before the middleware goes on after \<^verbatim>\<open>await next()\<close>
  and those made later, of which the ones made while the middleware awaits settle meet
  the replaced \<^verbatim>\<open>res.end\<close>. Calls made after the middleware has finished are not part of
  its run. A header set after the headers are sent is an error inside the handler and
  leaves the response as it is.
\<close>

datatype handler_action =
    SetStatus nat
  | SetHeader string string
  | Write chunk
  | End end_args

definition handler_step :: "response \<Rightarrow> handler_action \<Rightarrow> response" where
  "handler_step r a =
     (case a of
        SetStatus code \<Rightarrow> r\<lparr>statusCode := code\<rparr>
      | SetHeader name v \<Rightarrow> (case setHeader name v r of Inl _ \<Rightarrow> r | Inr r' \<Rightarrow> r')
      | Write c \<Rightarrow> res_write c r
      | End args \<Rightarrow> res_end args r)"

definition run_handler :: "handler_action list \<Rightarrow> response \<Rightarrow> response" where
  "run_handler actions r = foldl handler_step r actions"

subsection \<open>Requests and the facilitator client\<close>

text \<open>
  The request: \<open>requestUrl\<close> is \<^verbatim>\<open>${req.protocol}://${req.headers.host}${req.path}\<close>; the
  three headers are those the middleware reads.
\<close>

record Request =
  reqPath :: jsstring
  reqMethod :: jsstring
  requestUrl :: string
  originalUrl :: string
  xPayment :: "string option"
  userAgent :: "string option"
  acceptHeader :: "string option"

record SupportedKind =
  kindScheme :: string
  kindNetwork :: string
  kindFeePayer :: "string option"

text \<open>\<^verbatim>\<open>SupportedEVMNetworks\<close> of types/shared/network.ts.\<close>

definition SupportedEVMNetworks :: "string list" where
  "SupportedEVMNetworks =
     [''base-sepolia'', ''base'', ''avalanche-fuji'', ''avalanche'', ''iotex'', ''sei'',
      ''sei-testnet'', ''polygon'', ''polygon-amoy'', ''peaq'']"

text \<open>
  What the middleware calls outside itself: the three operations of the facilitator
  client (each an HTTP request, \<open>Inl\<close> when it throws), the decoder of the payment header,
  the encoder of the settle response, the address checksum of viem, the paywall page, the
  tables of the price conversion, and the handler: \<open>downstream\<close> are its calls before the
  middleware goes on after \<^verbatim>\<open>await next()\<close>, \<open>duringSettlement\<close> its calls while the
  middleware awaits settle.
\<close>

record middleware_env =
  supported :: "js_error + SupportedKind list"
  decodePayment :: "string \<Rightarrow> js_error + PaymentPayload"
  facilitatorVerify :: "PaymentPayload \<Rightarrow> PaymentRequirements \<Rightarrow> js_error + VerifyResponse"
  facilitatorSettle :: "PaymentPayload \<Rightarrow> PaymentRequirements \<Rightarrow> js_error + SettleResponse"
  settleResponseHeader :: "SettleResponse \<Rightarrow> string"
  getAddress :: "string \<Rightarrow> js_error + string"
  getPaywallHtml :: "PaymentRequirements list \<Rightarrow> string \<Rightarrow> string"
  downstream :: "handler_action list"
  duringSettlement :: "handler_action list"
  chainTables :: chain_tables

text \<open>The calls that leave the middleware, in the order in which they are made.\<close>

datatype call = CallSupported | CallVerify | CallNext | CallSettle

record world =
  calls :: "call list"
  res :: response

subsection \<open>Building the payment requirements\<close>

text \<open>The loop over \<^verbatim>\<open>paymentKinds.kinds\<close>: the fee payer of the first matching kind.\<close>

fun find_fee_payer :: "string \<Rightarrow> SupportedKind list \<Rightarrow> string option" where
  "find_fee_payer net [] = None"
| "find_fee_payer net (kind # kinds) =
     (if kindNetwork kind = net \<and> kindScheme kind = ''exact'' then kindFeePayer kind
      else find_fee_payer net kinds)"

text \<open>
  Lines 110 to 209: the atomic amount and the list \<^verbatim>\<open>paymentRequirements\<close>, with the calls
  made on the way. The middleware is taken without \<^verbatim>\<open>x402Config\<close>, so that the third
  argument of processPriceToAtomicAmount is \<^verbatim>\<open>undefined\<close>.
\<close>

definition buildPaymentRequirements ::
  "middleware_env \<Rightarrow> address \<Rightarrow> RouteConfig \<Rightarrow> Request
     \<Rightarrow> js_error + (call list \<times> PaymentRequirements list)" where
  "buildPaymentRequirements env payToAddress routeConfig req =
     and_then (processPriceToAtomicAmount (chainTables env) (price routeConfig) (routeNetwork routeConfig))
       (\<lambda>atomicAmountForAsset.
          case atomicAmountForAsset of
            Inl err \<Rightarrow> Inl (Error err)
          | Inr atomic \<Rightarrow>
              (let resourceUrl = (case routeResource routeConfig of
                                    Some url \<Rightarrow> if url = [] then requestUrl req else url
                                  | None \<Rightarrow> requestUrl req);
                   base = \<lparr>scheme = ''exact'', network = routeNetwork routeConfig,
                           maxAmountRequired = atomicAmount atomic, resource = resourceUrl,
                           description = (case routeDescription routeConfig of Some d \<Rightarrow> d | None \<Rightarrow> []),
                           mimeType = (case routeMimeType routeConfig of Some m \<Rightarrow> m | None \<Rightarrow> []),
                           payTo = payToAddress,
                           maxTimeoutSeconds =
                             (case routeMaxTimeoutSeconds routeConfig of Some t \<Rightarrow> t | None \<Rightarrow> 60),
                           asset = assetAddress (atomicAsset atomic), extra = NoExtra\<rparr>
               in if routeNetwork routeConfig \<in> set SupportedEVMNetworks then
                    and_then (getAddress env payToAddress) (\<lambda>checkedPayTo.
                    and_then (getAddress env (assetAddress (atomicAsset atomic))) (\<lambda>checkedAsset.
                      Inr ([], [base\<lparr>payTo := checkedPayTo, asset := checkedAsset,
                                     extra := (case eip712 (atomicAsset atomic) of
                                                 Some nv \<Rightarrow> Eip712 (fst nv) (snd nv)
                                               | None \<Rightarrow> NoExtra)\<rparr>])))
                  else if routeNetwork routeConfig \<in> set SupportedSVMNetworks then
                    and_then (supported env) (\<lambda>kinds.
                      case find_fee_payer (routeNetwork routeConfig) kinds of
                        None \<Rightarrow> Inl (Error ''The facilitator did not provide a fee payer'')
                      | Some payerAddress \<Rightarrow>
                          if payerAddress = [] then Inl (Error ''The facilitator did not provide a fee payer'')
                          else Inr ([CallSupported], [base\<lparr>extra := FeePayer payerAddress\<rparr>]))
                  else Inl (Error ''Unsupported network'')))"

definition findMatchingPaymentRequirements ::
  "PaymentRequirements list \<Rightarrow> PaymentPayload \<Rightarrow> PaymentRequirements option" where
  "findMatchingPaymentRequirements paymentRequirements payment =
     find (\<lambda>v. scheme v = payloadScheme payment \<and> network v = payloadNetwork payment)
       paymentRequirements"

subsection \<open>Settling after the handler\<close>

definition payment_required ::
  "error_value \<Rightarrow> PaymentRequirements list \<Rightarrow> string option \<Rightarrow> response \<Rightarrow> js_error + response" where
  "payment_required err paymentRequirements p r =
     reply_json 402 \<lparr>bodyVersion = 1, bodyError = err, accepts = paymentRequirements, bodyPayer = p\<rparr> r"

text \<open>
  Restoring \<^verbatim>\<open>res.end\<close> and replaying the recorded call: the statements of the
  \<^verbatim>\<open>finally\<close> block, which are also those of the branch for a status of 400 or more.
\<close>

definition flush_buffered :: "response \<Rightarrow> response" where
  "flush_buffered r =
     (case bufferedEnd r of
        None \<Rightarrow> r\<lparr>endIntercepted := False\<rparr>
      | Some args \<Rightarrow> originalEnd args (r\<lparr>endIntercepted := False\<rparr>))"

text \<open>
  The replacement of \<^verbatim>\<open>res.end\<close> and \<^verbatim>\<open>await next()\<close>: the response when the middleware
  goes on.
\<close>

definition handled :: "middleware_env \<Rightarrow> response \<Rightarrow> response" where
  "handled env r = run_handler (downstream env) (r\<lparr>endIntercepted := True, bufferedEnd := None\<rparr>)"

text \<open>
  The \<^verbatim>\<open>try\<close> block around settle with its \<^verbatim>\<open>catch\<close>; the \<^verbatim>\<open>finally\<close> block follows in
  \<open>settle_and_flush\<close>. \<open>settled\<close> is the response at the moment the promise of settle is
  settled. The \<^verbatim>\<open>catch\<close> block starts from this response: a throwing \<^verbatim>\<open>setHeader\<close>
  does not change it, and the reply that follows a successful \<^verbatim>\<open>setHeader\<close> does not
  throw, the headers being unsent. An error that leaves the \<^verbatim>\<open>catch\<close> block leaves the
  middleware.
\<close>

definition settled :: "middleware_env \<Rightarrow> response \<Rightarrow> response" where
  "settled env r = run_handler (duringSettlement env) r"

definition settle_try_catch ::
  "middleware_env \<Rightarrow> PaymentRequirements list \<Rightarrow> PaymentPayload \<Rightarrow> PaymentRequirements
     \<Rightarrow> response \<Rightarrow> js_error + response" where
  "settle_try_catch env paymentRequirements decodedPayment selected r =
     (case and_then (facilitatorSettle env decodedPayment selected) (\<lambda>settleResponse.
             and_then (setHeader ''X-PAYMENT-RESPONSE'' (settleResponseHeader env settleResponse)
                         (settled env r))
               (\<lambda>r'. if \<not> success settleResponse
                     then payment_required
                            (case errorReason settleResponse of
                               Some reason \<Rightarrow> ErrorText reason | None \<Rightarrow> ErrorUndefined)
                            paymentRequirements None r'
                     else Inr r'))
      of Inr r' \<Rightarrow> Inr r'
       | Inl e \<Rightarrow>
           if \<not> headersSent (settled env r)
           then payment_required (ErrorObject e) paymentRequirements None (settled env r)
           else Inr (settled env r))"

definition settle_and_flush ::
  "middleware_env \<Rightarrow> PaymentRequirements list \<Rightarrow> PaymentPayload \<Rightarrow> PaymentRequirements
     \<Rightarrow> response \<Rightarrow> js_error + response" where
  "settle_and_flush env paymentRequirements decodedPayment selected r =
     and_then (settle_try_catch env paymentRequirements decodedPayment selected r)
       (\<lambda>r'. Inr (flush_buffered r'))"

text \<open>Lines 311 to 361: from the replacement of \<^verbatim>\<open>res.end\<close> to the end of the middleware.\<close>

definition after_verification ::
  "middleware_env \<Rightarrow> PaymentRequirements list \<Rightarrow> PaymentPayload \<Rightarrow> PaymentRequirements
     \<Rightarrow> response \<Rightarrow> js_error + world" where
  "after_verification env paymentRequirements decodedPayment selected r =
     (if statusCode (handled env r) \<ge> 400
      then Inr \<lparr>calls = [CallNext], res = flush_buffered (handled env r)\<rparr>
      else and_then (settle_and_flush env paymentRequirements decodedPayment selected (handled env r))
             (\<lambda>r'. Inr \<lparr>calls = [CallNext, CallSettle], res = r'\<rparr>))"

subsection \<open>The middleware\<close>

text \<open>\<^verbatim>\<open>String.prototype.includes\<close>.\<close>

fun string_includes :: "string \<Rightarrow> string \<Rightarrow> bool" where
  "string_includes [] part = (part = [])"
| "string_includes (c # s) part = (take (length part) (c # s) = part \<or> string_includes s part)"

definition isWebBrowser :: "Request \<Rightarrow> bool" where
  "isWebBrowser req =
     (string_includes (case acceptHeader req of Some a \<Rightarrow> a | None \<Rightarrow> []) ''text/html''
      \<and> string_includes (case userAgent req of Some a \<Rightarrow> a | None \<Rightarrow> []) ''Mozilla'')"

text \<open>The verification of a decoded payment, from line 283 on.\<close>

definition verify_and_continue ::
  "middleware_env \<Rightarrow> PaymentRequirements list \<Rightarrow> PaymentPayload \<Rightarrow> PaymentRequirements
     \<Rightarrow> response \<Rightarrow> js_error + world" where
  "verify_and_continue env paymentRequirements decodedPayment selected r =
     (case facilitatorVerify env decodedPayment selected of
        Inr response \<Rightarrow>
          if \<not> isValid response
          then (case payment_required
                       (case invalidReason response of
                          Some reason \<Rightarrow> ErrorText reason | None \<Rightarrow> ErrorUndefined)
                       paymentRequirements (payer response) r of
                  Inr r' \<Rightarrow> Inr \<lparr>calls = [CallVerify], res = r'\<rparr>
                | Inl e \<Rightarrow>
                    and_then (payment_required (ErrorObject e) paymentRequirements None r)
                      (\<lambda>r'. Inr \<lparr>calls = [CallVerify], res = r'\<rparr>))
          else and_then (after_verification env paymentRequirements decodedPayment selected r)
                 (\<lambda>w. Inr (w\<lparr>calls := CallVerify # calls w\<rparr>))
      | Inl e \<Rightarrow>
          and_then (payment_required (ErrorObject e) paymentRequirements None r)
            (\<lambda>r'. Inr \<lparr>calls = [CallVerify], res = r'\<rparr>))"

text \<open>The middleware for a request that matches a route, from line 211 on.\<close>

definition handle_payment ::
  "middleware_env \<Rightarrow> RouteConfig \<Rightarrow> PaymentRequirements list \<Rightarrow> Request \<Rightarrow> response
     \<Rightarrow> js_error + world" where
  "handle_payment env routeConfig paymentRequirements req r =
     (case (case xPayment req of Some p \<Rightarrow> if p = [] then None else Some p | None \<Rightarrow> None) of
        None \<Rightarrow>
          if isWebBrowser req
          then and_then (reply 402 ''text/html''
                           (HtmlChunk (case customPaywallHtml routeConfig of
                                         Some html \<Rightarrow> if html = []
                                                       then getPaywallHtml env paymentRequirements (originalUrl req)
                                                       else html
                                       | None \<Rightarrow> getPaywallHtml env paymentRequirements (originalUrl req))) r)
                 (\<lambda>r'. Inr \<lparr>calls = [], res = r'\<rparr>)
          else and_then (payment_required (ErrorText ''X-PAYMENT header is required'')
                           paymentRequirements None r)
                 (\<lambda>r'. Inr \<lparr>calls = [], res = r'\<rparr>)
      | Some payment \<Rightarrow>
          (case decodePayment env payment of
             Inl e \<Rightarrow>
               and_then (payment_required (ErrorObject e) paymentRequirements None r)
                 (\<lambda>r'. Inr \<lparr>calls = [], res = r'\<rparr>)
           | Inr decoded \<Rightarrow>
               (let decodedPayment = decoded\<lparr>x402Version := 1\<rparr> in
                case findMatchingPaymentRequirements paymentRequirements decodedPayment of
                  None \<Rightarrow>
                    and_then (payment_required
                                (ErrorText ''Unable to find matching payment requirements'')
                                paymentRequirements None r)
                      (\<lambda>r'. Inr \<lparr>calls = [], res = r'\<rparr>)
                | Some selected \<Rightarrow>
                    verify_and_continue env paymentRequirements decodedPayment selected r)))"

text \<open>
  The middleware that paymentMiddleware returns, for the compiled route table. A request
  that matches no route goes to \<^verbatim>\<open>next()\<close> with the response untouched.
\<close>

definition paymentMiddleware ::
  "middleware_env \<Rightarrow> address \<Rightarrow> RouteConfig RoutePattern list \<Rightarrow> Request \<Rightarrow> response
     \<Rightarrow> js_error + world" where
  "paymentMiddleware env payToAddress routePatterns req r =
     (case findMatchingRoute routePatterns (reqPath req) (toUpperCase (reqMethod req)) of
        None \<Rightarrow> Inr \<lparr>calls = [CallNext], res = run_handler (downstream env) r\<rparr>
      | Some matchingRoute \<Rightarrow>
          and_then (buildPaymentRequirements env payToAddress (config matchingRoute) req)
            (\<lambda>built.
               and_then (handle_payment env (config matchingRoute) (snd built) req r)
                 (\<lambda>w. Inr (w\<lparr>calls := fst built @ calls w\<rparr>))))"


section \<open>A payment on devnet, for evaluating the definitions\<close>

definition example_requirements :: PaymentRequirements where
  "example_requirements =
     \<lparr>scheme = ''exact'', network = ''solana-devnet'', maxAmountRequired = ''1800'',
      resource = ''http://localhost:3000/weather'', description = [], mimeType = [],
      payTo = ''payToAddress'', maxTimeoutSeconds = 60, asset = ''usdcMint'',
      extra = FeePayer ''facilitatorAddress''\<rparr>"

definition example_payload :: PaymentPayload where
  "example_payload =
     \<lparr>x402Version = 1, payloadScheme = ''exact'', payloadNetwork = ''solana-devnet'',
      payloadTransaction = ''AQID''\<rparr>"

definition limit_instruction :: Instruction where
  "limit_instruction =
     \<lparr>programAddress = COMPUTE_BUDGET_PROGRAM_ADDRESS, accounts = None,
      data = Some [2, 100, 25, 0, 0]\<rparr>"

text \<open>\<^verbatim>\<open>SetComputeUnitPrice\<close> of \<open>b0 + 256 * b1 + 65536 * b2 + 16777216 * b3\<close> microlamports.\<close>

definition price_instruction :: "8 word \<Rightarrow> 8 word \<Rightarrow> 8 word \<Rightarrow> 8 word \<Rightarrow> Instruction" where
  "price_instruction b0 b1 b2 b3 =
     \<lparr>programAddress = COMPUTE_BUDGET_PROGRAM_ADDRESS, accounts = None,
      data = Some [3, b0, b1, b2, b3, 0, 0, 0, 0]\<rparr>"

text \<open>A price instruction cut after its discriminator.\<close>

definition short_price_instruction :: Instruction where
  "short_price_instruction =
     \<lparr>programAddress = COMPUTE_BUDGET_PROGRAM_ADDRESS, accounts = None, data = Some [3]\<rparr>"

text \<open>\<^verbatim>\<open>TransferChecked\<close> of \<open>b0 + 256 * b1\<close> atomic units with 6 decimals.\<close>

definition transfer_instruction :: "8 word \<Rightarrow> 8 word \<Rightarrow> Instruction" where
  "transfer_instruction b0 b1 =
     \<lparr>programAddress = TOKEN_PROGRAM_ADDRESS,
      accounts = Some [''sourceAta'', ''usdcMint'', ''ata:payToAddress'', ''clientAddress''],
      data = Some [12, b0, b1, 0, 0, 0, 0, 0, 0, 6]\<rparr>"

definition create_ata_instruction :: "address \<Rightarrow> address \<Rightarrow> Instruction" where
  "create_ata_instruction ataOwner ataMint =
     \<lparr>programAddress = ''ATokenGPvbdGVxr1b2hvZbsiqW5xWH25efTNsLJA8knL'',
      accounts = Some [''facilitatorAddress'', ''ata:payToAddress'', ataOwner, ataMint,
                       ''11111111111111111111111111111111'', TOKEN_PROGRAM_ADDRESS],
      data = Some [0]\<rparr>"

definition example_message :: CompiledTransactionMessage where
  "example_message =
     \<lparr>staticAccounts = [''facilitatorAddress'', ''clientAddress'', ''sourceAta'', ''ata:payToAddress'',
                        COMPUTE_BUDGET_PROGRAM_ADDRESS, TOKEN_PROGRAM_ADDRESS, ''usdcMint''],
      instructions = [\<lparr>programAddressIndex = 4, accountIndices = None\<rparr>,
                      \<lparr>programAddressIndex = 4, accountIndices = None\<rparr>,
                      \<lparr>programAddressIndex = 5, accountIndices = Some [2, 6, 3, 1]\<rparr>]\<rparr>"

text \<open>
  A cluster on which every account exists, the simulation passes and the transaction is
  confirmed 850 ms after it was sent; the wire string \<^verbatim>\<open>AQID\<close> decodes to a transfer of
  1800 units. Every request of the polling loop is answered after 40 ms.
\<close>

definition example_env :: "(string, string) facilitator_env" where
  "example_env =
     \<lparr>decodeTransaction = (\<lambda>s. if s = ''AQID'' then Some ''tx'' else None),
      decodeCompiledMessage = (\<lambda>_. Inr example_message),
      decompileTransactionMessage =
        (\<lambda>_. Inr [limit_instruction, price_instruction 1 0 0 0, transfer_instruction 8 7]),
      identifyTokenInstruction =
        (\<lambda>ix. Inr (if first_data_byte ix = Some 12 then TransferChecked else OtherTokenInstruction)),
      identifyToken2022Instruction =
        (\<lambda>ix. Inr (if first_data_byte ix = Some 12 then TransferChecked else OtherTokenInstruction)),
      findAssociatedTokenPda = (\<lambda>m ownerAddress prog. Inr (''ata:'' @ ownerAddress)),
      fetchEncodedAccounts = (\<lambda>addrs. Inr (map (\<lambda>a. \<lparr>accountAddress = a, exists = True\<rparr>) addrs)),
      signAndSimulate = (\<lambda>_. Inr None),
      signTransaction = (\<lambda>tx. Inr (''signed:'' @ tx)),
      getSignatureFromTransaction = (\<lambda>_. ''5signature''),
      sendTransaction = (\<lambda>_. Inr ''5signature''),
      createSolanaRpc = (\<lambda>_. Inr ()),
      createSolanaRpcSubscriptions = (\<lambda>_. Inr ()),
      decodeSignedMessage = (\<lambda>_. Inr example_message),
      fetchLifetime = (\<lambda>_. Inr (BlockhashLifetime 1234)),
      confirmationRace = (\<lambda>_. Some (Inr (), 850)),
      abortRejection = DOMException ''AbortError'',
      getBlockHeight = (\<lambda>t. (Inr 1200, t + 40)),
      getSignatureStatuses =
        (\<lambda>_ t. (Inr (Some \<lparr>statusErr = False, confirmationStatus = Some ''confirmed''\<rparr>), t + 40))\<rparr>"

text \<open>The same cluster, with a facilitator key that cannot complete the signatures.\<close>

definition unsigned_env :: "(string, string) facilitator_env" where
  "unsigned_env =
     example_env\<lparr>signTransaction := (\<lambda>_. Inl (LibError ''transaction is missing signatures''))\<rparr>"

text \<open>The same cluster, with a websocket that fails 120 ms into the wait for the confirmation.\<close>

definition dropped_env :: "(string, string) facilitator_env" where
  "dropped_env =
     example_env\<lparr>confirmationRace :=
       (\<lambda>_. Some (Inl (LibError ''WebSocket connection closed''), 120))\<rparr>"

text \<open>
  The same cluster, on which the block height passes the transaction's last valid one
  after 45 seconds.
\<close>

definition expired_env :: "(string, string) facilitator_env" where
  "expired_env =
     example_env\<lparr>confirmationRace :=
       (\<lambda>_. Some (Inl (SolanaError SOLANA_ERROR__BLOCK_HEIGHT_EXCEEDED), 45000))\<rparr>"

text \<open>The same cluster, on which no confirmation ever arrives.\<close>

definition silent_env :: "(string, string) facilitator_env" where
  "silent_env = example_env\<lparr>confirmationRace := (\<lambda>_. None)\<rparr>"

text \<open>The same cluster, on which the confirmation arrives after 61 seconds.\<close>

definition late_env :: "(string, string) facilitator_env" where
  "late_env = example_env\<lparr>confirmationRace := (\<lambda>_. Some (Inr (), 61000))\<rparr>"

text \<open>The same cluster, whose simulation cannot be reached.\<close>

definition unreachable_env :: "(string, string) facilitator_env" where
  "unreachable_env = example_env\<lparr>signAndSimulate := (\<lambda>_. Inl (LibError ''fetch failed''))\<rparr>"

text \<open>The same cluster, which cannot be reached when the transaction is to be sent.\<close>

definition offline_env :: "(string, string) facilitator_env" where
  "offline_env = example_env\<lparr>sendTransaction := (\<lambda>_. Inl (LibError ''fetch failed''))\<rparr>"

text \<open>The parsed \<^verbatim>\<open>TransferChecked\<close> of the example transaction, for a given amount.\<close>

definition parsed_transfer :: "64 word \<Rightarrow> ParsedTransferChecked" where
  "parsed_transfer n =
     \<lparr>tokenProgram = TOKEN_PROGRAM_ADDRESS, source = ''sourceAta'', transferMint = ''usdcMint'',
      destination = ''ata:payToAddress'', authority = ''clientAddress'', amount = n, decimals = 6\<rparr>"

text \<open>The same cluster, with a message decoder that rejects the message bytes.\<close>

definition garbled_env :: "(string, string) facilitator_env" where
  "garbled_env =
     example_env\<lparr>decodeCompiledMessage := (\<lambda>_. Inl (LibError ''codec: unexpected message version''))\<rparr>"

text \<open>The example payload under a scheme other than \<^verbatim>\<open>exact\<close>.\<close>

definition upto_payload :: PaymentPayload where
  "upto_payload = example_payload\<lparr>payloadScheme := ''upto''\<rparr>"


section \<open>Route tables\<close>

text \<open>
  The route table of the tests of findMatchingRoute and the three patterns that
  computeRoutePatterns makes of it.
\<close>

definition test_routes :: "(jsstring \<times> RouteValue) list" where
  "test_routes =
     [(utf16 ''GET /api/test'', PriceValue (MoneyString ''$0.01'')),
      (utf16 ''POST /api/test'', PriceValue (MoneyString ''$0.02'')),
      (utf16 ''/api/wildcard'', PriceValue (MoneyString ''$0.03''))]"

definition base_sepolia_config :: "string \<Rightarrow> RouteConfig" where
  "base_sepolia_config dollars =
     \<lparr>price = MoneyString dollars, routeNetwork = ''base-sepolia'', routeDescription = None,
      routeMimeType = None, routeMaxTimeoutSeconds = None, routeResource = None,
      customPaywallHtml = None\<rparr>"

text \<open>The pattern of the path \<^verbatim>\<open>/api/test\<close>, for a verb and a configuration.\<close>

definition api_test_route :: "string \<Rightarrow> 'c \<Rightarrow> 'c RoutePattern" where
  "api_test_route method c =
     \<lparr>verb = utf16 method,
      patternSource = utf16 ''^'' @ [92, 47] @ utf16 ''api'' @ [92, 47] @ utf16 ''test$'',
      pattern = map Lit (utf16 ''/api/test''), config = c\<rparr>"

definition api_wildcard_route :: "RouteConfig RoutePattern" where
  "api_wildcard_route =
     \<lparr>verb = utf16 ''*'',
      patternSource = utf16 ''^'' @ [92, 47] @ utf16 ''api'' @ [92, 47] @ utf16 ''wildcard$'',
      pattern = map Lit (utf16 ''/api/wildcard''), config = base_sepolia_config ''$0.03''\<rparr>"

definition test_patterns :: "RouteConfig RoutePattern list" where
  "test_patterns =
     [api_test_route ''GET'' (base_sepolia_config ''$0.01''),
      api_test_route ''POST'' (base_sepolia_config ''$0.02''), api_wildcard_route]"

text \<open>
  A table with a second route whose parameter segment covers \<^verbatim>\<open>/api/test\<close>, and its two
  patterns.
\<close>

definition parameter_routes :: "(jsstring \<times> RouteValue) list" where
  "parameter_routes =
     [(utf16 ''GET /api/test'', PriceValue (MoneyString ''$0.01'')),
      (utf16 ''/api/[id]'', PriceValue (MoneyString ''$0.05''))]"

definition api_id_route :: "RouteConfig RoutePattern" where
  "api_id_route =
     \<lparr>verb = utf16 ''*'',
      patternSource = utf16 ''^'' @ [92, 47] @ utf16 ''api'' @ [92, 47] @ utf16 ''[^'' @ [92, 47]
                      @ utf16 '']+$'',
      pattern = map Lit (utf16 ''/api/'') @ [Segment], config = base_sepolia_config ''$0.05''\<rparr>"


section \<open>USDC on the Solana networks\<close>

text \<open>
  The chain identifiers of the two Solana networks and their USDC mints, for evaluating
  the price conversion.
\<close>

definition example_tables :: chain_tables where
  "example_tables =
     \<lparr>networkId = (\<lambda>n. if n = ''solana-devnet'' then Some 103
                        else if n = ''solana'' then Some 101 else None),
      usdcConfig = (\<lambda>c. if c = 103 then Some (''4zMMC9srt5Ri5X14GAgXhaHii3GnPAEERYPJgZJDncDU'', ''USDC'')
                         else if c = 101 then Some (''EPjFWdd5AufqSSqeM2qN1xzybapC9G4wEGGkZwyTDt1v'', ''USDC'')
                         else None)\<rparr>"

definition usdc_devnet :: Asset where
  "usdc_devnet =
     \<lparr>assetAddress = ''4zMMC9srt5Ri5X14GAgXhaHii3GnPAEERYPJgZJDncDU'', assetDecimals = 6,
      eip712 = Some (''USDC'', ''2'')\<rparr>"

section \<open>A protected weather service\<close>

text \<open>
  A server that sells \<^verbatim>\<open>GET /weather\<close> and everything under \<^verbatim>\<open>/api/\<close> for 1800 units of
  the token of the example payment, on devnet.
\<close>

definition weather_config :: RouteConfig where
  "weather_config =
     \<lparr>price = TokenAmount ''1800'' \<lparr>assetAddress = ''usdcMint'', assetDecimals = 6, eip712 = None\<rparr>,
      routeNetwork = ''solana-devnet'', routeDescription = None, routeMimeType = None,
      routeMaxTimeoutSeconds = None, routeResource = None, customPaywallHtml = None\<rparr>"

definition weather_routes :: "(jsstring \<times> RouteValue) list" where
  "weather_routes =
     [(utf16 ''GET /weather'', ConfigValue weather_config),
      (utf16 ''/api/*'', ConfigValue weather_config)]"

definition weather_route :: "RouteConfig RoutePattern" where
  "weather_route =
     \<lparr>verb = utf16 ''GET'', patternSource = utf16 ''^'' @ [92, 47] @ utf16 ''weather$'',
      pattern = map Lit (utf16 ''/weather''), config = weather_config\<rparr>"

definition api_route :: "RouteConfig RoutePattern" where
  "api_route =
     \<lparr>verb = utf16 ''*'',
      patternSource = utf16 ''^'' @ [92, 47] @ utf16 ''api'' @ [92, 47] @ utf16 ''.*?$'',
      pattern = map Lit (utf16 ''/api/'') @ [AnyLazy], config = weather_config\<rparr>"

definition weather_patterns :: "RouteConfig RoutePattern list" where
  "weather_patterns = [weather_route, api_route]"

text \<open>
  A request for the weather with the given \<^verbatim>\<open>X-PAYMENT\<close> header, from a client that is no
  browser.
\<close>

definition weather_request :: "string option \<Rightarrow> Request" where
  "weather_request header =
     \<lparr>reqPath = utf16 ''/weather'', reqMethod = utf16 ''GET'',
      requestUrl = ''http://localhost:3000/weather'', originalUrl = ''/weather'',
      xPayment = header, userAgent = Some ''curl/8.5.0'', acceptHeader = Some ''*/*''\<rparr>"

text \<open>A request without payment whose path has a percent sign that starts no escape.\<close>

definition malformed_request :: Request where
  "malformed_request =
     \<lparr>reqPath = utf16 ''/api/%XX'', reqMethod = utf16 ''GET'',
      requestUrl = ''http://localhost:3000/api/%XX'', originalUrl = ''/api/%XX'',
      xPayment = None, userAgent = Some ''curl/8.5.0'', acceptHeader = Some ''*/*''\<rparr>"

definition fresh_response :: response where
  "fresh_response =
     \<lparr>statusCode = 200, headers = [], sentHead = None, sentBody = [], endedWith = None,
      endIntercepted = False, bufferedEnd = None\<rparr>"

text \<open>The calls of a handler that reports the weather, and of one that fails with status 500.\<close>

definition weather_report :: "handler_action list" where
  "weather_report =
     [SetHeader ''Content-Type'' ''application/json'',
      End (EndArgs (Some (HandlerChunk ''sunny'')) None None)]"

definition weather_failure :: "handler_action list" where
  "weather_failure =
     [SetStatus 500, SetHeader ''Content-Type'' ''text/plain'',
      End (EndArgs (Some (HandlerChunk ''station offline'')) None None)]"

text \<open>The calls of a handler that writes a part of its report before it ends the response.\<close>

definition streamed_report :: "handler_action list" where
  "streamed_report =
     [Write (HandlerChunk ''sun''), End (EndArgs (Some (HandlerChunk ''ny'')) None None)]"

text \<open>
  The middleware's surroundings: a facilitator that runs verify and settle on the given
  cluster and pays the fees from \<^verbatim>\<open>facilitatorAddress\<close>, a payment header that decodes
  to the example payload, and a handler with the given calls before the middleware goes
  on and while it awaits settle.
\<close>

definition example_server ::
  "(string, string) facilitator_env \<Rightarrow> handler_action list \<Rightarrow> handler_action list
     \<Rightarrow> middleware_env" where
  "example_server cluster early late =
     \<lparr>supported = Inr [\<lparr>kindScheme = ''exact'', kindNetwork = ''solana-devnet'',
                        kindFeePayer = Some ''facilitatorAddress''\<rparr>],
      decodePayment = (\<lambda>header. if header = ''eyJ4NDAyVmVyc2lvbiI6MX0''
                                then Inr example_payload
                                else Inl (Error ''Invalid payment'')),
      facilitatorVerify = (\<lambda>payload paymentRequirements. verify cluster payload paymentRequirements None),
      facilitatorSettle = (\<lambda>payload paymentRequirements. settle cluster payload paymentRequirements None),
      settleResponseHeader = (\<lambda>response. ''base64:'' @ transaction response),
      getAddress = Inr,
      getPaywallHtml = (\<lambda>_ _. ''<html>Payment Required</html>''),
      downstream = early,
      duringSettlement = late,
      chainTables = example_tables\<rparr>"


section \<open>Properties of the introspector\<close>

lemma and_then_Inr [simp]: "and_then (Inr v) f = f v"
  by (simp add: and_then_def)

lemma and_then_Inl [simp]: "and_then (Inl e) f = Inl e"
  by (simp add: and_then_def)

lemma and_then_eq_Inr: "and_then m f = Inr r \<longleftrightarrow> (\<exists>v. m = Inr v \<and> f v = Inr r)"
  by (cases m) simp_all

lemmas example_defs =
  example_requirements_def example_payload_def limit_instruction_def price_instruction_def
  short_price_instruction_def transfer_instruction_def create_ata_instruction_def
  example_message_def example_env_def unsigned_env_def dropped_env_def expired_env_def
  silent_env_def late_env_def unreachable_env_def offline_env_def parsed_transfer_def
  garbled_env_def upto_payload_def

lemmas program_address_defs =
  COMPUTE_BUDGET_PROGRAM_ADDRESS_def TOKEN_PROGRAM_ADDRESS_def TOKEN_2022_PROGRAM_ADDRESS_def

lemmas introspector_defs =
  verifyTransactionInstructions_def verifyComputeLimitInstruction_def
  verifyComputePriceInstruction_def verifyCreateATAInstruction_def refineCreateATAInstruction_def
  verifyTransferInstruction_def getValidatedTransferCheckedInstruction_def
  verifyTransferCheckedInstruction_def parseSetComputeUnitLimitInstruction_def
  parseSetComputeUnitPriceInstruction_def parseCreateAssociatedTokenInstruction_def
  parseTransferCheckedInstruction_def first_data_byte_def le_bytes_def

lemma BigInt_string_1800: "BigInt_string ''1800'' = Some 1800"
  by (simp add: BigInt_string_def trim_def is_StrWhiteSpaceChar_def parse_integer_def digit_of_def)


text \<open>
  C3. Once the destination and the account checks have passed, the transfer is accepted
  exactly when its amount equals \<^verbatim>\<open>BigInt(maxAmountRequired)\<close>; when the two numbers
  differ, whichever is larger, the result is the amount-mismatch reason.
\<close>

theorem amount_exact:
  assumes "findAssociatedTokenPda env (asset R) (payTo R)
             (if tokenProgram p = TOKEN_PROGRAM_ADDRESS then TOKEN_PROGRAM_ADDRESS
              else TOKEN_2022_PROGRAM_ADDRESS) = Inr payToATA"
    and "destination p = payToATA"
    and "fetchEncodedAccounts env [source p, payToATA] = Inr maybeAccounts"
    and "check_missing_accounts (filter (\<lambda>a. \<not> exists a) maybeAccounts) (source p) payToATA
           txHasCreateDestATAInstruction = Inr ()"
  shows "(verifyTransferCheckedInstruction env p R txHasCreateDestATAInstruction = Inr ()
            \<longleftrightarrow> BigInt_string (maxAmountRequired R) = Some (uint (amount p)))
         \<and> (\<forall>r. BigInt_string (maxAmountRequired R) = Some r \<and> r \<noteq> uint (amount p) \<longrightarrow>
               verifyTransferCheckedInstruction env p R txHasCreateDestATAInstruction =
                 Inl (Error ''invalid_exact_svm_payload_transaction_amount_mismatch''))"
  using assms
  by (auto simp add: verifyTransferCheckedInstruction_def Let_def split: option.splits)

theorem amount_exact_witness:
  "verifyTransferCheckedInstruction example_env (parsed_transfer 1800) example_requirements False = Inr ()
   \<and> verifyTransferCheckedInstruction example_env (parsed_transfer 1799) example_requirements False
       = Inl (Error ''invalid_exact_svm_payload_transaction_amount_mismatch'')
   \<and> verifyTransferCheckedInstruction example_env (parsed_transfer 1801) example_requirements False
       = Inl (Error ''invalid_exact_svm_payload_transaction_amount_mismatch'')"
proof -
  have pda: "findAssociatedTokenPda example_env (asset example_requirements) (payTo example_requirements)
               (if tokenProgram (parsed_transfer n) = TOKEN_PROGRAM_ADDRESS then TOKEN_PROGRAM_ADDRESS
                else TOKEN_2022_PROGRAM_ADDRESS) = Inr ''ata:payToAddress''" for n
    by (simp add: example_defs)
  have dest: "destination (parsed_transfer n) = ''ata:payToAddress''" for n
    by (simp add: example_defs)
  have fetch: "fetchEncodedAccounts example_env [source (parsed_transfer n), ''ata:payToAddress'']
                 = Inr [\<lparr>accountAddress = ''sourceAta'', exists = True\<rparr>,
                        \<lparr>accountAddress = ''ata:payToAddress'', exists = True\<rparr>]" for n
    by (simp add: example_defs)
  have missing: "check_missing_accounts
                   (filter (\<lambda>a. \<not> exists a)
                      [\<lparr>accountAddress = ''sourceAta'', exists = True\<rparr>,
                       \<lparr>accountAddress = ''ata:payToAddress'', exists = True\<rparr>])
                   (source (parsed_transfer n)) ''ata:payToAddress'' False = Inr ()" for n
    by simp
  have req: "BigInt_string (maxAmountRequired example_requirements) = Some 1800"
    by (simp add: example_requirements_def BigInt_string_1800)
  have amt: "uint (amount (parsed_transfer 1800)) = 1800" "uint (amount (parsed_transfer 1799)) = 1799"
    "uint (amount (parsed_transfer 1801)) = 1801"
    by (simp_all add: parsed_transfer_def)
  show ?thesis
    using amount_exact [OF pda [of 1800] dest [of 1800] fetch [of 1800] missing [of 1800]]
      amount_exact [OF pda [of 1799] dest [of 1799] fetch [of 1799] missing [of 1799]]
      amount_exact [OF pda [of 1801] dest [of 1801] fetch [of 1801] missing [of 1801]]
    by (simp add: req amt)
qed

text \<open>
  C4, as stated, fails: an instruction of the compute-budget program whose data is the
  single byte 3 does not parse as \<^verbatim>\<open>SetComputeUnitPrice\<close>, and the result is the parser's
  error, not the compute-price reason.
\<close>

theorem compute_price_parse_failure_counterexample:
  "programAddress short_price_instruction = COMPUTE_BUDGET_PROGRAM_ADDRESS
   \<and> first_data_byte short_price_instruction = Some 3
   \<and> parseSetComputeUnitPriceInstruction short_price_instruction
       = Inl (LibError ''codec: not enough bytes'')
   \<and> verifyComputePriceInstruction short_price_instruction
       = Inl (LibError ''codec: not enough bytes'')
   \<and> verifyComputePriceInstruction short_price_instruction
       \<noteq> Inl (Error ''invalid_exact_svm_payload_transaction_instructions_compute_price_instruction'')"
  by (simp add: short_price_instruction_def verifyComputePriceInstruction_def first_data_byte_def
      parseSetComputeUnitPriceInstruction_def)

text \<open>
  C4, amended. An instruction that is not of the compute-budget program or whose first data
  byte is not 3 gives the compute-price reason. Otherwise an error of the parser leaves
  the function unchanged, a parsed price above 5 000 000 microlamports gives the too-high
  reason, and any other price is accepted.
\<close>

theorem compute_price_checked:
  "(programAddress ix \<noteq> COMPUTE_BUDGET_PROGRAM_ADDRESS \<or> first_data_byte ix \<noteq> Some 3
      \<longrightarrow> verifyComputePriceInstruction ix =
            Inl (Error ''invalid_exact_svm_payload_transaction_instructions_compute_price_instruction''))
   \<and> (programAddress ix = COMPUTE_BUDGET_PROGRAM_ADDRESS \<and> first_data_byte ix = Some 3
      \<longrightarrow> (\<forall>e. parseSetComputeUnitPriceInstruction ix = Inl e \<longrightarrow> verifyComputePriceInstruction ix = Inl e)
        \<and> (\<forall>m. parseSetComputeUnitPriceInstruction ix = Inr m \<longrightarrow>
               verifyComputePriceInstruction ix =
                (if unat m > 5000000
                 then Inl (Error ''invalid_exact_svm_payload_transaction_instructions_compute_price_instruction_too_high'')
                 else Inr ())))"
  by (simp add: verifyComputePriceInstruction_def)

text \<open>6 000 000 is \<open>128 + 256 * 141 + 65536 * 91\<close>, 5 000 000 is \<open>64 + 256 * 75 + 65536 * 76\<close>.\<close>

theorem compute_price_checked_witness:
  "verifyComputePriceInstruction limit_instruction
     = Inl (Error ''invalid_exact_svm_payload_transaction_instructions_compute_price_instruction'')
   \<and> verifyComputePriceInstruction (price_instruction 128 141 91 0)
     = Inl (Error ''invalid_exact_svm_payload_transaction_instructions_compute_price_instruction_too_high'')
   \<and> verifyComputePriceInstruction (price_instruction 64 75 76 0) = Inr ()
   \<and> verifyComputePriceInstruction short_price_instruction = Inl (LibError ''codec: not enough bytes'')"
proof -
  have a: "first_data_byte limit_instruction \<noteq> Some 3"
    by (simp add: limit_instruction_def first_data_byte_def)
  have b: "programAddress (price_instruction b0 b1 b2 b3) = COMPUTE_BUDGET_PROGRAM_ADDRESS
           \<and> first_data_byte (price_instruction b0 b1 b2 b3) = Some 3" for b0 b1 b2 b3
    by (simp add: price_instruction_def first_data_byte_def)
  have c: "parseSetComputeUnitPriceInstruction (price_instruction 128 141 91 0) = Inr 6000000"
    "parseSetComputeUnitPriceInstruction (price_instruction 64 75 76 0) = Inr 5000000"
    by (simp_all add: price_instruction_def parseSetComputeUnitPriceInstruction_def le_bytes_def)
  have d: "programAddress short_price_instruction = COMPUTE_BUDGET_PROGRAM_ADDRESS
           \<and> first_data_byte short_price_instruction = Some 3"
    "parseSetComputeUnitPriceInstruction short_price_instruction = Inl (LibError ''codec: not enough bytes'')"
    by (simp_all add: short_price_instruction_def first_data_byte_def
        parseSetComputeUnitPriceInstruction_def)
  show ?thesis
    using compute_price_checked [of limit_instruction]
      compute_price_checked [of "price_instruction 128 141 91 0"]
      compute_price_checked [of "price_instruction 64 75 76 0"]
      compute_price_checked [of short_price_instruction]
    by (simp add: a b c d)
qed

text \<open>
  C5. A transaction whose instruction count is neither 3 nor 4 gives the length reason.
  With four instructions, of which the first two pass the compute-budget checks, the third
  is refined and parsed as \<^verbatim>\<open>CreateAssociatedToken\<close>: a failure there gives the create-ATA
  reason, an owner other than \<^verbatim>\<open>payTo\<close> the incorrect-payee reason, a mint other than
  \<^verbatim>\<open>asset\<close> the incorrect-asset reason, and otherwise the result is that of the transfer
  check on the fourth instruction, told that the destination account is being created.
\<close>

theorem instruction_shape:
  "(length ixs \<noteq> 3 \<and> length ixs \<noteq> 4 \<longrightarrow>
      verifyTransactionInstructions env ixs R =
        Inl (Error ''invalid_exact_svm_payload_transaction_instructions_length''))
   \<and> (length ixs = 4 \<and> verifyComputeLimitInstruction (ixs ! 0) = Inr ()
        \<and> verifyComputePriceInstruction (ixs ! 1) = Inr () \<longrightarrow>
      (\<forall>e. refineCreateATAInstruction (ixs ! 2) = Inl e \<longrightarrow>
         verifyTransactionInstructions env ixs R =
           Inl (Error ''invalid_exact_svm_payload_transaction_create_ata_instruction''))
      \<and> (\<forall>c. refineCreateATAInstruction (ixs ! 2) = Inr c \<longrightarrow>
           verifyTransactionInstructions env ixs R =
             (if owner c \<noteq> payTo R
              then Inl (Error ''invalid_exact_svm_payload_transaction_create_ata_instruction_incorrect_payee'')
              else if mint c \<noteq> asset R
              then Inl (Error ''invalid_exact_svm_payload_transaction_create_ata_instruction_incorrect_asset'')
              else verifyTransferInstruction env (ixs ! 3) R True)))"
  by (simp add: verifyTransactionInstructions_def verifyCreateATAInstruction_def)

theorem instruction_shape_witness:
  "verifyTransactionInstructions example_env [limit_instruction, price_instruction 1 0 0 0]
     example_requirements
     = Inl (Error ''invalid_exact_svm_payload_transaction_instructions_length'')
   \<and> verifyTransactionInstructions example_env
       [limit_instruction, price_instruction 1 0 0 0, limit_instruction, transfer_instruction 8 7]
       example_requirements
     = Inl (Error ''invalid_exact_svm_payload_transaction_create_ata_instruction'')
   \<and> verifyTransactionInstructions example_env
       [limit_instruction, price_instruction 1 0 0 0,
        create_ata_instruction ''someoneElse'' ''usdcMint'', transfer_instruction 8 7]
       example_requirements
     = Inl (Error ''invalid_exact_svm_payload_transaction_create_ata_instruction_incorrect_payee'')
   \<and> verifyTransactionInstructions example_env
       [limit_instruction, price_instruction 1 0 0 0,
        create_ata_instruction ''payToAddress'' ''otherMint'', transfer_instruction 8 7]
       example_requirements
     = Inl (Error ''invalid_exact_svm_payload_transaction_create_ata_instruction_incorrect_asset'')
   \<and> verifyTransactionInstructions example_env
       [limit_instruction, price_instruction 1 0 0 0,
        create_ata_instruction ''payToAddress'' ''usdcMint'', transfer_instruction 8 7]
       example_requirements
     = Inr ()"
proof -
  have lim: "verifyComputeLimitInstruction limit_instruction = Inr ()"
    by (simp add: introspector_defs limit_instruction_def)
  have price: "verifyComputePriceInstruction (price_instruction 1 0 0 0) = Inr ()"
    by (simp add: introspector_defs price_instruction_def)
  have bad: "refineCreateATAInstruction limit_instruction = Inl (LibError ''instruction has no accounts'')"
    by (simp add: refineCreateATAInstruction_def limit_instruction_def)
  have good: "refineCreateATAInstruction (create_ata_instruction ataOwner ataMint)
                = Inr \<lparr>owner = ataOwner, mint = ataMint\<rparr>" for ataOwner ataMint
    by (simp add: refineCreateATAInstruction_def create_ata_instruction_def
        parseCreateAssociatedTokenInstruction_def)
  have transfer: "verifyTransferInstruction example_env (transfer_instruction 8 7) example_requirements True
                    = Inr ()"
    by (simp add: introspector_defs example_defs program_address_defs BigInt_string_1800)
  have req: "payTo example_requirements = ''payToAddress''" "asset example_requirements = ''usdcMint''"
    by (simp_all add: example_requirements_def)
  show ?thesis
    using instruction_shape [of "[limit_instruction, price_instruction 1 0 0 0]"
        example_env example_requirements]
      instruction_shape [of "[limit_instruction, price_instruction 1 0 0 0, limit_instruction,
          transfer_instruction 8 7]" example_env example_requirements]
      instruction_shape [of "[limit_instruction, price_instruction 1 0 0 0,
          create_ata_instruction ''someoneElse'' ''usdcMint'', transfer_instruction 8 7]"
        example_env example_requirements]
      instruction_shape [of "[limit_instruction, price_instruction 1 0 0 0,
          create_ata_instruction ''payToAddress'' ''otherMint'', transfer_instruction 8 7]"
        example_env example_requirements]
      instruction_shape [of "[limit_instruction, price_instruction 1 0 0 0,
          create_ata_instruction ''payToAddress'' ''usdcMint'', transfer_instruction 8 7]"
        example_env example_requirements]
    by (simp add: lim price bad good transfer req)
qed


section \<open>Properties of verify and settle\<close>

lemmas engine_defs =
  verify_def verify_body_def verifySchemesAndNetworks_def SCHEME_def SupportedSVMNetworks_def
  decodeTransactionFromPayload_def getRpcClient_def getRpcSubscriptions_def given_url_def
  transactionIntrospection_def getTokenPayerFromTransaction_def known_reason_def
  payer_or_undefined_def ErrorReasons_def settle_def settle_prepare_def settle_try_def
  settle_catch_def sendAndConfirmSignedTransaction_def sendSignedTransaction_def
  confirmSignedTransaction_def confirm_body_def waitForRecentTransactionConfirmation_def
  assertIsTransactionMessageWithBlockhashLifetime_def SOLANA_ERROR__BLOCK_HEIGHT_EXCEEDED_def
  SOLANA_ERROR__TRANSACTION__EXPECTED_BLOCKHASH_LIFETIME_def

lemma verify_returns: "\<exists>r. verify env payload R cfg = Inr r"
  by (simp add: verify_def split: sum.splits option.splits)

lemma verify_invalid_known:
  "verify_body env payload R cfg = Inl e \<Longrightarrow> known_reason e = Some m \<Longrightarrow>
   verify env payload R cfg =
     Inr \<lparr>isValid = False, invalidReason = Some m, payer = payer_or_undefined env payload\<rparr>"
  by (simp add: verify_def)

lemma verify_invalid_unknown:
  "verify_body env payload R cfg = Inl e \<Longrightarrow> known_reason e = None \<Longrightarrow>
   verify env payload R cfg =
     Inr \<lparr>isValid = False, invalidReason = Some ''unexpected_verify_error'',
          payer = payer_or_undefined env payload\<rparr>"
  by (simp add: verify_def)

lemma verify_valid_body:
  assumes "verify env payload R cfg = Inr v" and "isValid v"
  shows "verify_body env payload R cfg = Inr v"
  using assms by (auto simp add: verify_def split: sum.splits option.splits)

text \<open>A valid response means that the steps settle repeats have already succeeded.\<close>

lemma verify_body_Inr:
  assumes "verify_body env payload R cfg = Inr v"
  shows "\<exists>tx p. decodeTransaction env (payloadTransaction payload) = Some tx
           \<and> getRpcClient env (network R) cfg = Inr ()
           \<and> getTokenPayerFromTransaction env tx = Inr p
           \<and> v = \<lparr>isValid = True, invalidReason = None, payer = Some p\<rparr>"
  using assms
  by (auto simp add: verify_body_def and_then_eq_Inr decodeTransactionFromPayload_def
      split: option.splits if_splits)

lemma settle_invalid:
  assumes "verify env payload R cfg = Inr v" and "\<not> isValid v"
  shows "settle env payload R cfg =
     Inr \<lparr>success = False, errorReason = invalidReason v, settlePayer = None,
          transaction = [], settleNetwork = payloadNetwork payload\<rparr>"
  using assms by (simp add: settle_def settle_prepare_def)

text \<open>
  When the verification is valid and the two statements that verify does not run, the
  signing and the construction of the websocket client, complete, settle enters its
  \<^verbatim>\<open>try\<close> block.
\<close>

lemma settle_entered:
  assumes v: "verify env payload R cfg = Inr v" and ok: "isValid v"
    and tx: "decodeTransaction env (payloadTransaction payload) = Some tx"
    and stx: "signTransaction env tx = Inr stx"
    and ws: "getRpcSubscriptions env (network R) cfg = Inr ()"
  shows "\<exists>p. settle_prepare env payload R cfg = Inr (Inr (p, stx))"
proof -
  from verify_valid_body [OF v ok] have "verify_body env payload R cfg = Inr v" .
  from verify_body_Inr [OF this] tx obtain p where
    rpc: "getRpcClient env (network R) cfg = Inr ()" and
    p: "getTokenPayerFromTransaction env tx = Inr p"
    by auto
  have "settle_prepare env payload R cfg = Inr (Inr (p, stx))"
    using v ok tx stx ws rpc p
    by (simp add: settle_prepare_def decodeTransactionFromPayload_def)
  then show ?thesis ..
qed

text \<open>The example payment is valid on each of the example clusters.\<close>

lemma example_verify:
  "verify example_env example_payload example_requirements None
     = Inr \<lparr>isValid = True, invalidReason = None, payer = Some ''clientAddress''\<rparr>"
  "verify unsigned_env example_payload example_requirements None
     = Inr \<lparr>isValid = True, invalidReason = None, payer = Some ''clientAddress''\<rparr>"
  "verify dropped_env example_payload example_requirements None
     = Inr \<lparr>isValid = True, invalidReason = None, payer = Some ''clientAddress''\<rparr>"
  "verify expired_env example_payload example_requirements None
     = Inr \<lparr>isValid = True, invalidReason = None, payer = Some ''clientAddress''\<rparr>"
  "verify silent_env example_payload example_requirements None
     = Inr \<lparr>isValid = True, invalidReason = None, payer = Some ''clientAddress''\<rparr>"
  "verify offline_env example_payload example_requirements None
     = Inr \<lparr>isValid = True, invalidReason = None, payer = Some ''clientAddress''\<rparr>"
  by (simp_all add: engine_defs introspector_defs example_defs program_address_defs
      BigInt_string_1800)

lemma example_prepared:
  "settle_prepare example_env example_payload example_requirements None
     = Inr (Inr (''clientAddress'', ''signed:tx''))"
  "settle_prepare dropped_env example_payload example_requirements None
     = Inr (Inr (''clientAddress'', ''signed:tx''))"
  "settle_prepare expired_env example_payload example_requirements None
     = Inr (Inr (''clientAddress'', ''signed:tx''))"
  "settle_prepare offline_env example_payload example_requirements None
     = Inr (Inr (''clientAddress'', ''signed:tx''))"
  by (simp_all add: settle_prepare_def example_verify)
     (simp_all add: engine_defs example_defs program_address_defs)

lemma example_confirmations:
  "confirmSignedTransaction example_env ''signed:tx''
     = Inr \<lparr>confirmSuccess = True, confirmErrorReason = None, signature = ''5signature''\<rparr>"
  "confirmSignedTransaction dropped_env ''signed:tx''
     = Inl (LibError ''WebSocket connection closed'')"
  "confirmSignedTransaction expired_env ''signed:tx''
     = Inr \<lparr>confirmSuccess = False,
            confirmErrorReason = Some ''settle_exact_svm_block_height_exceeded'',
            signature = ''5signature''\<rparr>"
  by (simp_all add: engine_defs example_defs)

text \<open>On the example cluster the first round of the polling loop finds the confirmation.\<close>

lemma example_polling:
  "confirmSignedTransactionWithPolling dropped_env ''signed:tx''
     = Some (Inr \<lparr>confirmSuccess = True, confirmErrorReason = None, signature = ''5signature''\<rparr>)"
  unfolding confirmSignedTransactionWithPolling_def
  by (subst polling_loop.simps)
     (simp add: example_defs assertIsTransactionMessageWithBlockhashLifetime_def)

lemma example_sends:
  "sendSignedTransaction example_env ''signed:tx'' = Inr ''5signature''"
  "sendSignedTransaction dropped_env ''signed:tx'' = Inr ''5signature''"
  "sendSignedTransaction expired_env ''signed:tx'' = Inr ''5signature''"
  "sendSignedTransaction offline_env ''signed:tx'' = Inl (LibError ''fetch failed'')"
  by (simp_all add: sendSignedTransaction_def example_defs)

text \<open>
  C6, as stated, fails for settle: an error met while settle verifies the payment is
  answered with the reason that verify gives it. When the cluster cannot be reached for
  the simulation, the error is none of the known reasons, and the \<^verbatim>\<open>errorReason\<close> of
  settle is \<^verbatim>\<open>unexpected_verify_error\<close>, not \<^verbatim>\<open>unexpected_settle_error\<close>.
\<close>

theorem settle_verify_error_counterexample:
  "verify_body unreachable_env example_payload example_requirements None
     = Inl (LibError ''fetch failed'')
   \<and> known_reason (LibError ''fetch failed'') = None
   \<and> settle unreachable_env example_payload example_requirements None
     = Inr \<lparr>success = False, errorReason = Some ''unexpected_verify_error'', settlePayer = None,
            transaction = [], settleNetwork = ''solana-devnet''\<rparr>
   \<and> Some ''unexpected_verify_error'' \<noteq> Some ''unexpected_settle_error''"
  by (simp add: engine_defs introspector_defs example_defs program_address_defs
      BigInt_string_1800)

text \<open>
  C6, amended. verify never throws: it returns a response, which carries the reason of
  the error when that is an \<^verbatim>\<open>Error\<close> whose message is one of the known reasons, and
  \<^verbatim>\<open>unexpected_verify_error\<close> for every other error. settle answers an invalid
  verification with the reason that verify gave. Once settle has entered its \<^verbatim>\<open>try\<close>
  block, it returns a response: that of the confirmation when the transaction was sent and
  the confirmation returned, and \<^verbatim>\<open>unexpected_settle_error\<close> with the signature of the
  transaction for every error thrown there, whatever its message; this holds for both
  versions of sendAndConfirmSignedTransaction.
\<close>

theorem verify_settle_reporting:
  "(\<exists>r. verify env payload R cfg = Inr r)
   \<and> (\<forall>e m. verify_body env payload R cfg = Inl e \<and> known_reason e = Some m \<longrightarrow>
         verify env payload R cfg =
           Inr \<lparr>isValid = False, invalidReason = Some m, payer = payer_or_undefined env payload\<rparr>)
   \<and> (\<forall>e. verify_body env payload R cfg = Inl e \<and> known_reason e = None \<longrightarrow>
         verify env payload R cfg =
           Inr \<lparr>isValid = False, invalidReason = Some ''unexpected_verify_error'',
                payer = payer_or_undefined env payload\<rparr>)
   \<and> (\<forall>v. verify env payload R cfg = Inr v \<and> \<not> isValid v \<longrightarrow>
         settle env payload R cfg =
           Inr \<lparr>success = False, errorReason = invalidReason v, settlePayer = None,
                transaction = [], settleNetwork = payloadNetwork payload\<rparr>)
   \<and> (\<forall>p stx e. settle_prepare env payload R cfg = Inr (Inr (p, stx))
          \<and> sendAndConfirmSignedTransaction env stx = Inl e \<longrightarrow>
         settle env payload R cfg =
           Inr \<lparr>success = False, errorReason = Some ''unexpected_settle_error'',
                settlePayer = Some p, transaction = getSignatureFromTransaction env stx,
                settleNetwork = payloadNetwork payload\<rparr>)
   \<and> (\<forall>p stx c. settle_prepare env payload R cfg = Inr (Inr (p, stx))
          \<and> sendAndConfirmSignedTransaction env stx = Inr c \<longrightarrow>
         settle env payload R cfg =
           Inr \<lparr>success = confirmSuccess c, errorReason = confirmErrorReason c,
                settlePayer = Some p, transaction = signature c,
                settleNetwork = payloadNetwork payload\<rparr>)
   \<and> (\<forall>p stx e. settle_prepare env payload R cfg = Inr (Inr (p, stx))
          \<and> sendAndConfirmSignedTransaction_with_fallback env stx = Some (Inl e) \<longrightarrow>
         settle_with_fallback env payload R cfg =
           Some (Inr \<lparr>success = False, errorReason = Some ''unexpected_settle_error'',
                      settlePayer = Some p, transaction = getSignatureFromTransaction env stx,
                      settleNetwork = payloadNetwork payload\<rparr>))
   \<and> (\<forall>v tx stx. verify env payload R cfg = Inr v \<and> isValid v
          \<and> decodeTransaction env (payloadTransaction payload) = Some tx
          \<and> signTransaction env tx = Inr stx
          \<and> getRpcSubscriptions env (network R) cfg = Inr () \<longrightarrow>
         (\<exists>p. settle_prepare env payload R cfg = Inr (Inr (p, stx))))"
proof (intro conjI allI impI)
  show "\<exists>r. verify env payload R cfg = Inr r" by (rule verify_returns)
next
  fix e m assume "verify_body env payload R cfg = Inl e \<and> known_reason e = Some m"
  then show "verify env payload R cfg =
     Inr \<lparr>isValid = False, invalidReason = Some m, payer = payer_or_undefined env payload\<rparr>"
    by (simp add: verify_invalid_known)
next
  fix e assume "verify_body env payload R cfg = Inl e \<and> known_reason e = None"
  then show "verify env payload R cfg =
     Inr \<lparr>isValid = False, invalidReason = Some ''unexpected_verify_error'',
          payer = payer_or_undefined env payload\<rparr>"
    by (simp add: verify_invalid_unknown)
next
  fix v assume "verify env payload R cfg = Inr v \<and> \<not> isValid v"
  then show "settle env payload R cfg =
     Inr \<lparr>success = False, errorReason = invalidReason v, settlePayer = None,
          transaction = [], settleNetwork = payloadNetwork payload\<rparr>"
    by (simp add: settle_invalid)
next
  fix p stx e
  assume "settle_prepare env payload R cfg = Inr (Inr (p, stx))
          \<and> sendAndConfirmSignedTransaction env stx = Inl e"
  then show "settle env payload R cfg =
           Inr \<lparr>success = False, errorReason = Some ''unexpected_settle_error'',
                settlePayer = Some p, transaction = getSignatureFromTransaction env stx,
                settleNetwork = payloadNetwork payload\<rparr>"
    by (simp add: settle_def settle_try_def settle_catch_def)
next
  fix p stx c
  assume "settle_prepare env payload R cfg = Inr (Inr (p, stx))
          \<and> sendAndConfirmSignedTransaction env stx = Inr c"
  then show "settle env payload R cfg =
           Inr \<lparr>success = confirmSuccess c, errorReason = confirmErrorReason c,
                settlePayer = Some p, transaction = signature c,
                settleNetwork = payloadNetwork payload\<rparr>"
    by (simp add: settle_def settle_try_def settle_catch_def)
next
  fix p stx e
  assume "settle_prepare env payload R cfg = Inr (Inr (p, stx))
          \<and> sendAndConfirmSignedTransaction_with_fallback env stx = Some (Inl e)"
  then show "settle_with_fallback env payload R cfg =
           Some (Inr \<lparr>success = False, errorReason = Some ''unexpected_settle_error'',
                      settlePayer = Some p, transaction = getSignatureFromTransaction env stx,
                      settleNetwork = payloadNetwork payload\<rparr>)"
    by (simp add: settle_with_fallback_def settle_catch_def)
next
  fix v tx stx
  assume "verify env payload R cfg = Inr v \<and> isValid v
          \<and> decodeTransaction env (payloadTransaction payload) = Some tx
          \<and> signTransaction env tx = Inr stx
          \<and> getRpcSubscriptions env (network R) cfg = Inr ()"
  then show "\<exists>p. settle_prepare env payload R cfg = Inr (Inr (p, stx))"
    by (intro settle_entered [of env payload R cfg v tx stx]) simp_all
qed

theorem verify_settle_reporting_witness:
  "verify example_env upto_payload example_requirements None
     = Inr \<lparr>isValid = False, invalidReason = Some ''unsupported_scheme'',
            payer = Some ''clientAddress''\<rparr>
   \<and> settle example_env upto_payload example_requirements None
     = Inr \<lparr>success = False, errorReason = Some ''unsupported_scheme'', settlePayer = None,
            transaction = [], settleNetwork = ''solana-devnet''\<rparr>
   \<and> verify garbled_env example_payload example_requirements None
     = Inr \<lparr>isValid = False, invalidReason = Some ''unexpected_verify_error'', payer = None\<rparr>
   \<and> settle dropped_env example_payload example_requirements None
     = Inr \<lparr>success = False, errorReason = Some ''unexpected_settle_error'',
            settlePayer = Some ''clientAddress'', transaction = ''5signature'',
            settleNetwork = ''solana-devnet''\<rparr>
   \<and> settle example_env example_payload example_requirements None
     = Inr \<lparr>success = True, errorReason = None, settlePayer = Some ''clientAddress'',
            transaction = ''5signature'', settleNetwork = ''solana-devnet''\<rparr>
   \<and> settle_with_fallback offline_env example_payload example_requirements None
     = Some (Inr \<lparr>success = False, errorReason = Some ''unexpected_settle_error'',
                settlePayer = Some ''clientAddress'', transaction = ''5signature'',
                settleNetwork = ''solana-devnet''\<rparr>)
   \<and> (\<exists>p. settle_prepare example_env example_payload example_requirements None
            = Inr (Inr (p, ''signed:tx'')))"
proof -
  have upto: "verify_body example_env upto_payload example_requirements None
                = Inl (Error ''unsupported_scheme'')"
    "known_reason (Error ''unsupported_scheme'') = Some ''unsupported_scheme''"
    "payer_or_undefined example_env upto_payload = Some ''clientAddress''"
    by (simp_all add: engine_defs example_defs program_address_defs)
  have garbled: "verify_body garbled_env example_payload example_requirements None
                   = Inl (LibError ''codec: unexpected message version'')"
    "known_reason (LibError ''codec: unexpected message version'') = None"
    "payer_or_undefined garbled_env example_payload = None"
    by (simp_all add: engine_defs example_defs program_address_defs)
  have sent: "sendAndConfirmSignedTransaction dropped_env ''signed:tx''
                = Inl (LibError ''WebSocket connection closed'')"
    "sendAndConfirmSignedTransaction example_env ''signed:tx''
       = Inr \<lparr>confirmSuccess = True, confirmErrorReason = None, signature = ''5signature''\<rparr>"
    "sendAndConfirmSignedTransaction_with_fallback offline_env ''signed:tx''
       = Some (Inl (LibError ''fetch failed''))"
    by (simp_all add: sendAndConfirmSignedTransaction_def
        sendAndConfirmSignedTransaction_with_fallback_def example_confirmations example_sends)
  have sigs: "getSignatureFromTransaction dropped_env ''signed:tx'' = ''5signature''"
    "getSignatureFromTransaction offline_env ''signed:tx'' = ''5signature''"
    by (simp_all add: example_defs)
  have entering: "decodeTransaction example_env (payloadTransaction example_payload) = Some ''tx''"
    "signTransaction example_env ''tx'' = Inr ''signed:tx''"
    "getRpcSubscriptions example_env (network example_requirements) None = Inr ()"
    by (simp_all add: engine_defs example_defs)
  note known = verify_settle_reporting [THEN conjunct2, THEN conjunct1]
  note unknown = verify_settle_reporting [THEN conjunct2, THEN conjunct2, THEN conjunct1]
  note invalid = verify_settle_reporting
    [THEN conjunct2, THEN conjunct2, THEN conjunct2, THEN conjunct1]
  note thrown = verify_settle_reporting
    [THEN conjunct2, THEN conjunct2, THEN conjunct2, THEN conjunct2, THEN conjunct1]
  note returned = verify_settle_reporting
    [THEN conjunct2, THEN conjunct2, THEN conjunct2, THEN conjunct2, THEN conjunct2,
     THEN conjunct1]
  note thrown_fallback = verify_settle_reporting
    [THEN conjunct2, THEN conjunct2, THEN conjunct2, THEN conjunct2, THEN conjunct2,
     THEN conjunct2, THEN conjunct1]
  note entered = verify_settle_reporting
    [THEN conjunct2, THEN conjunct2, THEN conjunct2, THEN conjunct2, THEN conjunct2,
     THEN conjunct2, THEN conjunct2]
  have v1: "verify example_env upto_payload example_requirements None
     = Inr \<lparr>isValid = False, invalidReason = Some ''unsupported_scheme'',
            payer = Some ''clientAddress''\<rparr>"
    using known [of example_env upto_payload example_requirements None] upto by simp
  have s1: "settle example_env upto_payload example_requirements None
     = Inr \<lparr>success = False, errorReason = Some ''unsupported_scheme'', settlePayer = None,
            transaction = [], settleNetwork = ''solana-devnet''\<rparr>"
    using invalid [of example_env upto_payload example_requirements None] v1
    by (simp add: upto_payload_def example_payload_def)
  have v2: "verify garbled_env example_payload example_requirements None
     = Inr \<lparr>isValid = False, invalidReason = Some ''unexpected_verify_error'', payer = None\<rparr>"
    using unknown [of garbled_env example_payload example_requirements None] garbled by simp
  have s3: "settle dropped_env example_payload example_requirements None
     = Inr \<lparr>success = False, errorReason = Some ''unexpected_settle_error'',
            settlePayer = Some ''clientAddress'', transaction = ''5signature'',
            settleNetwork = ''solana-devnet''\<rparr>"
    using thrown [of dropped_env example_payload example_requirements None, rule_format,
        of "''clientAddress''" "''signed:tx''" "LibError ''WebSocket connection closed''"]
      example_prepared(2) sent(1) sigs(1)
    by (simp add: example_payload_def)
  have s4: "settle example_env example_payload example_requirements None
     = Inr \<lparr>success = True, errorReason = None, settlePayer = Some ''clientAddress'',
            transaction = ''5signature'', settleNetwork = ''solana-devnet''\<rparr>"
    using returned [of example_env example_payload example_requirements None, rule_format,
        of "''clientAddress''" "''signed:tx''"
           "\<lparr>confirmSuccess = True, confirmErrorReason = None, signature = ''5signature''\<rparr>"]
      example_prepared(1) sent(2)
    by (simp add: example_payload_def)
  have s5: "settle_with_fallback offline_env example_payload example_requirements None
     = Some (Inr \<lparr>success = False, errorReason = Some ''unexpected_settle_error'',
                settlePayer = Some ''clientAddress'', transaction = ''5signature'',
                settleNetwork = ''solana-devnet''\<rparr>)"
    using thrown_fallback [of offline_env example_payload example_requirements None, rule_format,
        of "''clientAddress''" "''signed:tx''" "LibError ''fetch failed''"]
      example_prepared(4) sent(3) sigs(2)
    by (simp add: example_payload_def)
  have s6: "\<exists>p. settle_prepare example_env example_payload example_requirements None
            = Inr (Inr (p, ''signed:tx''))"
    using entered [of example_env example_payload example_requirements None, rule_format,
        of "\<lparr>isValid = True, invalidReason = None, payer = Some ''clientAddress''\<rparr>"
           "''tx''" "''signed:tx''"]
      example_verify(1) entering
    by simp
  from v1 s1 v2 s3 s4 s5 s6 show ?thesis by simp
qed

text \<open>
  C8, as stated, fails for the version of settle.ts with the polling fallback: an error
  of the wait that is neither of the two known ones is thrown again by
  confirmSignedTransaction, but sendAndConfirmSignedTransaction catches it and polls.
  When the websocket fails and the first poll finds the transaction confirmed, settle
  answers with success, not with \<^verbatim>\<open>unexpected_settle_error\<close>.
\<close>

theorem polling_fallback_counterexample:
  "confirmationRace dropped_env ''signed:tx''
     = Some (Inl (LibError ''WebSocket connection closed''), 120)
   \<and> confirmSignedTransaction dropped_env ''signed:tx''
     = Inl (LibError ''WebSocket connection closed'')
   \<and> settle_with_fallback dropped_env example_payload example_requirements None
     = Some (Inr \<lparr>success = True, errorReason = None, settlePayer = Some ''clientAddress'',
                transaction = ''5signature'', settleNetwork = ''solana-devnet''\<rparr>)"
  by (simp add: settle_with_fallback_def example_prepared
      sendAndConfirmSignedTransaction_with_fallback_def example_sends example_confirmations
      example_polling settle_catch_def)
     (simp add: example_defs)

text \<open>
  C8, amended. The wait for the confirmation runs under a timer of 60000 ms. When the
  message of the transaction decodes and has a blockhash lifetime,
  confirmSignedTransaction returns success if the confirmation arrives before the timer
  fires, the block-height reason if the block-height-exceeded error arrives before the
  timer fires, and the timed-out reason if nothing has arrived when the timer fires and
  the aborted wait rejects with the \<^verbatim>\<open>DOMException\<close> named \<^verbatim>\<open>AbortError\<close>. Every other
  error of the \<^verbatim>\<open>try\<close> block, such as another error that arrives before the timer fires,
  is thrown again. Once the transaction has been sent, such an error makes settle answer
  \<^verbatim>\<open>unexpected_settle_error\<close> in the version without the fallback, and in the version
  with the fallback the outcome is that of confirmSignedTransactionWithPolling.
\<close>

theorem confirmation_outcomes:
  "(\<forall>m h t. decodeSignedMessage env stx = Inr m \<and> fetchLifetime env m = Inr (BlockhashLifetime h)
        \<and> confirmationRace env stx = Some (Inr (), t) \<and> t < 60000 \<longrightarrow>
      confirmSignedTransaction env stx =
        Inr \<lparr>confirmSuccess = True, confirmErrorReason = None,
             signature = getSignatureFromTransaction env stx\<rparr>)
   \<and> (\<forall>m h t. decodeSignedMessage env stx = Inr m \<and> fetchLifetime env m = Inr (BlockhashLifetime h)
        \<and> confirmationRace env stx = Some (Inl (SolanaError SOLANA_ERROR__BLOCK_HEIGHT_EXCEEDED), t)
        \<and> t < 60000 \<longrightarrow>
      confirmSignedTransaction env stx =
        Inr \<lparr>confirmSuccess = False,
             confirmErrorReason = Some ''settle_exact_svm_block_height_exceeded'',
             signature = getSignatureFromTransaction env stx\<rparr>)
   \<and> (\<forall>m h. decodeSignedMessage env stx = Inr m \<and> fetchLifetime env m = Inr (BlockhashLifetime h)
        \<and> (confirmationRace env stx = None
             \<or> (\<exists>ending. confirmationRace env stx = Some ending \<and> 60000 \<le> snd ending))
        \<and> abortRejection env = DOMException ''AbortError'' \<longrightarrow>
      confirmSignedTransaction env stx =
        Inr \<lparr>confirmSuccess = False,
             confirmErrorReason = Some ''settle_exact_svm_transaction_confirmation_timed_out'',
             signature = getSignatureFromTransaction env stx\<rparr>)
   \<and> (\<forall>m h e t. decodeSignedMessage env stx = Inr m \<and> fetchLifetime env m = Inr (BlockhashLifetime h)
        \<and> confirmationRace env stx = Some (Inl e, t) \<and> t < 60000 \<longrightarrow>
      confirm_body env stx = Inl e)
   \<and> (\<forall>e. confirm_body env stx = Inl e
          \<and> e \<noteq> SolanaError SOLANA_ERROR__BLOCK_HEIGHT_EXCEEDED
          \<and> e \<noteq> DOMException ''AbortError'' \<longrightarrow>
        confirmSignedTransaction env stx = Inl e
        \<and> (\<forall>s payload p. sendSignedTransaction env stx = Inr s \<longrightarrow>
             settle_try env payload p stx =
               \<lparr>success = False, errorReason = Some ''unexpected_settle_error'',
                settlePayer = Some p, transaction = getSignatureFromTransaction env stx,
                settleNetwork = payloadNetwork payload\<rparr>
             \<and> sendAndConfirmSignedTransaction_with_fallback env stx
                 = confirmSignedTransactionWithPolling env stx))"
proof (intro conjI allI impI)
  fix e s payload p
  assume e: "confirm_body env stx = Inl e
          \<and> e \<noteq> SolanaError SOLANA_ERROR__BLOCK_HEIGHT_EXCEEDED
          \<and> e \<noteq> DOMException ''AbortError''"
    and s: "sendSignedTransaction env stx = Inr s"
  from e have thrown: "confirmSignedTransaction env stx = Inl e"
    by (simp add: confirmSignedTransaction_def)
  with s show "settle_try env payload p stx =
               \<lparr>success = False, errorReason = Some ''unexpected_settle_error'',
                settlePayer = Some p, transaction = getSignatureFromTransaction env stx,
                settleNetwork = payloadNetwork payload\<rparr>"
    by (simp add: settle_try_def settle_catch_def sendAndConfirmSignedTransaction_def)
  from thrown s show "sendAndConfirmSignedTransaction_with_fallback env stx
                 = confirmSignedTransactionWithPolling env stx"
    by (simp add: sendAndConfirmSignedTransaction_with_fallback_def)
next
  fix m h
  assume "decodeSignedMessage env stx = Inr m \<and> fetchLifetime env m = Inr (BlockhashLifetime h)
        \<and> (confirmationRace env stx = None
             \<or> (\<exists>ending. confirmationRace env stx = Some ending \<and> 60000 \<le> snd ending))
        \<and> abortRejection env = DOMException ''AbortError''"
  then show "confirmSignedTransaction env stx =
        Inr \<lparr>confirmSuccess = False,
             confirmErrorReason = Some ''settle_exact_svm_transaction_confirmation_timed_out'',
             signature = getSignatureFromTransaction env stx\<rparr>"
    by (auto simp add: confirmSignedTransaction_def confirm_body_def
        waitForRecentTransactionConfirmation_def
        assertIsTransactionMessageWithBlockhashLifetime_def)
qed (simp_all add: confirmSignedTransaction_def confirm_body_def
        waitForRecentTransactionConfirmation_def
        assertIsTransactionMessageWithBlockhashLifetime_def)

theorem confirmation_outcomes_witness:
  "confirmSignedTransaction example_env ''signed:tx''
     = Inr \<lparr>confirmSuccess = True, confirmErrorReason = None, signature = ''5signature''\<rparr>
   \<and> confirmSignedTransaction expired_env ''signed:tx''
     = Inr \<lparr>confirmSuccess = False,
            confirmErrorReason = Some ''settle_exact_svm_block_height_exceeded'',
            signature = ''5signature''\<rparr>
   \<and> confirmSignedTransaction silent_env ''signed:tx''
     = Inr \<lparr>confirmSuccess = False,
            confirmErrorReason = Some ''settle_exact_svm_transaction_confirmation_timed_out'',
            signature = ''5signature''\<rparr>
   \<and> confirmSignedTransaction late_env ''signed:tx''
     = Inr \<lparr>confirmSuccess = False,
            confirmErrorReason = Some ''settle_exact_svm_transaction_confirmation_timed_out'',
            signature = ''5signature''\<rparr>
   \<and> confirm_body dropped_env ''signed:tx'' = Inl (LibError ''WebSocket connection closed'')
   \<and> confirmSignedTransaction dropped_env ''signed:tx'' = Inl (LibError ''WebSocket connection closed'')
   \<and> settle_try dropped_env example_payload ''clientAddress'' ''signed:tx''
     = \<lparr>success = False, errorReason = Some ''unexpected_settle_error'',
        settlePayer = Some ''clientAddress'', transaction = ''5signature'',
        settleNetwork = ''solana-devnet''\<rparr>
   \<and> sendAndConfirmSignedTransaction_with_fallback dropped_env ''signed:tx''
     = Some (Inr \<lparr>confirmSuccess = True, confirmErrorReason = None, signature = ''5signature''\<rparr>)"
proof -
  have messages:
    "decodeSignedMessage example_env ''signed:tx'' = Inr example_message"
    "decodeSignedMessage expired_env ''signed:tx'' = Inr example_message"
    "decodeSignedMessage silent_env ''signed:tx'' = Inr example_message"
    "decodeSignedMessage late_env ''signed:tx'' = Inr example_message"
    "decodeSignedMessage dropped_env ''signed:tx'' = Inr example_message"
    "fetchLifetime example_env example_message = Inr (BlockhashLifetime 1234)"
    "fetchLifetime expired_env example_message = Inr (BlockhashLifetime 1234)"
    "fetchLifetime silent_env example_message = Inr (BlockhashLifetime 1234)"
    "fetchLifetime late_env example_message = Inr (BlockhashLifetime 1234)"
    "fetchLifetime dropped_env example_message = Inr (BlockhashLifetime 1234)"
    by (simp_all add: example_env_def expired_env_def silent_env_def late_env_def dropped_env_def)
  have races:
    "confirmationRace example_env ''signed:tx'' = Some (Inr (), 850)"
    "confirmationRace expired_env ''signed:tx''
       = Some (Inl (SolanaError SOLANA_ERROR__BLOCK_HEIGHT_EXCEEDED), 45000)"
    "confirmationRace silent_env ''signed:tx'' = None"
    "confirmationRace late_env ''signed:tx'' = Some (Inr (), 61000)"
    "confirmationRace dropped_env ''signed:tx''
       = Some (Inl (LibError ''WebSocket connection closed''), 120)"
    "abortRejection silent_env = DOMException ''AbortError''"
    "abortRejection late_env = DOMException ''AbortError''"
    by (simp_all add: example_env_def expired_env_def silent_env_def late_env_def dropped_env_def)
  have sigs:
    "getSignatureFromTransaction example_env ''signed:tx'' = ''5signature''"
    "getSignatureFromTransaction expired_env ''signed:tx'' = ''5signature''"
    "getSignatureFromTransaction silent_env ''signed:tx'' = ''5signature''"
    "getSignatureFromTransaction late_env ''signed:tx'' = ''5signature''"
    "getSignatureFromTransaction dropped_env ''signed:tx'' = ''5signature''"
    by (simp_all add: example_env_def expired_env_def silent_env_def late_env_def dropped_env_def)
  note confirmed = confirmation_outcomes [THEN conjunct1]
  note exceeded = confirmation_outcomes [THEN conjunct2, THEN conjunct1]
  note timed_out = confirmation_outcomes [THEN conjunct2, THEN conjunct2, THEN conjunct1]
  note arrives = confirmation_outcomes
    [THEN conjunct2, THEN conjunct2, THEN conjunct2, THEN conjunct1]
  note rethrown = confirmation_outcomes
    [THEN conjunct2, THEN conjunct2, THEN conjunct2, THEN conjunct2]
  have c1: "confirmSignedTransaction example_env ''signed:tx''
     = Inr \<lparr>confirmSuccess = True, confirmErrorReason = None, signature = ''5signature''\<rparr>"
    using confirmed [of example_env "''signed:tx''", rule_format, of example_message 1234 850]
      messages races sigs
    by simp
  have c2: "confirmSignedTransaction expired_env ''signed:tx''
     = Inr \<lparr>confirmSuccess = False,
            confirmErrorReason = Some ''settle_exact_svm_block_height_exceeded'',
            signature = ''5signature''\<rparr>"
    using exceeded [of expired_env "''signed:tx''", rule_format, of example_message 1234 45000]
      messages races sigs
    by simp
  have c3: "confirmSignedTransaction silent_env ''signed:tx''
     = Inr \<lparr>confirmSuccess = False,
            confirmErrorReason = Some ''settle_exact_svm_transaction_confirmation_timed_out'',
            signature = ''5signature''\<rparr>"
    using timed_out [of silent_env "''signed:tx''", rule_format, of example_message 1234]
      messages races sigs
    by simp
  have c4: "confirmSignedTransaction late_env ''signed:tx''
     = Inr \<lparr>confirmSuccess = False,
            confirmErrorReason = Some ''settle_exact_svm_transaction_confirmation_timed_out'',
            signature = ''5signature''\<rparr>"
    using timed_out [of late_env "''signed:tx''", rule_format, of example_message 1234]
      messages races sigs
    by simp
  have c5: "confirm_body dropped_env ''signed:tx'' = Inl (LibError ''WebSocket connection closed'')"
    using arrives [of dropped_env "''signed:tx''", rule_format,
        of example_message 1234 "LibError ''WebSocket connection closed''" 120]
      messages races
    by simp
  from rethrown [of dropped_env "''signed:tx''", rule_format,
      of "LibError ''WebSocket connection closed''"] c5
  have c6: "confirmSignedTransaction dropped_env ''signed:tx''
              = Inl (LibError ''WebSocket connection closed'')"
    and after: "\<forall>s payload p. sendSignedTransaction dropped_env ''signed:tx'' = Inr s \<longrightarrow>
             settle_try dropped_env payload p ''signed:tx'' =
               \<lparr>success = False, errorReason = Some ''unexpected_settle_error'',
                settlePayer = Some p,
                transaction = getSignatureFromTransaction dropped_env ''signed:tx'',
                settleNetwork = payloadNetwork payload\<rparr>
             \<and> sendAndConfirmSignedTransaction_with_fallback dropped_env ''signed:tx''
                 = confirmSignedTransactionWithPolling dropped_env ''signed:tx''"
    by simp_all
  from after [rule_format, of "''5signature''" example_payload "''clientAddress''"]
    example_sends(2)
  have c7: "settle_try dropped_env example_payload ''clientAddress'' ''signed:tx''
     = \<lparr>success = False, errorReason = Some ''unexpected_settle_error'',
        settlePayer = Some ''clientAddress'', transaction = ''5signature'',
        settleNetwork = ''solana-devnet''\<rparr>"
    and c8: "sendAndConfirmSignedTransaction_with_fallback dropped_env ''signed:tx''
     = Some (Inr \<lparr>confirmSuccess = True, confirmErrorReason = None, signature = ''5signature''\<rparr>)"
    by (simp_all add: sigs example_polling example_payload_def)
  from c1 c2 c3 c4 c5 c6 c7 c8 show ?thesis by simp
qed


section \<open>Properties of the route table\<close>

lemmas route_defs =
  computeRoutePattern_def pattern_source_def escape_special_def replace_star_def escape_slash_def
  compile_source_def regex_special_def regex_syntax_def utf16_def cu_def toUpperCase_def
  upper_units_def is_regex_space_def normalizeRoute_def

lemmas match_defs =
  findMatchingRoute_def normalize_path_def strip_query_def decodeURIComponent_def hex_digit_def
  utf8_length_def is_continuation_def utf16_encode_def replace_backslashes_def
  trim_trailing_slashes_def is_line_terminator_def route_matches_def most_specific_def utf16_def
  cu_def toUpperCase_def upper_units_def canonicalize_def

lemmas test_route_defs =
  test_routes_def test_patterns_def api_test_route_def api_wildcard_route_def
  base_sepolia_config_def parameter_routes_def api_id_route_def

lemma test_routes_compiled: "computeRoutePatterns test_routes = Inr test_patterns"
  by (simp add: test_route_defs route_defs)

lemma parameter_routes_compiled:
  "computeRoutePatterns parameter_routes = Inr [api_test_route ''GET'' (base_sepolia_config ''$0.01''), api_id_route]"
  by (simp add: test_route_defs route_defs)

lemma normalized_paths:
  "normalize_path (utf16 ''/api/test'') = Some (utf16 ''/api/test'')"
  "normalize_path (utf16 ''/api//test'') = Some (utf16 ''/api/test'')"
  "normalize_path (utf16 ''/API/test/'') = Some (utf16 ''/API/test'')"
  "normalize_path (utf16 ''/api/%74est'') = Some (utf16 ''/api/test'')"
  "normalize_path (utf16 ''/api'' @ [0x5C] @ utf16 ''test'') = Some (utf16 ''/api/test'')"
  by (simp_all add: match_defs)

text \<open>
  Code units with the same canonical form are both line terminators or neither, and both
  slashes or neither, so that the expressions of the route table do not tell them apart.
\<close>

lemma canonicalize_same:
  assumes "canonicalize a = canonicalize b"
  shows "is_line_terminator a = is_line_terminator b" and "(a = cu CHR ''/'') = (b = cu CHR ''/'')"
  using assms
  by (auto simp add: canonicalize_def is_line_terminator_def cu_def split: if_splits)

lemma regex_matches_canonical:
  "list_all2 (\<lambda>a b. canonicalize a = canonicalize b) s s' \<Longrightarrow>
   regex_matches ts s = regex_matches ts s'"
proof (induction ts s arbitrary: s' rule: regex_matches.induct)
  case (1 s)
  then show ?case by (cases s; cases s') simp_all
next
  case (2 c ts)
  then show ?case by simp
next
  case (3 c ts d ds)
  then obtain d' ds' where s': "s' = d' # ds'" and d: "canonicalize d = canonicalize d'"
    and ds: "list_all2 (\<lambda>a b. canonicalize a = canonicalize b) ds ds'"
    by (cases s') auto
  from 3(1) [OF ds] d show ?case by (simp add: s')
next
  case (4 ts)
  then show ?case by simp
next
  case (5 ts d ds)
  then obtain d' ds' where s': "s' = d' # ds'" and d: "canonicalize d = canonicalize d'"
    and ds: "list_all2 (\<lambda>a b. canonicalize a = canonicalize b) ds ds'"
    by (cases s') auto
  from 5(3) s' have whole: "regex_matches ts (d # ds) = regex_matches ts (d' # ds')"
    by (intro 5(1)) simp
  from 5(2) [OF ds] whole canonicalize_same(1) [OF d] show ?case by (simp add: s')
next
  case (6 ts)
  then show ?case by simp
next
  case (7 ts d ds)
  then obtain d' ds' where s': "s' = d' # ds'" and d: "canonicalize d = canonicalize d'"
    and ds: "list_all2 (\<lambda>a b. canonicalize a = canonicalize b) ds ds'"
    by (cases s') auto
  from 7(1) [OF ds] 7(2) [OF ds] canonicalize_same(2) [OF d] show ?case by (simp add: s')
qed

lemma upper_case_path:
  "route_matches (utf16 ''/API/test'') method r = route_matches (utf16 ''/api/test'') method r"
proof -
  have "list_all2 (\<lambda>a b. canonicalize a = canonicalize b) (utf16 ''/API/test'') (utf16 ''/api/test'')"
    by (simp add: utf16_def cu_def canonicalize_def)
  from regex_matches_canonical [OF this] show ?thesis by (simp add: route_matches_def)
qed

text \<open>The reduction keeps the first of the longest sources.\<close>

lemma most_specific_stays:
  "\<forall>a \<in> set rs. length (patternSource a) \<le> length (patternSource r) \<Longrightarrow> most_specific r rs = r"
  unfolding most_specific_def by (induction rs) simp_all

lemma most_specific_moves:
  assumes "length (patternSource x) < length (patternSource r)"
    and "\<forall>a \<in> set before. length (patternSource a) < length (patternSource r)"
    and "\<forall>a \<in> set after. length (patternSource a) \<le> length (patternSource r)"
  shows "most_specific x (before @ r # after) = r"
  using assms
proof (induction before arbitrary: x)
  case Nil
  with most_specific_stays [of after r] show ?case by (simp add: most_specific_def)
next
  case (Cons b before)
  from Cons.prems have
    "length (patternSource (if length (patternSource b) > length (patternSource x) then b else x))
       < length (patternSource r)"
    by simp
  from Cons.IH [OF this] Cons.prems show ?case by (simp add: most_specific_def)
qed

lemma first_longest:
  assumes "\<forall>a \<in> set before. length (patternSource a) < length (patternSource r)"
    and "\<forall>a \<in> set after. length (patternSource a) \<le> length (patternSource r)"
  shows "(case before @ r # after of [] \<Rightarrow> None | x # xs \<Rightarrow> Some (most_specific x xs)) = Some r"
proof (cases before)
  case Nil
  with most_specific_stays [OF assms(2)] show ?thesis by simp
next
  case (Cons b before')
  with assms most_specific_moves [of b r before' after] show ?thesis by simp
qed

lemma api_test_matches:
  "route_matches (utf16 ''/api/test'') (utf16 ''GET'') (api_test_route ''GET'' c)"
  "length (patternSource (api_test_route ''GET'' c)) = 13"
  by (simp_all add: api_test_route_def route_matches_def utf16_def cu_def toUpperCase_def
      upper_units_def canonicalize_def)

text \<open>
  C9, as stated, fails for a table in which another route covers the path with a longer
  expression: beside \<^verbatim>\<open>/api/[id]\<close>, whose source has 15 code units against 13, the
  route registered at \<^verbatim>\<open>GET /api/test\<close> is returned for none of the five paths.
\<close>

theorem longer_route_counterexample:
  "computeRoutePatterns parameter_routes
     = Inr [api_test_route ''GET'' (base_sepolia_config ''$0.01''), api_id_route]
   \<and> findMatchingRoute [api_test_route ''GET'' (base_sepolia_config ''$0.01''), api_id_route]
         (utf16 ''/api/test'') (utf16 ''GET'') = Some api_id_route
   \<and> findMatchingRoute [api_test_route ''GET'' (base_sepolia_config ''$0.01''), api_id_route]
         (utf16 ''/api//test'') (utf16 ''GET'') = Some api_id_route
   \<and> findMatchingRoute [api_test_route ''GET'' (base_sepolia_config ''$0.01''), api_id_route]
         (utf16 ''/API/test/'') (utf16 ''GET'') = Some api_id_route
   \<and> findMatchingRoute [api_test_route ''GET'' (base_sepolia_config ''$0.01''), api_id_route]
         (utf16 ''/api/%74est'') (utf16 ''GET'') = Some api_id_route
   \<and> findMatchingRoute [api_test_route ''GET'' (base_sepolia_config ''$0.01''), api_id_route]
         (utf16 ''/api'' @ [0x5C] @ utf16 ''test'') (utf16 ''GET'') = Some api_id_route
   \<and> api_id_route \<noteq> api_test_route ''GET'' (base_sepolia_config ''$0.01'')"
  unfolding findMatchingRoute_def normalized_paths parameter_routes_compiled
  by (simp add: test_route_defs route_matches_def most_specific_def utf16_def cu_def
      toUpperCase_def upper_units_def canonicalize_def is_line_terminator_def)

text \<open>
  C9, amended. In every route table the paths \<^verbatim>\<open>/api//test\<close>, \<^verbatim>\<open>/API/test/\<close>,
  \<^verbatim>\<open>/api/%74est\<close> and \<^verbatim>\<open>/api\test\<close> are matched to the same route as \<^verbatim>\<open>/api/test\<close>, for
  every method. The route registered at \<^verbatim>\<open>GET /api/test\<close> compiles to a pattern with a
  source of 13 code units, and findMatchingRoute returns this pattern for the five paths
  and the method \<^verbatim>\<open>GET\<close> when every other pattern of the table that matches has a shorter
  source, or one of the same length and a later place in the table.
\<close>

theorem api_test_paths:
  "findMatchingRoute patterns (utf16 ''/api//test'') method
     = findMatchingRoute patterns (utf16 ''/api/test'') method
   \<and> findMatchingRoute patterns (utf16 ''/API/test/'') method
     = findMatchingRoute patterns (utf16 ''/api/test'') method
   \<and> findMatchingRoute patterns (utf16 ''/api/%74est'') method
     = findMatchingRoute patterns (utf16 ''/api/test'') method
   \<and> findMatchingRoute patterns (utf16 ''/api'' @ [0x5C] @ utf16 ''test'') method
     = findMatchingRoute patterns (utf16 ''/api/test'') method
   \<and> computeRoutePattern (utf16 ''GET /api/test'', v) = Inr (api_test_route ''GET'' (normalizeRoute v))
   \<and> ((\<forall>r \<in> set before. route_matches (utf16 ''/api/test'') (utf16 ''GET'') r
                            \<longrightarrow> length (patternSource r) < 13)
        \<and> (\<forall>r \<in> set after. route_matches (utf16 ''/api/test'') (utf16 ''GET'') r
                            \<longrightarrow> length (patternSource r) \<le> 13) \<longrightarrow>
       findMatchingRoute (before @ api_test_route ''GET'' c # after) (utf16 ''/api/test'') (utf16 ''GET'')
         = Some (api_test_route ''GET'' c))"
proof (intro conjI impI)
  show "findMatchingRoute patterns (utf16 ''/API/test/'') method
     = findMatchingRoute patterns (utf16 ''/api/test'') method"
    unfolding findMatchingRoute_def normalized_paths
    by (simp add: upper_case_path [abs_def])
next
  show "computeRoutePattern (utf16 ''GET /api/test'', v) = Inr (api_test_route ''GET'' (normalizeRoute v))"
    by (simp add: api_test_route_def computeRoutePattern_def pattern_source_def escape_special_def
        replace_star_def escape_slash_def compile_source_def regex_special_def regex_syntax_def
        utf16_def cu_def toUpperCase_def upper_units_def is_regex_space_def)
next
  assume shorter:
    "(\<forall>r \<in> set before. route_matches (utf16 ''/api/test'') (utf16 ''GET'') r
                            \<longrightarrow> length (patternSource r) < 13)
     \<and> (\<forall>r \<in> set after. route_matches (utf16 ''/api/test'') (utf16 ''GET'') r
                            \<longrightarrow> length (patternSource r) \<le> 13)"
  let ?f = "route_matches (utf16 ''/api/test'') (utf16 ''GET'')"
  have split: "filter ?f (before @ api_test_route ''GET'' c # after)
                 = filter ?f before @ api_test_route ''GET'' c # filter ?f after"
    by (simp add: api_test_matches(1))
  from shorter have
    "\<forall>a \<in> set (filter ?f before).
        length (patternSource a) < length (patternSource (api_test_route ''GET'' c))"
    "\<forall>a \<in> set (filter ?f after).
        length (patternSource a) \<le> length (patternSource (api_test_route ''GET'' c))"
    by (simp_all add: api_test_matches(2))
  from first_longest [OF this] show
    "findMatchingRoute (before @ api_test_route ''GET'' c # after) (utf16 ''/api/test'') (utf16 ''GET'')
       = Some (api_test_route ''GET'' c)"
    unfolding findMatchingRoute_def normalized_paths by (simp add: api_test_matches(1))
qed (simp_all only: findMatchingRoute_def normalized_paths)

theorem api_test_paths_witness:
  "computeRoutePatterns test_routes = Inr test_patterns
   \<and> findMatchingRoute test_patterns (utf16 ''/api/test'') (utf16 ''GET'')
       = Some (api_test_route ''GET'' (base_sepolia_config ''$0.01''))
   \<and> findMatchingRoute test_patterns (utf16 ''/api//test'') (utf16 ''GET'')
       = Some (api_test_route ''GET'' (base_sepolia_config ''$0.01''))
   \<and> findMatchingRoute test_patterns (utf16 ''/API/test/'') (utf16 ''GET'')
       = Some (api_test_route ''GET'' (base_sepolia_config ''$0.01''))
   \<and> findMatchingRoute test_patterns (utf16 ''/api/%74est'') (utf16 ''GET'')
       = Some (api_test_route ''GET'' (base_sepolia_config ''$0.01''))
   \<and> findMatchingRoute test_patterns (utf16 ''/api'' @ [0x5C] @ utf16 ''test'') (utf16 ''GET'')
       = Some (api_test_route ''GET'' (base_sepolia_config ''$0.01''))
   \<and> computeRoutePattern (utf16 ''GET /api/test'', PriceValue (MoneyString ''$0.01''))
       = Inr (api_test_route ''GET'' (base_sepolia_config ''$0.01''))"
proof -
  have others:
    "\<forall>r \<in> set []. route_matches (utf16 ''/api/test'') (utf16 ''GET'') r
                   \<longrightarrow> length (patternSource r) < 13"
    "\<forall>r \<in> set [api_test_route ''POST'' (base_sepolia_config ''$0.02''), api_wildcard_route].
        route_matches (utf16 ''/api/test'') (utf16 ''GET'') r \<longrightarrow> length (patternSource r) \<le> 13"
    by (simp_all add: test_route_defs route_matches_def utf16_def cu_def toUpperCase_def
        upper_units_def canonicalize_def)
  have table: "test_patterns = [] @ api_test_route ''GET'' (base_sepolia_config ''$0.01'')
                 # [api_test_route ''POST'' (base_sepolia_config ''$0.02''), api_wildcard_route]"
    by (simp add: test_patterns_def)
  have config: "normalizeRoute (PriceValue (MoneyString ''$0.01'')) = base_sepolia_config ''$0.01''"
    by (simp add: normalizeRoute_def base_sepolia_config_def)
  note paths = api_test_paths [of test_patterns "utf16 ''GET''" "PriceValue (MoneyString ''$0.01'')"
      "[]" "[api_test_route ''POST'' (base_sepolia_config ''$0.02''), api_wildcard_route]"
      "base_sepolia_config ''$0.01''"]
  from paths others have first: "findMatchingRoute test_patterns (utf16 ''/api/test'') (utf16 ''GET'')
       = Some (api_test_route ''GET'' (base_sepolia_config ''$0.01''))"
    unfolding table [symmetric] by blast
  from paths first config test_routes_compiled show ?thesis by simp
qed


section \<open>Properties of the price conversion\<close>

text \<open>
  The Numbers of the prices \<^verbatim>\<open>0.0079\<close> and \<^verbatim>\<open>0.0018\<close>, of \<^verbatim>\<open>10 ** 6\<close>, and their
  products. The product of \<^verbatim>\<open>0.0079\<close> is \<open>7900 + 2 ^ - 40\<close>.
\<close>

lemma minimum_money_eq: "minimum_money = \<lparr>mantissa = 7378697629483821, exponent = - 66\<rparr>"
  unfolding minimum_money_def to_double_def Let_def
  by (simp add: bit_length.simps scale2_def round_half_even_def)

lemma to_double_prices:
  "to_double 79 10000 = \<lparr>mantissa = 4554039943197046, exponent = - 59\<rparr>"
  "to_double 18 10000 = \<lparr>mantissa = 8301034833169298, exponent = - 62\<rparr>"
  unfolding to_double_def Let_def
  by (simp_all add: bit_length.simps scale2_def round_half_even_def)

lemma ten_to_the_6: "ten_to_the 6 = \<lparr>mantissa = 8589934592000000, exponent = - 33\<rparr>"
  unfolding ten_to_the_def to_double_def Let_def
  by (simp add: bit_length.simps scale2_def round_half_even_def)

lemma product_79:
  "double_times \<lparr>mantissa = 4554039943197046, exponent = - 59\<rparr> (ten_to_the 6)
     = \<lparr>mantissa = 8686141859430401, exponent = - 40\<rparr>"
  unfolding ten_to_the_6 double_times_def double_fraction_def to_double_def Let_def
  by (simp add: bit_length.simps scale2_def round_half_even_def)

lemma product_18:
  "double_times \<lparr>mantissa = 8301034833169298, exponent = - 62\<rparr> (ten_to_the 6)
     = \<lparr>mantissa = 7916483719987200, exponent = - 42\<rparr>"
  unfolding ten_to_the_6 double_times_def double_fraction_def to_double_def Let_def
  by (simp add: bit_length.simps scale2_def round_half_even_def)

text \<open>No decimal of fewer than sixteen digits reads back as \<open>7900 + 2 ^ - 40\<close>.\<close>

lemma short_digits_79_a:
  "digits_candidate \<lparr>mantissa = 8686141859430401, exponent = - 40\<rparr> 4 1 = None"
  "digits_candidate \<lparr>mantissa = 8686141859430401, exponent = - 40\<rparr> 4 2 = None"
  "digits_candidate \<lparr>mantissa = 8686141859430401, exponent = - 40\<rparr> 4 3 = None"
  unfolding digits_candidate_def shift_digits_def reads_back_def scale10_def double_fraction_def
    to_double_def Let_def
  by (simp_all add: bit_length.simps scale2_def round_half_even_def)

lemma short_digits_79_b:
  "digits_candidate \<lparr>mantissa = 8686141859430401, exponent = - 40\<rparr> 4 4 = None"
  "digits_candidate \<lparr>mantissa = 8686141859430401, exponent = - 40\<rparr> 4 5 = None"
  "digits_candidate \<lparr>mantissa = 8686141859430401, exponent = - 40\<rparr> 4 6 = None"
  unfolding digits_candidate_def shift_digits_def reads_back_def scale10_def double_fraction_def
    to_double_def Let_def
  by (simp_all add: bit_length.simps scale2_def round_half_even_def)

lemma short_digits_79_c:
  "digits_candidate \<lparr>mantissa = 8686141859430401, exponent = - 40\<rparr> 4 7 = None"
  "digits_candidate \<lparr>mantissa = 8686141859430401, exponent = - 40\<rparr> 4 8 = None"
  "digits_candidate \<lparr>mantissa = 8686141859430401, exponent = - 40\<rparr> 4 9 = None"
  unfolding digits_candidate_def shift_digits_def reads_back_def scale10_def double_fraction_def
    to_double_def Let_def
  by (simp_all add: bit_length.simps scale2_def round_half_even_def)

lemma short_digits_79_d:
  "digits_candidate \<lparr>mantissa = 8686141859430401, exponent = - 40\<rparr> 4 10 = None"
  "digits_candidate \<lparr>mantissa = 8686141859430401, exponent = - 40\<rparr> 4 11 = None"
  unfolding digits_candidate_def shift_digits_def reads_back_def scale10_def double_fraction_def
    to_double_def Let_def
  by (simp_all add: bit_length.simps scale2_def round_half_even_def)

lemma short_digits_79_e:
  "digits_candidate \<lparr>mantissa = 8686141859430401, exponent = - 40\<rparr> 4 12 = None"
  "digits_candidate \<lparr>mantissa = 8686141859430401, exponent = - 40\<rparr> 4 13 = None"
  unfolding digits_candidate_def shift_digits_def reads_back_def scale10_def double_fraction_def
    to_double_def Let_def
  by (simp_all add: bit_length.simps scale2_def round_half_even_def)

lemma short_digits_79_f:
  "digits_candidate \<lparr>mantissa = 8686141859430401, exponent = - 40\<rparr> 4 14 = None"
  "digits_candidate \<lparr>mantissa = 8686141859430401, exponent = - 40\<rparr> 4 15 = None"
  unfolding digits_candidate_def shift_digits_def reads_back_def scale10_def double_fraction_def
    to_double_def Let_def
  by (simp_all add: bit_length.simps scale2_def round_half_even_def)

lemma sixteen_digits_79:
  "digits_candidate \<lparr>mantissa = 8686141859430401, exponent = - 40\<rparr> 4 16 = Some 7900000000000001"
  unfolding digits_candidate_def shift_digits_def reads_back_def scale10_def double_fraction_def
    to_double_def Let_def
  by (simp add: bit_length.simps scale2_def round_half_even_def)

lemma digits_18:
  "digits_candidate \<lparr>mantissa = 7916483719987200, exponent = - 42\<rparr> 4 1 = None"
  "digits_candidate \<lparr>mantissa = 7916483719987200, exponent = - 42\<rparr> 4 2 = Some 18"
  unfolding digits_candidate_def shift_digits_def reads_back_def scale10_def double_fraction_def
    to_double_def Let_def
  by (simp_all add: bit_length.simps scale2_def round_half_even_def)

lemma decimal_exponent_products:
  "decimal_exponent (double_fraction \<lparr>mantissa = 8686141859430401, exponent = - 40\<rparr>) = 4"
  "decimal_exponent (double_fraction \<lparr>mantissa = 7916483719987200, exponent = - 42\<rparr>) = 4"
  by (simp_all add: decimal_exponent_def double_fraction_def scale2_def decimal_digits_def
      digits_acc.simps)

lemma not_a_power_of_ten:
  "(to_double (fst (power_of_ten 4)) (snd (power_of_ten 4))
      = \<lparr>mantissa = 8686141859430401, exponent = - 40\<rparr>) = False"
  "(to_double (fst (power_of_ten 4)) (snd (power_of_ten 4))
      = \<lparr>mantissa = 7916483719987200, exponent = - 42\<rparr>) = False"
  unfolding power_of_ten_def scale10_def to_double_def Let_def
  by (simp_all add: bit_length.simps scale2_def round_half_even_def)

lemma shortest_digits_79:
  "shortest_digits \<lparr>mantissa = 8686141859430401, exponent = - 40\<rparr> 4 digit_counts
     = Some (16, 7900000000000001)"
  unfolding digit_counts_def shortest_digits.simps short_digits_79_a short_digits_79_b short_digits_79_c short_digits_79_d short_digits_79_e short_digits_79_f sixteen_digits_79
  by simp

lemma shortest_digits_18:
  "shortest_digits \<lparr>mantissa = 7916483719987200, exponent = - 42\<rparr> 4 digit_counts = Some (2, 18)"
  unfolding digit_counts_def shortest_digits.simps digits_18
  by simp

lemma toString_79:
  "Number_toString \<lparr>mantissa = 8686141859430401, exponent = - 40\<rparr> = ''7900.000000000001''"
  unfolding Number_toString_def Let_def decimal_exponent_products not_a_power_of_ten shortest_digits_79
  by (simp add: format_number_def decimal_digits_def digits_acc.simps digit_char_def)

lemma toString_18:
  "Number_toString \<lparr>mantissa = 7916483719987200, exponent = - 42\<rparr> = ''1800''"
  unfolding Number_toString_def Let_def decimal_exponent_products not_a_power_of_ten shortest_digits_18
  by (simp add: format_number_def decimal_digits_def digits_acc.simps digit_char_def
      numeral_2_eq_2)

lemma parse_prices:
  "parse_decimal ''0.0079'' = Some (79, 10000)"
  "parse_decimal ''0.0018'' = Some (18, 10000)"
  by (simp_all add: parse_decimal_def is_digit_def digits_value_def)

lemma money_prices:
  "moneySchema (MoneyString ''$0.0079'') = Some \<lparr>mantissa = 4554039943197046, exponent = - 59\<rparr>"
  "moneySchema (MoneyString ''$0.0018'') = Some \<lparr>mantissa = 8301034833169298, exponent = - 62\<rparr>"
  by (simp_all add: moneySchema_def is_digit_def parse_prices to_double_prices minimum_money_eq
      double_less_def double_fraction_def scale2_def)

lemma default_asset_devnet: "getDefaultAsset example_tables ''solana-devnet'' = Inr usdc_devnet"
  by (simp add: getDefaultAsset_def getNetworkId_def example_tables_def usdc_devnet_def)

text \<open>
  C7. The conversion multiplies the parsed price by \<^verbatim>\<open>10 ** decimals\<close> as Numbers and
  writes the product down; nothing is rounded to an integer. For the price \<^verbatim>\<open>$0.0018\<close> on
  devnet the amount is \<^verbatim>\<open>1800\<close>, as the claim says. For the price \<^verbatim>\<open>$0.0079\<close> the amount
  is \<^verbatim>\<open>7900.000000000001\<close>, where rounding gives \<^verbatim>\<open>7900\<close>.
\<close>

theorem price_conversion_not_rounded:
  "processPriceToAtomicAmount example_tables (MoneyString ''$0.0018'') ''solana-devnet''
     = Inr (Inr \<lparr>atomicAmount = ''1800'', atomicAsset = usdc_devnet\<rparr>)
   \<and> processPriceToAtomicAmount example_tables (MoneyString ''$0.0079'') ''solana-devnet''
     = Inr (Inr \<lparr>atomicAmount = ''7900.000000000001'', atomicAsset = usdc_devnet\<rparr>)"
  by (simp add: processPriceToAtomicAmount_def money_prices default_asset_devnet usdc_devnet_def
      product_79 product_18 toString_79 toString_18)


section \<open>Properties of the middleware\<close>

lemmas response_defs =
  headersSent_def send_head_def chunk_of_def originalEnd_def res_end_def res_write_def
  setHeader_def getHeader_def reply_def reply_json_def payment_required_def flush_buffered_def

lemmas handler_defs = run_handler_def handler_step_def handled_def settled_def

lemmas server_defs =
  example_server_def weather_config_def weather_routes_def weather_route_def api_route_def
  weather_patterns_def weather_request_def malformed_request_def fresh_response_def
  weather_report_def weather_failure_def streamed_report_def

lemma weather_routes_compiled: "computeRoutePatterns weather_routes = Inr weather_patterns"
  by (simp add: server_defs route_defs)

lemma malformed_path:
  "decodeURIComponent (strip_query (utf16 ''/api/%XX'')) = None"
  "decodeURIComponent (strip_query (utf16 ''/api/%58X'')) = Some (utf16 ''/api/XX'')"
  by (simp_all add: strip_query_def decodeURIComponent_def hex_digit_def utf8_length_def utf16_def
      cu_def)

text \<open>
  C10. When the path of a request, cut at the first \<^verbatim>\<open>?\<close> or \<^verbatim>\<open>#\<close>, has a percent sign
  that \<^verbatim>\<open>decodeURIComponent\<close> rejects, findMatchingRoute returns \<^verbatim>\<open>undefined\<close> for every
  route table and method, and the middleware only calls \<^verbatim>\<open>next()\<close>: it calls neither
  supported, verify nor settle, and the response is the one the handler makes, without
  any call of the middleware on it.
\<close>

theorem malformed_path_not_protected:
  assumes "decodeURIComponent (strip_query (reqPath req)) = None"
  shows "findMatchingRoute routePatterns (reqPath req) method = None
         \<and> paymentMiddleware env payToAddress routePatterns req r
             = Inr \<lparr>calls = [CallNext], res = run_handler (downstream env) r\<rparr>"
  using assms by (simp add: findMatchingRoute_def normalize_path_def paymentMiddleware_def)

theorem malformed_path_not_protected_witness:
  "decodeURIComponent (strip_query (reqPath malformed_request)) = None
   \<and> regex_matches (pattern api_route) (reqPath malformed_request)
   \<and> findMatchingRoute weather_patterns (utf16 ''/api/%58X'') (utf16 ''GET'') = Some api_route
   \<and> findMatchingRoute weather_patterns (reqPath malformed_request) (utf16 ''GET'') = None
   \<and> paymentMiddleware (example_server example_env weather_report []) ''payToAddress''
         weather_patterns malformed_request fresh_response
       = Inr \<lparr>calls = [CallNext],
              res = \<lparr>statusCode = 200, headers = [(''Content-Type'', ''application/json'')],
                     sentHead = Some (200, [(''Content-Type'', ''application/json'')]),
                     sentBody = [HandlerChunk ''sunny''],
                     endedWith = Some (EndArgs (Some (HandlerChunk ''sunny'')) None None),
                     endIntercepted = False, bufferedEnd = None\<rparr>\<rparr>"
proof -
  have path: "reqPath malformed_request = utf16 ''/api/%XX''"
    by (simp add: malformed_request_def)
  have covered: "regex_matches (pattern api_route) (utf16 ''/api/%XX'')"
    by (simp add: api_route_def utf16_def cu_def canonicalize_def is_line_terminator_def)
  have sibling: "findMatchingRoute weather_patterns (utf16 ''/api/%58X'') (utf16 ''GET'') = Some api_route"
    by (simp add: findMatchingRoute_def normalize_path_def malformed_path)
       (simp add: server_defs route_matches_def most_specific_def utf16_def cu_def toUpperCase_def
          upper_units_def canonicalize_def is_line_terminator_def replace_backslashes_def
          trim_trailing_slashes_def)
  have handler: "run_handler (downstream (example_server example_env weather_report [])) fresh_response
       = \<lparr>statusCode = 200, headers = [(''Content-Type'', ''application/json'')],
          sentHead = Some (200, [(''Content-Type'', ''application/json'')]),
          sentBody = [HandlerChunk ''sunny''],
          endedWith = Some (EndArgs (Some (HandlerChunk ''sunny'')) None None),
          endIntercepted = False, bufferedEnd = None\<rparr>"
    by (simp add: example_server_def weather_report_def fresh_response_def handler_defs
        response_defs)
  from malformed_path_not_protected [of malformed_request weather_patterns "utf16 ''GET''"
      "example_server example_env weather_report []" "''payToAddress''" fresh_response]
    malformed_path(1) path covered sibling handler
  show ?thesis by simp
qed

lemma handler_step_intercepted:
  "endIntercepted r \<Longrightarrow>
   endIntercepted (handler_step r a) \<and> endedWith (handler_step r a) = endedWith r"
  by (cases a) (simp_all add: handler_step_def response_defs)

lemma run_handler_intercepted:
  "endIntercepted r \<Longrightarrow>
   endIntercepted (run_handler actions r) \<and> endedWith (run_handler actions r) = endedWith r"
  unfolding run_handler_def
proof (induction actions arbitrary: r)
  case Nil
  then show ?case by simp
next
  case (Cons a actions)
  from handler_step_intercepted [OF Cons.prems, of a] Cons.IH [of "handler_step r a"]
  show ?case by simp
qed

text \<open>While \<^verbatim>\<open>res.end\<close> is replaced, no call of the handler ends the response.\<close>

lemma handled_intercepted:
  "endIntercepted (handled env r)" "endedWith (handled env r) = endedWith r"
  "endIntercepted (settled env (handled env r))"
  "endedWith (settled env (handled env r)) = endedWith r"
proof -
  from run_handler_intercepted [of "r\<lparr>endIntercepted := True, bufferedEnd := None\<rparr>" "downstream env"]
  show first: "endIntercepted (handled env r)" and second: "endedWith (handled env r) = endedWith r"
    by (simp_all add: handled_def)
  from run_handler_intercepted [OF first, of "duringSettlement env"] second
  show "endIntercepted (settled env (handled env r))"
    and "endedWith (settled env (handled env r)) = endedWith r"
    by (simp_all add: settled_def)
qed

text \<open>A request that matches a route and carries a payment that verifies reaches the handler.\<close>

lemma verified_request:
  assumes "findMatchingRoute routePatterns (reqPath req) (toUpperCase (reqMethod req)) = Some route"
    and "buildPaymentRequirements env payToAddress (config route) req = Inr (cs, reqs)"
    and "xPayment req = Some header" and "header \<noteq> []"
    and "decodePayment env header = Inr decoded"
    and "findMatchingPaymentRequirements reqs (decoded\<lparr>x402Version := 1\<rparr>) = Some sel"
    and "facilitatorVerify env (decoded\<lparr>x402Version := 1\<rparr>) sel = Inr v" and "isValid v"
  shows "paymentMiddleware env payToAddress routePatterns req r =
           and_then (after_verification env reqs (decoded\<lparr>x402Version := 1\<rparr>) sel r)
             (\<lambda>w. Inr (w\<lparr>calls := cs @ CallVerify # calls w\<rparr>))"
proof -
  from assms(3-8) have "handle_payment env (config route) reqs req r =
      and_then (after_verification env reqs (decoded\<lparr>x402Version := 1\<rparr>) sel r)
        (\<lambda>w. Inr (w\<lparr>calls := CallVerify # calls w\<rparr>))"
    by (simp add: handle_payment_def verify_and_continue_def Let_def)
  with assms(1,2) show ?thesis
    by (cases "after_verification env reqs (decoded\<lparr>x402Version := 1\<rparr>) sel r")
       (simp_all add: paymentMiddleware_def)
qed

lemma map_of_filter_other:
  "k' \<noteq> k \<Longrightarrow> map_of (filter (\<lambda>h. fst h \<noteq> k) hs) k' = map_of hs k'"
  by (induction hs) auto

text \<open>The three ways in which the \<^verbatim>\<open>try\<close> block around settle ends, the headers being unsent.\<close>

lemma settle_failed_reply:
  assumes "sentHead (settled env x) = None" and "endedWith (settled env x) = None"
    and "endIntercepted (settled env x)"
    and "facilitatorSettle env d sel = Inr sr" and "\<not> success sr"
  shows "\<exists>x'. settle_and_flush env reqs d sel x = Inr x'
           \<and> statusCode x' = 402
           \<and> getHeader ''X-PAYMENT-RESPONSE'' x' = Some (settleResponseHeader env sr)
           \<and> sentHead x' = Some (402, headers x')
           \<and> sentBody x' = sentBody (settled env x)
                @ [JsonChunk \<lparr>bodyVersion = 1,
                     bodyError = (case errorReason sr of
                                    Some reason \<Rightarrow> ErrorText reason | None \<Rightarrow> ErrorUndefined),
                     accepts = reqs, bodyPayer = None\<rparr>]"
  using assms
  by (simp add: settle_and_flush_def settle_try_catch_def response_defs)

lemma settle_thrown_reply:
  assumes "sentHead (settled env x) = None" and "endedWith (settled env x) = None"
    and "endIntercepted (settled env x)"
    and "facilitatorSettle env d sel = Inl e"
  shows "\<exists>x'. settle_and_flush env reqs d sel x = Inr x'
           \<and> statusCode x' = 402
           \<and> getHeader ''X-PAYMENT-RESPONSE'' x' = getHeader ''X-PAYMENT-RESPONSE'' (settled env x)
           \<and> sentHead x' = Some (402, headers x')
           \<and> sentBody x' = sentBody (settled env x)
                @ [JsonChunk \<lparr>bodyVersion = 1, bodyError = ErrorObject e,
                     accepts = reqs, bodyPayer = None\<rparr>]"
  using assms
  by (simp add: settle_and_flush_def settle_try_catch_def response_defs map_of_filter_other)

lemma settle_succeeded:
  assumes "sentHead (settled env x) = None"
    and "facilitatorSettle env d sel = Inr sr" and "success sr"
  shows "\<exists>x'. settle_and_flush env reqs d sel x = Inr x'
           \<and> statusCode x' = statusCode (settled env x)
           \<and> getHeader ''X-PAYMENT-RESPONSE'' x' = Some (settleResponseHeader env sr)
           \<and> bufferedEnd x' = bufferedEnd (settled env x)
           \<and> (\<forall>args. bufferedEnd (settled env x) = Some args \<and> endedWith (settled env x) = None \<longrightarrow>
                 endedWith x' = Some args
                 \<and> sentHead x' = Some (statusCode x', headers x')
                 \<and> sentBody x' = sentBody (settled env x) @ chunk_of args)"
  using assms
  by (cases "bufferedEnd (settled env x)"; cases "endedWith (settled env x)")
     (simp_all add: settle_and_flush_def settle_try_catch_def response_defs)

lemma settle_after_headers:
  assumes "sentHead (settled env x) \<noteq> None"
  shows "settle_and_flush env reqs d sel x = Inr (flush_buffered (settled env x))"
  using assms
  by (cases "facilitatorSettle env d sel")
     (simp_all add: settle_and_flush_def settle_try_catch_def setHeader_def headersSent_def)

lemma example_settles:
  "settle example_env example_payload example_requirements None
     = Inr \<lparr>success = True, errorReason = None, settlePayer = Some ''clientAddress'',
            transaction = ''5signature'', settleNetwork = ''solana-devnet''\<rparr>"
  "settle expired_env example_payload example_requirements None
     = Inr \<lparr>success = False, errorReason = Some ''settle_exact_svm_block_height_exceeded'',
            settlePayer = Some ''clientAddress'', transaction = ''5signature'',
            settleNetwork = ''solana-devnet''\<rparr>"
  by (simp_all add: settle_def example_prepared settle_try_def settle_catch_def
      sendAndConfirmSignedTransaction_def example_sends example_confirmations)
     (simp_all add: example_payload_def)

lemma unsigned_settle:
  "settle unsigned_env example_payload example_requirements None
     = Inl (LibError ''transaction is missing signatures'')"
  by (simp add: settle_def settle_prepare_def example_verify)
     (simp add: engine_defs example_defs program_address_defs)

text \<open>The request for the weather with the payment header, on the example server.\<close>

lemma weather_matched:
  "findMatchingRoute weather_patterns (reqPath (weather_request header))
     (toUpperCase (reqMethod (weather_request header))) = Some weather_route"
  by (simp add: server_defs match_defs collapse_slashes.simps)

lemma weather_built:
  "buildPaymentRequirements (example_server cluster early late) ''payToAddress'' (config weather_route)
     (weather_request header) = Inr ([CallSupported], [example_requirements])"
  by (simp add: buildPaymentRequirements_def server_defs processPriceToAtomicAmount_def
      SupportedEVMNetworks_def SupportedSVMNetworks_def example_requirements_def)

lemma weather_selected:
  "example_payload\<lparr>x402Version := 1\<rparr> = example_payload"
  "example_payload\<lparr>x402Version := Suc 0\<rparr> = example_payload"
  "findMatchingPaymentRequirements [example_requirements] example_payload = Some example_requirements"
  by (simp_all add: findMatchingPaymentRequirements_def example_payload_def example_requirements_def)

lemma weather_client:
  "xPayment (weather_request (Some ''eyJ4NDAyVmVyc2lvbiI6MX0'')) = Some ''eyJ4NDAyVmVyc2lvbiI6MX0''"
  "decodePayment (example_server cluster early late) ''eyJ4NDAyVmVyc2lvbiI6MX0'' = Inr example_payload"
  "facilitatorVerify (example_server cluster early late) example_payload example_requirements
     = verify cluster example_payload example_requirements None"
  "facilitatorSettle (example_server cluster early late) example_payload example_requirements
     = settle cluster example_payload example_requirements None"
  "settleResponseHeader (example_server cluster early late) sr = ''base64:'' @ transaction sr"
  by (simp_all add: example_server_def weather_request_def)

lemma weather_handled:
  "handled (example_server cluster weather_report late) fresh_response
     = \<lparr>statusCode = 200, headers = [(''Content-Type'', ''application/json'')], sentHead = None,
        sentBody = [], endedWith = None, endIntercepted = True,
        bufferedEnd = Some (EndArgs (Some (HandlerChunk ''sunny'')) None None)\<rparr>"
  "handled (example_server cluster weather_failure late) fresh_response
     = \<lparr>statusCode = 500, headers = [(''Content-Type'', ''text/plain'')], sentHead = None,
        sentBody = [], endedWith = None, endIntercepted = True,
        bufferedEnd = Some (EndArgs (Some (HandlerChunk ''station offline'')) None None)\<rparr>"
  "handled (example_server cluster [] late) fresh_response
     = fresh_response\<lparr>endIntercepted := True\<rparr>"
  "settled (example_server cluster early []) x = x"
  by (simp_all add: example_server_def weather_report_def weather_failure_def fresh_response_def
      handler_defs response_defs)

text \<open>
  C2, as stated, fails when settle returns without success: the header is set before the
  result is looked at. On a cluster where the block height runs out, the reply is the 402
  with the reason and the requirements, and it carries \<^verbatim>\<open>X-PAYMENT-RESPONSE\<close>.
\<close>

theorem failed_settlement_header_counterexample:
  "settle expired_env example_payload example_requirements None
     = Inr \<lparr>success = False, errorReason = Some ''settle_exact_svm_block_height_exceeded'',
            settlePayer = Some ''clientAddress'', transaction = ''5signature'',
            settleNetwork = ''solana-devnet''\<rparr>
   \<and> paymentMiddleware (example_server expired_env weather_report []) ''payToAddress''
         weather_patterns (weather_request (Some ''eyJ4NDAyVmVyc2lvbiI6MX0'')) fresh_response
     = Inr \<lparr>calls = [CallSupported, CallVerify, CallNext, CallSettle],
            res = \<lparr>statusCode = 402,
                   headers = [(''X-PAYMENT-RESPONSE'', ''base64:5signature''),
                              (''Content-Type'', ''application/json'')],
                   sentHead = Some (402, [(''X-PAYMENT-RESPONSE'', ''base64:5signature''),
                                          (''Content-Type'', ''application/json'')]),
                   sentBody = [JsonChunk \<lparr>bodyVersion = 1,
                                 bodyError = ErrorText ''settle_exact_svm_block_height_exceeded'',
                                 accepts = [example_requirements], bodyPayer = None\<rparr>],
                   endedWith = Some (EndArgs
                     (Some (JsonChunk \<lparr>bodyVersion = 1,
                              bodyError = ErrorText ''settle_exact_svm_block_height_exceeded'',
                              accepts = [example_requirements], bodyPayer = None\<rparr>))
                     (Some ''utf8'') None),
                   endIntercepted = False,
                   bufferedEnd = Some (EndArgs
                     (Some (JsonChunk \<lparr>bodyVersion = 1,
                              bodyError = ErrorText ''settle_exact_svm_block_height_exceeded'',
                              accepts = [example_requirements], bodyPayer = None\<rparr>))
                     (Some ''utf8'') None)\<rparr>\<rparr>"
proof -
  have "paymentMiddleware (example_server expired_env weather_report []) ''payToAddress''
         weather_patterns (weather_request (Some ''eyJ4NDAyVmVyc2lvbiI6MX0'')) fresh_response
     = and_then (after_verification (example_server expired_env weather_report [])
                   [example_requirements] (example_payload\<lparr>x402Version := 1\<rparr>)
                   example_requirements fresh_response)
         (\<lambda>w. Inr (w\<lparr>calls := [CallSupported] @ CallVerify # calls w\<rparr>))"
    by (rule verified_request [where route = weather_route
          and header = "''eyJ4NDAyVmVyc2lvbiI6MX0''"
          and v = "\<lparr>isValid = True, invalidReason = None, payer = Some ''clientAddress''\<rparr>"])
       (simp_all add: weather_matched weather_built weather_client weather_selected example_verify)
  then show ?thesis
    by (simp add: weather_selected example_settles after_verification_def weather_handled
        settle_and_flush_def settle_try_catch_def weather_client response_defs)
qed

text \<open>
  C2, amended. For a request that matches a route and carries a payment that verifies,
  whose handler has left a status below 400 when the middleware goes on, settle is called.
  If the headers are unsent when settle is done, then: when settle returns without
  success, \<^verbatim>\<open>X-PAYMENT-RESPONSE\<close> is set to the encoded response and the reply is a 402
  with the \<^verbatim>\<open>errorReason\<close> and the requirements; when settle throws, the reply is a 402
  with the error and the requirements, and \<^verbatim>\<open>X-PAYMENT-RESPONSE\<close> is as the handler left
  it; when settle succeeds, \<^verbatim>\<open>X-PAYMENT-RESPONSE\<close> is set and the call of \<^verbatim>\<open>end\<close> that the
  handler made is carried out with the handler's status. If the headers are sent by then,
  the response is the handler's, whatever settle does.
\<close>

theorem settlement_replies:
  assumes route: "findMatchingRoute routePatterns (reqPath req) (toUpperCase (reqMethod req)) = Some route"
    and built: "buildPaymentRequirements env payToAddress (config route) req = Inr (cs, reqs)"
    and header: "xPayment req = Some header" "header \<noteq> []"
    and decoded: "decodePayment env header = Inr decoded"
    and selected: "findMatchingPaymentRequirements reqs (decoded\<lparr>x402Version := 1\<rparr>) = Some sel"
    and verified: "facilitatorVerify env (decoded\<lparr>x402Version := 1\<rparr>) sel = Inr v" "isValid v"
    and handler: "statusCode (handled env r) < 400"
    and fresh: "endedWith r = None"
  shows
    "(sentHead (settled env (handled env r)) = None \<longrightarrow>
        (\<forall>sr. facilitatorSettle env (decoded\<lparr>x402Version := 1\<rparr>) sel = Inr sr \<and> \<not> success sr \<longrightarrow>
           (\<exists>w. paymentMiddleware env payToAddress routePatterns req r = Inr w
              \<and> calls w = cs @ [CallVerify, CallNext, CallSettle]
              \<and> statusCode (res w) = 402
              \<and> getHeader ''X-PAYMENT-RESPONSE'' (res w) = Some (settleResponseHeader env sr)
              \<and> sentHead (res w) = Some (402, headers (res w))
              \<and> sentBody (res w) = sentBody (settled env (handled env r))
                   @ [JsonChunk \<lparr>bodyVersion = 1,
                        bodyError = (case errorReason sr of
                                       Some reason \<Rightarrow> ErrorText reason | None \<Rightarrow> ErrorUndefined),
                        accepts = reqs, bodyPayer = None\<rparr>]))
        \<and> (\<forall>e. facilitatorSettle env (decoded\<lparr>x402Version := 1\<rparr>) sel = Inl e \<longrightarrow>
           (\<exists>w. paymentMiddleware env payToAddress routePatterns req r = Inr w
              \<and> calls w = cs @ [CallVerify, CallNext, CallSettle]
              \<and> statusCode (res w) = 402
              \<and> getHeader ''X-PAYMENT-RESPONSE'' (res w)
                  = getHeader ''X-PAYMENT-RESPONSE'' (settled env (handled env r))
              \<and> sentHead (res w) = Some (402, headers (res w))
              \<and> sentBody (res w) = sentBody (settled env (handled env r))
                   @ [JsonChunk \<lparr>bodyVersion = 1, bodyError = ErrorObject e,
                        accepts = reqs, bodyPayer = None\<rparr>]))
        \<and> (\<forall>sr. facilitatorSettle env (decoded\<lparr>x402Version := 1\<rparr>) sel = Inr sr \<and> success sr \<longrightarrow>
           (\<exists>w. paymentMiddleware env payToAddress routePatterns req r = Inr w
              \<and> calls w = cs @ [CallVerify, CallNext, CallSettle]
              \<and> statusCode (res w) = statusCode (settled env (handled env r))
              \<and> getHeader ''X-PAYMENT-RESPONSE'' (res w) = Some (settleResponseHeader env sr)
              \<and> (\<forall>args. bufferedEnd (settled env (handled env r)) = Some args \<longrightarrow>
                    endedWith (res w) = Some args
                    \<and> sentHead (res w) = Some (statusCode (res w), headers (res w))
                    \<and> sentBody (res w) = sentBody (settled env (handled env r)) @ chunk_of args))))
     \<and> (sentHead (settled env (handled env r)) \<noteq> None \<longrightarrow>
          paymentMiddleware env payToAddress routePatterns req r
            = Inr \<lparr>calls = cs @ [CallVerify, CallNext, CallSettle],
                   res = flush_buffered (settled env (handled env r))\<rparr>)"
proof -
  let ?d = "decoded\<lparr>x402Version := 1\<rparr>"
  let ?x = "handled env r"
  from handler have run: "paymentMiddleware env payToAddress routePatterns req r =
      and_then (settle_and_flush env reqs ?d sel ?x)
        (\<lambda>r'. Inr \<lparr>calls = cs @ [CallVerify, CallNext, CallSettle], res = r'\<rparr>)"
    unfolding verified_request [OF route built header decoded selected verified]
    by (cases "settle_and_flush env reqs ?d sel ?x") (simp_all add: after_verification_def)
  from fresh have ended: "endedWith (settled env ?x) = None"
    by (simp add: handled_intercepted)
  note intercepted = handled_intercepted(3) [of env r]
  show ?thesis
  proof (intro conjI impI allI)
    fix sr
    assume unsent: "sentHead (settled env ?x) = None"
      and "facilitatorSettle env ?d sel = Inr sr \<and> \<not> success sr"
    with settle_failed_reply [OF unsent ended intercepted, of ?d sel sr reqs] run
    show "\<exists>w. paymentMiddleware env payToAddress routePatterns req r = Inr w
              \<and> calls w = cs @ [CallVerify, CallNext, CallSettle]
              \<and> statusCode (res w) = 402
              \<and> getHeader ''X-PAYMENT-RESPONSE'' (res w) = Some (settleResponseHeader env sr)
              \<and> sentHead (res w) = Some (402, headers (res w))
              \<and> sentBody (res w) = sentBody (settled env (handled env r))
                   @ [JsonChunk \<lparr>bodyVersion = 1,
                        bodyError = (case errorReason sr of
                                       Some reason \<Rightarrow> ErrorText reason | None \<Rightarrow> ErrorUndefined),
                        accepts = reqs, bodyPayer = None\<rparr>]"
      by auto
  next
    fix e
    assume unsent: "sentHead (settled env ?x) = None"
      and "facilitatorSettle env ?d sel = Inl e"
    with settle_thrown_reply [OF unsent ended intercepted, of ?d sel e reqs] run
    show "\<exists>w. paymentMiddleware env payToAddress routePatterns req r = Inr w
              \<and> calls w = cs @ [CallVerify, CallNext, CallSettle]
              \<and> statusCode (res w) = 402
              \<and> getHeader ''X-PAYMENT-RESPONSE'' (res w)
                  = getHeader ''X-PAYMENT-RESPONSE'' (settled env (handled env r))
              \<and> sentHead (res w) = Some (402, headers (res w))
              \<and> sentBody (res w) = sentBody (settled env (handled env r))
                   @ [JsonChunk \<lparr>bodyVersion = 1, bodyError = ErrorObject e,
                        accepts = reqs, bodyPayer = None\<rparr>]"
      by auto
  next
    fix sr
    assume unsent: "sentHead (settled env ?x) = None"
      and "facilitatorSettle env ?d sel = Inr sr \<and> success sr"
    with settle_succeeded [OF unsent, of ?d sel sr reqs] run ended
    show "\<exists>w. paymentMiddleware env payToAddress routePatterns req r = Inr w
              \<and> calls w = cs @ [CallVerify, CallNext, CallSettle]
              \<and> statusCode (res w) = statusCode (settled env (handled env r))
              \<and> getHeader ''X-PAYMENT-RESPONSE'' (res w) = Some (settleResponseHeader env sr)
              \<and> (\<forall>args. bufferedEnd (settled env (handled env r)) = Some args \<longrightarrow>
                    endedWith (res w) = Some args
                    \<and> sentHead (res w) = Some (statusCode (res w), headers (res w))
                    \<and> sentBody (res w) = sentBody (settled env (handled env r)) @ chunk_of args)"
      by auto
  next
    assume "sentHead (settled env ?x) \<noteq> None"
    from settle_after_headers [OF this, of reqs ?d sel] run
    show "paymentMiddleware env payToAddress routePatterns req r
            = Inr \<lparr>calls = cs @ [CallVerify, CallNext, CallSettle],
                   res = flush_buffered (settled env (handled env r))\<rparr>"
      by simp
  qed
qed

lemma streamed_handled:
  "handled (example_server cluster streamed_report late) fresh_response
     = \<lparr>statusCode = 200, headers = [], sentHead = Some (200, []),
        sentBody = [HandlerChunk ''sun''], endedWith = None, endIntercepted = True,
        bufferedEnd = Some (EndArgs (Some (HandlerChunk ''ny'')) None None)\<rparr>"
  by (simp add: example_server_def streamed_report_def fresh_response_def handler_defs
      response_defs)

theorem settlement_replies_witness:
  "(\<exists>w. paymentMiddleware (example_server expired_env weather_report []) ''payToAddress''
           weather_patterns (weather_request (Some ''eyJ4NDAyVmVyc2lvbiI6MX0'')) fresh_response = Inr w
        \<and> calls w = [CallSupported, CallVerify, CallNext, CallSettle]
        \<and> statusCode (res w) = 402
        \<and> getHeader ''X-PAYMENT-RESPONSE'' (res w) = Some ''base64:5signature''
        \<and> sentHead (res w) = Some (402, headers (res w))
        \<and> sentBody (res w) = [JsonChunk \<lparr>bodyVersion = 1,
                                  bodyError = ErrorText ''settle_exact_svm_block_height_exceeded'',
                                  accepts = [example_requirements], bodyPayer = None\<rparr>])
   \<and> (\<exists>w. paymentMiddleware (example_server unsigned_env weather_report []) ''payToAddress''
           weather_patterns (weather_request (Some ''eyJ4NDAyVmVyc2lvbiI6MX0'')) fresh_response = Inr w
        \<and> calls w = [CallSupported, CallVerify, CallNext, CallSettle]
        \<and> statusCode (res w) = 402
        \<and> getHeader ''X-PAYMENT-RESPONSE'' (res w) = None
        \<and> sentHead (res w) = Some (402, headers (res w))
        \<and> sentBody (res w) = [JsonChunk \<lparr>bodyVersion = 1,
                                  bodyError = ErrorObject (LibError ''transaction is missing signatures''),
                                  accepts = [example_requirements], bodyPayer = None\<rparr>])
   \<and> (\<exists>w. paymentMiddleware (example_server example_env weather_report []) ''payToAddress''
           weather_patterns (weather_request (Some ''eyJ4NDAyVmVyc2lvbiI6MX0'')) fresh_response = Inr w
        \<and> calls w = [CallSupported, CallVerify, CallNext, CallSettle]
        \<and> statusCode (res w) = 200
        \<and> getHeader ''X-PAYMENT-RESPONSE'' (res w) = Some ''base64:5signature''
        \<and> endedWith (res w) = Some (EndArgs (Some (HandlerChunk ''sunny'')) None None)
        \<and> sentHead (res w) = Some (200, headers (res w))
        \<and> sentBody (res w) = [HandlerChunk ''sunny''])
   \<and> paymentMiddleware (example_server expired_env streamed_report []) ''payToAddress''
         weather_patterns (weather_request (Some ''eyJ4NDAyVmVyc2lvbiI6MX0'')) fresh_response
       = Inr \<lparr>calls = [CallSupported, CallVerify, CallNext, CallSettle],
              res = \<lparr>statusCode = 200, headers = [], sentHead = Some (200, []),
                     sentBody = [HandlerChunk ''sun'', HandlerChunk ''ny''],
                     endedWith = Some (EndArgs (Some (HandlerChunk ''ny'')) None None),
                     endIntercepted = False,
                     bufferedEnd = Some (EndArgs (Some (HandlerChunk ''ny'')) None None)\<rparr>\<rparr>"
proof -
  let ?header = "''eyJ4NDAyVmVyc2lvbiI6MX0''"
  let ?valid = "\<lparr>isValid = True, invalidReason = None, payer = Some ''clientAddress''\<rparr>"
  have given: "?header \<noteq> []" "isValid ?valid" "endedWith fresh_response = None"
    by (simp_all add: fresh_response_def)
  have decoded: "decodePayment (example_server cluster early late) ?header
                   = Inr example_payload" for cluster early late
    by (simp add: weather_client)
  have selected: "findMatchingPaymentRequirements [example_requirements]
                    (example_payload\<lparr>x402Version := 1\<rparr>) = Some example_requirements"
    by (simp add: weather_selected)
  have verified:
    "facilitatorVerify (example_server expired_env early late)
       (example_payload\<lparr>x402Version := 1\<rparr>) example_requirements = Inr ?valid"
    "facilitatorVerify (example_server unsigned_env early late)
       (example_payload\<lparr>x402Version := 1\<rparr>) example_requirements = Inr ?valid"
    "facilitatorVerify (example_server example_env early late)
       (example_payload\<lparr>x402Version := 1\<rparr>) example_requirements = Inr ?valid"
    for early late
    by (simp_all add: weather_selected weather_client example_verify)
  have settles:
    "facilitatorSettle (example_server expired_env early late)
       (example_payload\<lparr>x402Version := 1\<rparr>) example_requirements
       = Inr \<lparr>success = False, errorReason = Some ''settle_exact_svm_block_height_exceeded'',
              settlePayer = Some ''clientAddress'', transaction = ''5signature'',
              settleNetwork = ''solana-devnet''\<rparr>"
    "facilitatorSettle (example_server unsigned_env early late)
       (example_payload\<lparr>x402Version := 1\<rparr>) example_requirements
       = Inl (LibError ''transaction is missing signatures'')"
    "facilitatorSettle (example_server example_env early late)
       (example_payload\<lparr>x402Version := 1\<rparr>) example_requirements
       = Inr \<lparr>success = True, errorReason = None, settlePayer = Some ''clientAddress'',
              transaction = ''5signature'', settleNetwork = ''solana-devnet''\<rparr>"
    for early late
    by (simp_all add: weather_selected weather_client example_settles unsigned_settle)
  have status: "statusCode (handled (example_server cluster weather_report []) fresh_response) < 400"
    "statusCode (handled (example_server cluster streamed_report []) fresh_response) < 400"
    for cluster
    by (simp_all add: weather_handled streamed_handled)
  note failed = settlement_replies [OF weather_matched
      weather_built [of expired_env weather_report "[]"] weather_client(1) given(1)
      decoded selected verified(1) given(2) status(1) given(3)]
  note thrown = settlement_replies [OF weather_matched
      weather_built [of unsigned_env weather_report "[]"] weather_client(1) given(1)
      decoded selected verified(2) given(2) status(1) given(3)]
  note succeeded = settlement_replies [OF weather_matched
      weather_built [of example_env weather_report "[]"] weather_client(1) given(1)
      decoded selected verified(3) given(2) status(1) given(3)]
  note streamed = settlement_replies [OF weather_matched
      weather_built [of expired_env streamed_report "[]"] weather_client(1) given(1)
      decoded selected verified(1) given(2) status(2) given(3)]
  from failed have c1: "\<exists>w. paymentMiddleware (example_server expired_env weather_report []) ''payToAddress''
           weather_patterns (weather_request (Some ''eyJ4NDAyVmVyc2lvbiI6MX0'')) fresh_response = Inr w
        \<and> calls w = [CallSupported, CallVerify, CallNext, CallSettle]
        \<and> statusCode (res w) = 402
        \<and> getHeader ''X-PAYMENT-RESPONSE'' (res w) = Some ''base64:5signature''
        \<and> sentHead (res w) = Some (402, headers (res w))
        \<and> sentBody (res w) = [JsonChunk \<lparr>bodyVersion = 1,
                                  bodyError = ErrorText ''settle_exact_svm_block_height_exceeded'',
                                  accepts = [example_requirements], bodyPayer = None\<rparr>]"
    by (simp add: weather_selected weather_client(4,5) example_settles unsigned_settle weather_handled)
  from thrown have c2: "\<exists>w. paymentMiddleware (example_server unsigned_env weather_report []) ''payToAddress''
           weather_patterns (weather_request (Some ''eyJ4NDAyVmVyc2lvbiI6MX0'')) fresh_response = Inr w
        \<and> calls w = [CallSupported, CallVerify, CallNext, CallSettle]
        \<and> statusCode (res w) = 402
        \<and> getHeader ''X-PAYMENT-RESPONSE'' (res w) = None
        \<and> sentHead (res w) = Some (402, headers (res w))
        \<and> sentBody (res w) = [JsonChunk \<lparr>bodyVersion = 1,
                                  bodyError = ErrorObject (LibError ''transaction is missing signatures''),
                                  accepts = [example_requirements], bodyPayer = None\<rparr>]"
    by (simp add: weather_selected weather_client(4,5) example_settles unsigned_settle weather_handled
        getHeader_def)
  from succeeded have c3: "\<exists>w. paymentMiddleware (example_server example_env weather_report []) ''payToAddress''
           weather_patterns (weather_request (Some ''eyJ4NDAyVmVyc2lvbiI6MX0'')) fresh_response = Inr w
        \<and> calls w = [CallSupported, CallVerify, CallNext, CallSettle]
        \<and> statusCode (res w) = 200
        \<and> getHeader ''X-PAYMENT-RESPONSE'' (res w) = Some ''base64:5signature''
        \<and> endedWith (res w) = Some (EndArgs (Some (HandlerChunk ''sunny'')) None None)
        \<and> sentHead (res w) = Some (200, headers (res w))
        \<and> sentBody (res w) = [HandlerChunk ''sunny'']"
    by (simp add: weather_selected weather_client(4,5) example_settles unsigned_settle weather_handled
        chunk_of_def) auto
  from streamed have c4: "paymentMiddleware (example_server expired_env streamed_report []) ''payToAddress''
         weather_patterns (weather_request (Some ''eyJ4NDAyVmVyc2lvbiI6MX0'')) fresh_response
       = Inr \<lparr>calls = [CallSupported, CallVerify, CallNext, CallSettle],
              res = \<lparr>statusCode = 200, headers = [], sentHead = Some (200, []),
                     sentBody = [HandlerChunk ''sun'', HandlerChunk ''ny''],
                     endedWith = Some (EndArgs (Some (HandlerChunk ''ny'')) None None),
                     endIntercepted = False,
                     bufferedEnd = Some (EndArgs (Some (HandlerChunk ''ny'')) None None)\<rparr>\<rparr>"
    by (simp add: streamed_handled weather_handled(4) response_defs)
  from c1 c2 c3 c4 show ?thesis by blast
qed

text \<open>
  When the status is 400 or more as the middleware goes on after \<^verbatim>\<open>await next()\<close>, settle
  is not called, and the call of \<^verbatim>\<open>end\<close> that the handler made is carried out.
\<close>

lemma early_error_not_settled:
  assumes "findMatchingRoute routePatterns (reqPath req) (toUpperCase (reqMethod req)) = Some route"
    and "buildPaymentRequirements env payToAddress (config route) req = Inr (cs, reqs)"
    and "xPayment req = Some header" and "header \<noteq> []"
    and "decodePayment env header = Inr decoded"
    and "findMatchingPaymentRequirements reqs (decoded\<lparr>x402Version := 1\<rparr>) = Some sel"
    and "facilitatorVerify env (decoded\<lparr>x402Version := 1\<rparr>) sel = Inr v" and "isValid v"
    and "400 \<le> statusCode (handled env r)"
  shows "paymentMiddleware env payToAddress routePatterns req r
           = Inr \<lparr>calls = cs @ [CallVerify, CallNext], res = flush_buffered (handled env r)\<rparr>"
  unfolding verified_request [OF assms(1-8)] using assms(9)
  by (simp add: after_verification_def)

text \<open>
  C1. A handler that answers with status 500 is met in two ways. When its calls come
  before the middleware goes on after \<^verbatim>\<open>await next()\<close>, settle is not called and the client
  receives the handler's response. When the handler is asynchronous and its calls come
  while the middleware awaits settle, the status is still 200 at the test, settle is
  called and succeeds, and the client receives the handler's response with status 500
  and the \<^verbatim>\<open>X-PAYMENT-RESPONSE\<close> of the settled payment.
\<close>

theorem failing_handler_settlement:
  "paymentMiddleware (example_server example_env weather_failure []) ''payToAddress''
       weather_patterns (weather_request (Some ''eyJ4NDAyVmVyc2lvbiI6MX0'')) fresh_response
     = Inr \<lparr>calls = [CallSupported, CallVerify, CallNext],
            res = \<lparr>statusCode = 500, headers = [(''Content-Type'', ''text/plain'')],
                   sentHead = Some (500, [(''Content-Type'', ''text/plain'')]),
                   sentBody = [HandlerChunk ''station offline''],
                   endedWith = Some (EndArgs (Some (HandlerChunk ''station offline'')) None None),
                   endIntercepted = False,
                   bufferedEnd = Some (EndArgs (Some (HandlerChunk ''station offline'')) None None)\<rparr>\<rparr>
   \<and> paymentMiddleware (example_server example_env [] weather_failure) ''payToAddress''
       weather_patterns (weather_request (Some ''eyJ4NDAyVmVyc2lvbiI6MX0'')) fresh_response
     = Inr \<lparr>calls = [CallSupported, CallVerify, CallNext, CallSettle],
            res = \<lparr>statusCode = 500,
                   headers = [(''X-PAYMENT-RESPONSE'', ''base64:5signature''),
                              (''Content-Type'', ''text/plain'')],
                   sentHead = Some (500, [(''X-PAYMENT-RESPONSE'', ''base64:5signature''),
                                          (''Content-Type'', ''text/plain'')]),
                   sentBody = [HandlerChunk ''station offline''],
                   endedWith = Some (EndArgs (Some (HandlerChunk ''station offline'')) None None),
                   endIntercepted = False,
                   bufferedEnd = Some (EndArgs (Some (HandlerChunk ''station offline'')) None None)\<rparr>\<rparr>"
proof -
  let ?valid = "\<lparr>isValid = True, invalidReason = None, payer = Some ''clientAddress''\<rparr>"
  have early: "paymentMiddleware (example_server example_env weather_failure []) ''payToAddress''
       weather_patterns (weather_request (Some ''eyJ4NDAyVmVyc2lvbiI6MX0'')) fresh_response
     = Inr \<lparr>calls = [CallSupported] @ [CallVerify, CallNext],
            res = flush_buffered (handled (example_server example_env weather_failure []) fresh_response)\<rparr>"
    by (rule early_error_not_settled [where route = weather_route
          and header = "''eyJ4NDAyVmVyc2lvbiI6MX0''" and v = ?valid and decoded = example_payload
          and sel = example_requirements and reqs = "[example_requirements]"
          and cs = "[CallSupported]"])
       (simp_all add: weather_matched weather_built weather_client weather_selected example_verify
          weather_handled)
  have late: "paymentMiddleware (example_server example_env [] weather_failure) ''payToAddress''
         weather_patterns (weather_request (Some ''eyJ4NDAyVmVyc2lvbiI6MX0'')) fresh_response
     = and_then (after_verification (example_server example_env [] weather_failure)
                   [example_requirements] (example_payload\<lparr>x402Version := 1\<rparr>)
                   example_requirements fresh_response)
         (\<lambda>w. Inr (w\<lparr>calls := [CallSupported] @ CallVerify # calls w\<rparr>))"
    by (rule verified_request [where route = weather_route
          and header = "''eyJ4NDAyVmVyc2lvbiI6MX0''" and v = ?valid])
       (simp_all add: weather_matched weather_built weather_client weather_selected example_verify)
  have window: "settled (example_server example_env [] weather_failure) (fresh_response\<lparr>endIntercepted := True\<rparr>)
     = \<lparr>statusCode = 500, headers = [(''Content-Type'', ''text/plain'')], sentHead = None,
        sentBody = [], endedWith = None, endIntercepted = True,
        bufferedEnd = Some (EndArgs (Some (HandlerChunk ''station offline'')) None None)\<rparr>"
    by (simp add: example_server_def weather_failure_def fresh_response_def handler_defs
        response_defs)
  have status: "statusCode fresh_response = 200"
    by (simp add: fresh_response_def)
  from early have first: "paymentMiddleware (example_server example_env weather_failure []) ''payToAddress''
       weather_patterns (weather_request (Some ''eyJ4NDAyVmVyc2lvbiI6MX0'')) fresh_response
     = Inr \<lparr>calls = [CallSupported, CallVerify, CallNext],
            res = \<lparr>statusCode = 500, headers = [(''Content-Type'', ''text/plain'')],
                   sentHead = Some (500, [(''Content-Type'', ''text/plain'')]),
                   sentBody = [HandlerChunk ''station offline''],
                   endedWith = Some (EndArgs (Some (HandlerChunk ''station offline'')) None None),
                   endIntercepted = False,
                   bufferedEnd = Some (EndArgs (Some (HandlerChunk ''station offline'')) None None)\<rparr>\<rparr>"
    by (simp add: weather_handled response_defs)
  from late have second: "paymentMiddleware (example_server example_env [] weather_failure) ''payToAddress''
       weather_patterns (weather_request (Some ''eyJ4NDAyVmVyc2lvbiI6MX0'')) fresh_response
     = Inr \<lparr>calls = [CallSupported, CallVerify, CallNext, CallSettle],
            res = \<lparr>statusCode = 500,
                   headers = [(''X-PAYMENT-RESPONSE'', ''base64:5signature''),
                              (''Content-Type'', ''text/plain'')],
                   sentHead = Some (500, [(''X-PAYMENT-RESPONSE'', ''base64:5signature''),
                                          (''Content-Type'', ''text/plain'')]),
                   sentBody = [HandlerChunk ''station offline''],
                   endedWith = Some (EndArgs (Some (HandlerChunk ''station offline'')) None None),
                   endIntercepted = False,
                   bufferedEnd = Some (EndArgs (Some (HandlerChunk ''station offline'')) None None)\<rparr>\<rparr>"
    by (simp add: weather_selected example_settles after_verification_def weather_handled window
        settle_and_flush_def settle_try_catch_def weather_client response_defs status)
  from first second show ?thesis by simp
qed


end
